theory Spec2Isabelle
  imports Main "HOL-Library.Word" "HOL-Library.Multiset"
begin

unbundle bit_operations_syntax

section \<open>Common types\<close>

text \<open>
  Vulkan handles are opaque; the model identifies each by a natural number handed out by the
  logical device. Failures of the C++ code (a thrown \<open>std::runtime_error\<close>, a failed
  \<open>assert\<close> in a build without \<open>NDEBUG\<close>, an out-of-range \<open>operator[]\<close>) are values of
  the type \<open>error\<close>; a fallible function returns \<open>error + 'a\<close> with \<open>Inl\<close> for the failure.
\<close>

type_synonym handle = nat

datatype error =
    RuntimeError string
  | AssertionFailed string
  | OutOfRange string

text \<open>
  Reading \<open>v[i]\<close> from a \<open>std::vector\<close> is undefined behaviour out of range; the model
  reports it. \<open>bindE\<close> runs the next step only when the one before has not failed.
\<close>

definition at :: "'a list \<Rightarrow> nat \<Rightarrow> string \<Rightarrow> error + 'a" where
  "at xs i what = (if i < length xs then Inr (xs ! i) else Inl (OutOfRange what))"

definition bindE :: "error + 'a \<Rightarrow> ('a \<Rightarrow> error + 'b) \<Rightarrow> error + 'b" where
  "bindE m f = (case m of Inl e \<Rightarrow> Inl e | Inr x \<Rightarrow> f x)"

section \<open>Presentation surface manager\<close>

datatype PresentModeKHR =
    eImmediate | eMailbox | eFifo | eFifoRelaxed | eSharedDemandRefresh | eSharedContinuousRefresh

text \<open>
  \<open>SwapchainManager::chooseSwapPresentMode\<close>: the first statement throws when FIFO is not
  among the offered modes; only after that check is Mailbox preferred over FIFO.
\<close>

definition chooseSwapPresentMode :: "PresentModeKHR list \<Rightarrow> error + PresentModeKHR" where
  "chooseSwapPresentMode availablePresentModes =
     (if \<not> list_ex (\<lambda>presentMode. presentMode = eFifo) availablePresentModes
      then Inl (RuntimeError ''Vulkan driver missing mandatory FIFO present mode (spec violation)'')
      else Inr (if list_ex (\<lambda>v. eMailbox = v) availablePresentModes then eMailbox else eFifo))"

section \<open>Ray-tracing instance custom index\<close>

text \<open>
  \<open>EngineCore::recordCommandBuffer\<close>, lines 706-717. \<open>node->modelId\<close> is an \<open>int\<close> and
  \<open>primitiveOffset\<close> a \<open>uint32_t\<close>; the shift is done on the 32-bit pattern and the
  result of \<open>|\<close> is a \<open>uint32_t\<close>. The field \<open>instanceCustomIndex\<close> of
  \<open>VkAccelerationStructureInstanceKHR\<close> is a 24-bit bit-field, so the assignment keeps the
  low 24 bits.
\<close>

type_synonym int32 = "32 word"
type_synonym uint32 = "32 word"
type_synonym uint64 = "64 word"

definition customIndex :: "int32 \<Rightarrow> uint32 \<Rightarrow> uint32" where
  "customIndex modelId primitiveOffset = (push_bit 14 modelId) OR (primitiveOffset AND 0x3FFF)"

definition customIndexField :: "uint32 \<Rightarrow> uint32" where
  "customIndexField v = take_bit 24 v"

section \<open>Device context: physical device selection\<close>

text \<open>
  \<open>VulkanDevice::pickPhysicalDevice\<close>. A physical device is what the driver reports:
  its properties, the flags of its queue families, the names of its extensions and its memory
  heaps. The numeric constants are those of the Vulkan headers:
  \<open>VK_API_VERSION_1_4 = (1 << 22) | (4 << 12)\<close>, \<open>VK_QUEUE_GRAPHICS_BIT = 1\<close>,
  \<open>VK_MEMORY_HEAP_DEVICE_LOCAL_BIT = 1\<close>.
\<close>

datatype PhysicalDeviceType = eOther | eIntegratedGpu | eDiscreteGpu | eVirtualGpu | eCpu

record MemoryHeap =
  heapSize :: uint64
  heapFlags :: uint32

record PhysicalDevice =
  deviceName :: string
  apiVersion :: uint32
  deviceType :: PhysicalDeviceType
  queueFamilyFlags :: "uint32 list"
  deviceExtensions :: "string list"
  memoryHeaps :: "MemoryHeap list"

definition VK_API_VERSION_1_4 :: uint32 where
  "VK_API_VERSION_1_4 = 4210688"

definition requiredDeviceExtension :: "string list" where
  "requiredDeviceExtension =
     [''VK_KHR_swapchain'', ''VK_KHR_create_renderpass2'', ''VK_EXT_descriptor_indexing'',
      ''VK_KHR_acceleration_structure'', ''VK_KHR_ray_tracing_pipeline'',
      ''VK_KHR_deferred_host_operations'']"

definition supportsVulkan1_4 :: "PhysicalDevice \<Rightarrow> bool" where
  "supportsVulkan1_4 device = (apiVersion device \<ge> VK_API_VERSION_1_4)"

definition supportsGraphics :: "PhysicalDevice \<Rightarrow> bool" where
  "supportsGraphics device = list_ex (\<lambda>queueFlags. queueFlags AND 1 \<noteq> 0) (queueFamilyFlags device)"

definition supportsAllExtensions :: "PhysicalDevice \<Rightarrow> bool" where
  "supportsAllExtensions device =
     list_all (\<lambda>req. list_ex (\<lambda>avail. avail = req) (deviceExtensions device))
       requiredDeviceExtension"

text \<open>
  The score is a \<open>uint32_t\<close>: 10000 for a discrete GPU, 1000 for an integrated one, and
  on top of that the size in MiB of every device-local heap (a 64-bit size divided by
  \<open>1024 * 1024\<close>, then cast to 32 bits).
\<close>

definition deviceScore :: "PhysicalDevice \<Rightarrow> uint32" where
  "deviceScore device =
     foldl (\<lambda>score heap.
              if heapFlags heap AND 1 \<noteq> 0
              then score + ucast (heapSize heap div 1048576) else score)
       (if deviceType device = eDiscreteGpu then 10000
        else if deviceType device = eIntegratedGpu then 1000 else 0)
       (memoryHeaps device)"

fun scoreDevices :: "PhysicalDevice list \<Rightarrow> (uint32 \<times> PhysicalDevice) list" where
  "scoreDevices [] = []"
| "scoreDevices (device # devices) =
     (if \<not> supportsVulkan1_4 device \<or> \<not> supportsGraphics device \<or> \<not> supportsAllExtensions device
      then scoreDevices devices
      else (deviceScore device, device) # scoreDevices devices)"

text \<open>
  \<open>std::ranges::sort\<close> with the comparator \<open>a.score > b.score\<close>, written as an
  insertion sort. The library sort is not stable, so the order among equal scores is the
  model's choice; the first element has the greatest score under every such sort.
\<close>

fun insertByScore ::
  "(uint32 \<times> PhysicalDevice) \<Rightarrow> (uint32 \<times> PhysicalDevice) list \<Rightarrow> (uint32 \<times> PhysicalDevice) list"
where
  "insertByScore a [] = [a]"
| "insertByScore a (b # bs) = (if fst b > fst a then b # insertByScore a bs else a # b # bs)"

fun sortByScore :: "(uint32 \<times> PhysicalDevice) list \<Rightarrow> (uint32 \<times> PhysicalDevice) list" where
  "sortByScore [] = []"
| "sortByScore (a # as) = insertByScore a (sortByScore as)"

definition pickPhysicalDevice :: "PhysicalDevice list \<Rightarrow> error + PhysicalDevice" where
  "pickPhysicalDevice devices =
     (case sortByScore (scoreDevices devices) of
        [] \<Rightarrow> Inl (RuntimeError ''failed to find a suitable GPU!'')
      | scored # _ \<Rightarrow> Inr (snd scored))"

section \<open>Scene nodes, bounding boxes and the octree\<close>

text \<open>
  A \<open>float\<close> is its IEEE-754 binary32 bit pattern. Comparison is defined on the pattern:
  a NaN compares false with everything, and the two zeros are equal. Arithmetic on floats
  is not defined here; the three operations the code uses are taken as parameters
  (\<open>FloatOps\<close>), so every statement below holds for any rounding behaviour.
\<close>

type_synonym float32 = "32 word"
type_synonym vec3 = "float32 \<times> float32 \<times> float32"
type_synonym vec4 = "float32 \<times> float32 \<times> float32 \<times> float32"

datatype mat4 = Mat4 vec4 vec4 vec4 vec4

record FloatOps =
  fadd :: "float32 \<Rightarrow> float32 \<Rightarrow> float32"
  fsub :: "float32 \<Rightarrow> float32 \<Rightarrow> float32"
  fmul :: "float32 \<Rightarrow> float32 \<Rightarrow> float32"

definition isNaN :: "float32 \<Rightarrow> bool" where
  "isNaN f = (take_bit 31 f > 0x7F800000)"

definition floatKey :: "float32 \<Rightarrow> int" where
  "floatKey f = (if bit f 31 then - uint (take_bit 31 f) else uint (take_bit 31 f))"

definition fle :: "float32 \<Rightarrow> float32 \<Rightarrow> bool" where
  "fle a b = (\<not> isNaN a \<and> \<not> isNaN b \<and> floatKey a \<le> floatKey b)"

definition fge :: "float32 \<Rightarrow> float32 \<Rightarrow> bool" where
  "fge a b = fle b a"

record AABB =
  aabb_min :: vec3
  aabb_max :: vec3

definition AABB_contains :: "AABB \<Rightarrow> vec3 \<Rightarrow> bool" where
  "AABB_contains box point =
     (case point of (x, y, z) \<Rightarrow>
      case aabb_min box of (minx, miny, minz) \<Rightarrow>
      case aabb_max box of (maxx, maxy, maxz) \<Rightarrow>
        fge x minx \<and> fle x maxx \<and> fge y miny \<and> fle y maxy \<and> fge z minz \<and> fle z maxz)"

definition AABB_intersects :: "AABB \<Rightarrow> AABB \<Rightarrow> bool" where
  "AABB_intersects box other =
     (case aabb_min box of (minx, miny, minz) \<Rightarrow>
      case aabb_max box of (maxx, maxy, maxz) \<Rightarrow>
      case aabb_min other of (ominx, ominy, ominz) \<Rightarrow>
      case aabb_max other of (omaxx, omaxy, omaxz) \<Rightarrow>
        (fle minx omaxx \<and> fge maxx ominx) \<and> (fle miny omaxy \<and> fge maxy ominy) \<and>
        (fle minz omaxz \<and> fge maxz ominz))"

text \<open>
  Scene nodes are shared objects (\<open>std::shared_ptr<SceneNode>\<close>): the octree and the flat
  node list hold pointers, and a node's transform is read through the pointer each time.
  A node is therefore an identifier, and its fields live in a store that the physics step
  and the editor update without touching the octree. \<open>worldTransform\<close> is the value of
  \<open>getWorldTransform()\<close> (the product of the local transforms up to the root), a
  \<open>glm::mat4\<close> given by its four columns; the world position is its last column.
\<close>

type_synonym nodeId = nat

datatype ColliderType = Sphere | Box | Cylinder | NoCollider

record PhysicsProperties =
  enabled :: bool
  isStatic :: bool
  colliderType :: ColliderType
  mass :: float32
  friction :: float32
  restitution :: float32
  velocity :: vec3
  acceleration :: vec3
  radius :: float32
  halfExtents :: vec3

record SceneNode =
  position :: vec3
  worldTransform :: mat4
  meshIndices :: "int32 list"
  modelId :: int32
  physics :: PhysicsProperties

type_synonym NodeStore = "nodeId \<Rightarrow> SceneNode"

definition getWorldPosition :: "NodeStore \<Rightarrow> nodeId \<Rightarrow> vec3" where
  "getWorldPosition store node =
     (case worldTransform (store node) of Mat4 c0 c1 c2 (x, y, z, w) \<Rightarrow> (x, y, z))"

text \<open>
  \<open>Octree\<close>: \<open>children\<close> is an array of eight owning pointers that are either all null
  or all set, modelled as the empty list or a list of eight subtrees. \<open>capacity\<close> is an
  \<open>int\<close>; in \<open>nodes.size() < capacity\<close> it is converted to \<open>size_t\<close>.
\<close>

datatype Octree =
  Octree (boundary: AABB) (capacity: int32) (nodes: "nodeId list") (children: "Octree list")

definition capacityAsSize :: "int32 \<Rightarrow> nat" where
  "capacityAsSize c = unat (scast c :: 64 word)"

definition half :: float32 where
  "half = 0x3F000000"

definition subdivide :: "FloatOps \<Rightarrow> AABB \<Rightarrow> int32 \<Rightarrow> Octree list" where
  "subdivide ops b cap =
     (case aabb_min b of (minx, miny, minz) \<Rightarrow>
      case aabb_max b of (maxx, maxy, maxz) \<Rightarrow>
      let cx = fmul ops (fadd ops minx maxx) half;
          cy = fmul ops (fadd ops miny maxy) half;
          cz = fmul ops (fadd ops minz maxz) half
      in [Octree \<lparr>aabb_min = (minx, miny, minz), aabb_max = (cx, cy, cz)\<rparr> cap [] [],
          Octree \<lparr>aabb_min = (cx, miny, minz), aabb_max = (maxx, cy, cz)\<rparr> cap [] [],
          Octree \<lparr>aabb_min = (minx, miny, cz), aabb_max = (cx, cy, maxz)\<rparr> cap [] [],
          Octree \<lparr>aabb_min = (cx, miny, cz), aabb_max = (maxx, cy, maxz)\<rparr> cap [] [],
          Octree \<lparr>aabb_min = (minx, cy, minz), aabb_max = (cx, maxy, cz)\<rparr> cap [] [],
          Octree \<lparr>aabb_min = (cx, cy, minz), aabb_max = (maxx, maxy, cz)\<rparr> cap [] [],
          Octree \<lparr>aabb_min = (minx, cy, cz), aabb_max = (cx, maxy, maxz)\<rparr> cap [] [],
          Octree \<lparr>aabb_min = (cx, cy, cz), aabb_max = (maxx, maxy, maxz)\<rparr> cap [] []])"

text \<open>
  The loop \<open>for (auto &child : children) if (child->insert(node)) return true;\<close>, given
  the insertion into one child. A child that refuses the node is left as it was.
\<close>

fun insertIntoChildren ::
  "(Octree \<Rightarrow> (bool \<times> Octree) option) \<Rightarrow> Octree list \<Rightarrow> (bool \<times> Octree list) option"
where
  "insertIntoChildren ins [] = Some (False, [])"
| "insertIntoChildren ins (child # rest) =
     (case ins child of
        None \<Rightarrow> None
      | Some (True, child') \<Rightarrow> Some (True, child' # rest)
      | Some (False, child') \<Rightarrow>
          (case insertIntoChildren ins rest of
             None \<Rightarrow> None
           | Some (ok, rest') \<Rightarrow> Some (ok, child' # rest')))"

text \<open>
  \<open>Octree::insert\<close>. The recursion descends one level per call and, with a capacity of
  zero, never ends (every fresh child subdivides again); the first argument bounds the
  depth, and \<open>None\<close> says the bound was reached. The result pairs the returned \<open>bool\<close> with
  the updated subtree.
\<close>

fun Octree_insert ::
  "nat \<Rightarrow> FloatOps \<Rightarrow> NodeStore \<Rightarrow> nodeId \<Rightarrow> Octree \<Rightarrow> (bool \<times> Octree) option"
where
  "Octree_insert 0 ops store node t = None"
| "Octree_insert (Suc depth) ops store node t =
     (if \<not> AABB_contains (boundary t) (getWorldPosition store node) then Some (False, t)
      else if length (nodes t) < capacityAsSize (capacity t) \<and> children t = []
      then Some (True, Octree (boundary t) (capacity t) (nodes t @ [node]) (children t))
      else
        (case insertIntoChildren (\<lambda>child. Octree_insert depth ops store node child)
                (if children t = [] then subdivide ops (boundary t) (capacity t) else children t)
         of None \<Rightarrow> None
          | Some (True, cs) \<Rightarrow> Some (True, Octree (boundary t) (capacity t) (nodes t) cs)
          | Some (False, cs) \<Rightarrow>
              Some (True, Octree (boundary t) (capacity t) (nodes t @ [node]) cs)))"

text \<open>
  \<open>Octree::query\<close> appends to \<open>found\<close>. A subtree whose boundary does not intersect the
  range is skipped whole; inside a visited subtree each stored node is tested with its
  current world position.
\<close>

fun Octree_query :: "NodeStore \<Rightarrow> AABB \<Rightarrow> Octree \<Rightarrow> nodeId list \<Rightarrow> nodeId list" where
  "Octree_query store rng (Octree b cap ns cs) found =
     (if \<not> AABB_intersects b rng then found
      else foldl (\<lambda>acc child. Octree_query store rng child acc)
             (found @ filter (\<lambda>node. AABB_contains rng (getWorldPosition store node)) ns)
             cs)"

section \<open>Logical device: handles and formats\<close>

text \<open>
  The objects of \<open>vk::raii\<close> destroy their Vulkan handle when they are cleared or
  overwritten. The logical device of the model hands out fresh handles and keeps the set of
  those still alive, so that destroying and recreating a resource is visible. Allocation
  failures of the driver itself (out of memory) are not represented: a call into Vulkan
  returns. What the driver answers is part of the device: the format properties, the
  property flags of the memory types of the physical device, and the \<open>memoryTypeBits\<close> it
  reports for an image (by width, height, format, tiling, usage and layer count) and for a
  buffer (by usage).
\<close>

datatype Format =
    eD32Sfloat | eD32SfloatS8Uint | eD24UnormS8Uint | eR16G16B16A16Sfloat | eB8G8R8A8Srgb
  | eOtherFormat nat

datatype ImageTiling = eOptimal | eLinear

record Device =
  nextHandle :: handle
  liveHandles :: "handle set"
  formatProperties :: "Format \<Rightarrow> uint32 \<times> uint32"
  memoryTypes :: "uint32 list"
  imageMemoryTypeBits ::
    "uint32 \<Rightarrow> uint32 \<Rightarrow> Format \<Rightarrow> ImageTiling \<Rightarrow> uint32 \<Rightarrow> uint32 \<Rightarrow> uint32"
  bufferMemoryTypeBits :: "uint32 \<Rightarrow> uint32"

definition createHandle :: "Device \<Rightarrow> handle \<times> Device" where
  "createHandle dev =
     (nextHandle dev,
      dev\<lparr>nextHandle := Suc (nextHandle dev),
          liveHandles := insert (nextHandle dev) (liveHandles dev)\<rparr>)"

fun createHandles :: "nat \<Rightarrow> Device \<Rightarrow> handle list \<times> Device" where
  "createHandles 0 dev = ([], dev)"
| "createHandles (Suc n) dev =
     (case createHandle dev of (h, dev1) \<Rightarrow>
      case createHandles n dev1 of (hs, dev2) \<Rightarrow> (h # hs, dev2))"

definition destroyHandles :: "handle list \<Rightarrow> Device \<Rightarrow> Device" where
  "destroyHandles hs dev = dev\<lparr>liveHandles := liveHandles dev - set hs\<rparr>"

text \<open>
  \<open>VulkanDevice::findSupportedFormat\<close> and \<open>findDepthFormat\<close>. The pair returned by
  \<open>formatProperties\<close> is (\<open>linearTilingFeatures\<close>, \<open>optimalTilingFeatures\<close>);
  \<open>VK_FORMAT_FEATURE_DEPTH_STENCIL_ATTACHMENT_BIT = 0x200\<close>.
\<close>

fun findSupportedFormat ::
  "Device \<Rightarrow> Format list \<Rightarrow> ImageTiling \<Rightarrow> uint32 \<Rightarrow> error + Format"
where
  "findSupportedFormat dev [] tiling features =
     Inl (RuntimeError ''failed to find supported format!'')"
| "findSupportedFormat dev (format # candidates) tiling features =
     (if tiling = eLinear \<and> (fst (formatProperties dev format) AND features) = features
      then Inr format
      else if tiling = eOptimal \<and> (snd (formatProperties dev format) AND features) = features
      then Inr format
      else findSupportedFormat dev candidates tiling features)"

definition findDepthFormat :: "Device \<Rightarrow> error + Format" where
  "findDepthFormat dev =
     findSupportedFormat dev [eD32Sfloat, eD32SfloatS8Uint, eD24UnormS8Uint] eOptimal 0x200"

text \<open>
  \<open>VulkanUtils::findMemoryType\<close>: the first memory type \<open>i\<close> whose bit is set in
  \<open>typeFilter\<close> and whose property flags include \<open>properties\<close>; it throws when there is
  none. A physical device has at most 32 memory types, so \<open>1 << i\<close> is a bit of a 32-bit
  word.
\<close>

fun findMemoryTypeFrom :: "nat \<Rightarrow> uint32 list \<Rightarrow> uint32 \<Rightarrow> uint32 \<Rightarrow> error + uint32" where
  "findMemoryTypeFrom i [] typeFilter properties =
     Inl (RuntimeError ''failed to find suitable memory type!'')"
| "findMemoryTypeFrom i (propertyFlags # later) typeFilter properties =
     (if typeFilter AND push_bit i 1 \<noteq> 0 \<and> propertyFlags AND properties = properties
      then Inr (word_of_nat i)
      else findMemoryTypeFrom (Suc i) later typeFilter properties)"

definition findMemoryType :: "Device \<Rightarrow> uint32 \<Rightarrow> uint32 \<Rightarrow> error + uint32" where
  "findMemoryType dev typeFilter properties =
     findMemoryTypeFrom 0 (memoryTypes dev) typeFilter properties"

text \<open>
  \<open>VulkanUtils::createImage\<close> and \<open>createBuffer\<close>: the image or buffer is created first,
  then a memory type is looked up for its requirements, then the memory is allocated and
  bound. When the lookup throws, the object just created is destroyed with the caller's
  local variable while the exception travels up. Usage and memory property flags are the
  numbers of \<open>vulkan_core.h\<close>: image usage \<open>eTransferSrc = 0x1\<close>, \<open>eSampled = 0x4\<close>,
  \<open>eStorage = 0x8\<close>, \<open>eDepthStencilAttachment = 0x20\<close>; buffer usage
  \<open>eTransferSrc = 0x1\<close>, \<open>eTransferDst = 0x2\<close>, \<open>eUniformBuffer = 0x10\<close>,
  \<open>eStorageBuffer = 0x20\<close>, \<open>eShaderDeviceAddress = 0x20000\<close>,
  \<open>eAccelerationStructureBuildInputReadOnlyKHR = 0x80000\<close>,
  \<open>eAccelerationStructureStorageKHR = 0x100000\<close>; memory properties
  \<open>eDeviceLocal = 0x1\<close>, \<open>eHostVisible = 0x2\<close>, \<open>eHostCoherent = 0x4\<close>. The size of a
  buffer is not represented.
\<close>

definition createImage ::
  "Device \<Rightarrow> uint32 \<Rightarrow> uint32 \<Rightarrow> Format \<Rightarrow> ImageTiling \<Rightarrow> uint32 \<Rightarrow> uint32 \<Rightarrow> uint32 \<Rightarrow>
   error + ((handle \<times> handle) \<times> Device)"
where
  "createImage dev w h format tiling usage properties arrayLayers =
     (case createHandle dev of (img, dev1) \<Rightarrow>
        (case findMemoryType dev1
                (imageMemoryTypeBits dev1 w h format tiling usage arrayLayers) properties of
           Inl e \<Rightarrow> Inl e
         | Inr memoryTypeIndex \<Rightarrow>
             (case createHandle dev1 of (imageMemory, dev2) \<Rightarrow>
                Inr ((img, imageMemory), dev2))))"

definition createBuffer ::
  "Device \<Rightarrow> uint32 \<Rightarrow> uint32 \<Rightarrow> error + ((handle \<times> handle) \<times> Device)"
where
  "createBuffer dev usage properties =
     (case createHandle dev of (buffer, dev1) \<Rightarrow>
        (case findMemoryType dev1 (bufferMemoryTypeBits dev1 usage) properties of
           Inl e \<Rightarrow> Inl e
         | Inr memoryTypeIndex \<Rightarrow>
             (case createHandle dev1 of (bufferMemory, dev2) \<Rightarrow>
                Inr ((buffer, bufferMemory), dev2))))"

section \<open>Presentation surface manager: the swapchain\<close>

datatype ColorSpaceKHR = eSrgbNonlinear | eOtherColorSpace nat

record Extent2D =
  width :: uint32
  height :: uint32

record SurfaceFormatKHR =
  format :: Format
  colorSpace :: ColorSpaceKHR

record SurfaceCapabilitiesKHR =
  currentExtent :: Extent2D
  minImageExtent :: Extent2D
  maxImageExtent :: Extent2D
  minImageCount :: uint32
  maxImageCount :: uint32

text \<open>
  What the window system answers while a swapchain is created: the surface capabilities,
  formats and present modes, the framebuffer size GLFW reports (two \<open>int\<close>s), and how
  many images the driver puts into the new chain.
\<close>

record Surface =
  capabilities :: SurfaceCapabilitiesKHR
  surfaceFormats :: "SurfaceFormatKHR list"
  presentModes :: "PresentModeKHR list"
  framebufferSize :: "int32 \<times> int32"
  chainLength :: nat

record SwapchainManager =
  framebufferResized :: bool
  swapChain :: "handle option"
  images :: "handle list"
  surfaceFormat :: SurfaceFormatKHR
  extent :: Extent2D
  imageViews :: "handle list"

definition clamp_u32 :: "uint32 \<Rightarrow> uint32 \<Rightarrow> uint32 \<Rightarrow> uint32" where
  "clamp_u32 v lo hi = (if v < lo then lo else if hi < v then hi else v)"

definition chooseSwapExtent :: "SurfaceCapabilitiesKHR \<Rightarrow> int32 \<times> int32 \<Rightarrow> Extent2D" where
  "chooseSwapExtent caps fb =
     (if width (currentExtent caps) \<noteq> 0xFFFFFFFF then currentExtent caps
      else \<lparr>width = clamp_u32 (fst fb) (width (minImageExtent caps)) (width (maxImageExtent caps)),
            height = clamp_u32 (snd fb) (height (minImageExtent caps)) (height (maxImageExtent caps))\<rparr>)"

definition chooseSwapMinImageCount :: "SurfaceCapabilitiesKHR \<Rightarrow> uint32" where
  "chooseSwapMinImageCount caps =
     (let minCount = max 3 (minImageCount caps)
      in if 0 < maxImageCount caps \<and> maxImageCount caps < minCount
         then maxImageCount caps else minCount)"

definition chooseSwapSurfaceFormat :: "SurfaceFormatKHR list \<Rightarrow> error + SurfaceFormatKHR" where
  "chooseSwapSurfaceFormat availableFormats =
     (case availableFormats of
        [] \<Rightarrow> Inl (RuntimeError ''No swap chain surface formats available'')
      | first # _ \<Rightarrow>
          (case find (\<lambda>f. format f = eB8G8R8A8Srgb \<and> colorSpace f = eSrgbNonlinear)
                  availableFormats
           of Some f \<Rightarrow> Inr f | None \<Rightarrow> Inr first))"

text \<open>
  \<open>SwapchainManager::createSwapChain\<close>, \<open>createImageViews\<close>, \<open>init\<close> and \<open>cleanup\<close>.
  The images belong to the chain; only the chain and the views are destroyed by hand.
  \<open>ndebug\<close> says whether the build defines \<open>NDEBUG\<close>, that is, whether \<open>assert\<close> is
  compiled out.
\<close>

definition createSwapChain ::
  "Device \<Rightarrow> Surface \<Rightarrow> SwapchainManager \<Rightarrow> error + (Device \<times> SwapchainManager)"
where
  "createSwapChain dev surface sc =
     (case chooseSwapSurfaceFormat (surfaceFormats surface) of
        Inl e \<Rightarrow> Inl e
      | Inr fmt \<Rightarrow>
          (case chooseSwapPresentMode (presentModes surface) of
             Inl e \<Rightarrow> Inl e
           | Inr mode \<Rightarrow>
               (case createHandle dev of
                  (chain, dev1) \<Rightarrow>
                    (case createHandles (chainLength surface)
                            (case swapChain sc of None \<Rightarrow> dev1
                             | Some old \<Rightarrow> destroyHandles [old] dev1) of
                       (imgs, dev2) \<Rightarrow>
                         Inr (dev2,
                              sc\<lparr>extent := chooseSwapExtent (capabilities surface)
                                              (framebufferSize surface),
                                 surfaceFormat := fmt,
                                 swapChain := Some chain,
                                 images := imgs\<rparr>)))))"

definition createImageViews ::
  "bool \<Rightarrow> Device \<Rightarrow> SwapchainManager \<Rightarrow> error + (Device \<times> SwapchainManager)"
where
  "createImageViews ndebug dev sc =
     (if \<not> ndebug \<and> imageViews sc \<noteq> [] then Inl (AssertionFailed ''imageViews.empty()'')
      else (case createHandles (length (images sc)) dev of
              (views, dev1) \<Rightarrow> Inr (dev1, sc\<lparr>imageViews := imageViews sc @ views\<rparr>)))"

definition SwapchainManager_init ::
  "bool \<Rightarrow> Device \<Rightarrow> Surface \<Rightarrow> SwapchainManager \<Rightarrow> error + (Device \<times> SwapchainManager)"
where
  "SwapchainManager_init ndebug dev surface sc =
     (case createSwapChain dev surface sc of
        Inl e \<Rightarrow> Inl e
      | Inr (dev1, sc1) \<Rightarrow> createImageViews ndebug dev1 sc1)"

definition SwapchainManager_cleanup :: "Device \<Rightarrow> SwapchainManager \<Rightarrow> Device \<times> SwapchainManager" where
  "SwapchainManager_cleanup dev sc =
     (destroyHandles (case swapChain sc of None \<Rightarrow> [] | Some chain \<Rightarrow> [chain])
        (destroyHandles (imageViews sc) dev),
      sc\<lparr>imageViews := [], swapChain := None\<rparr>)"

section \<open>Frame resource pool\<close>

definition MAX_FRAMES_IN_FLIGHT :: nat where
  "MAX_FRAMES_IN_FLIGHT = 2"

definition NUM_SHADOW_CASCADES :: nat where
  "NUM_SHADOW_CASCADES = 4"

definition MAX_TLAS_INSTANCES :: nat where
  "MAX_TLAS_INSTANCES = 10000"

text \<open>
  \<open>FrameContext\<close>, field by field as in \<open>FrameContext.h\<close>. Mapped pointers and device
  addresses are identified with handles of their own.
\<close>

record FrameContext =
  shadowImages :: "handle list"
  shadowImagesMemory :: "handle list"
  shadowCascadeViews :: "handle list"
  shadowArrayViews :: "handle list"
  shadowSampler :: "handle option"
  frameIndex :: uint32
  commandPool :: "handle option"
  commandBuffers :: "handle list"
  presentCompleteSemaphores :: "handle list"
  renderFinishedSemaphores :: "handle list"
  inFlightFences :: "handle list"
  depthImages :: "handle list"
  depthImagesMemory :: "handle list"
  depthImageViews :: "handle list"
  storageImages :: "handle list"
  storageImagesMemory :: "handle list"
  storageImageViews :: "handle list"
  rayTracingOutputImages :: "handle list"
  rayTracingOutputImagesMemory :: "handle list"
  rayTracingOutputImageViews :: "handle list"
  uniformBuffers :: "handle list"
  uniformBuffersMemory :: "handle list"
  uniformBuffersMapped :: "handle list"
  tlas :: "handle list"
  tlasBuffers :: "handle list"
  tlasMemories :: "handle list"
  tlasScratchBuffers :: "handle list"
  tlasScratchMemories :: "handle list"
  tlasScratchAddresses :: "handle list"
  tlasInstanceBuffers :: "handle list"
  tlasInstanceMemories :: "handle list"
  tlasInstanceBuffersMapped :: "handle list"
  tlasInstanceAddresses :: "handle list"

definition emptyFrameContext :: FrameContext where
  "emptyFrameContext =
     \<lparr>shadowImages = [], shadowImagesMemory = [], shadowCascadeViews = [],
      shadowArrayViews = [], shadowSampler = None, frameIndex = 0, commandPool = None,
      commandBuffers = [], presentCompleteSemaphores = [], renderFinishedSemaphores = [],
      inFlightFences = [], depthImages = [], depthImagesMemory = [], depthImageViews = [],
      storageImages = [], storageImagesMemory = [], storageImageViews = [],
      rayTracingOutputImages = [], rayTracingOutputImagesMemory = [],
      rayTracingOutputImageViews = [], uniformBuffers = [], uniformBuffersMemory = [],
      uniformBuffersMapped = [], tlas = [], tlasBuffers = [], tlasMemories = [],
      tlasScratchBuffers = [], tlasScratchMemories = [], tlasScratchAddresses = [],
      tlasInstanceBuffers = [], tlasInstanceMemories = [], tlasInstanceBuffersMapped = [],
      tlasInstanceAddresses = []\<rparr>"

text \<open>
  The loop shared by the three image-creating functions: each round creates an image of the
  size of the swapchain extent with device-local memory (\<open>createImage\<close>, one layer,
  optimal tiling) and a view of it, and pushes them. A throw of \<open>createImage\<close> ends the
  loop and the function.
\<close>

fun createImagesWithViews ::
  "nat \<Rightarrow> Extent2D \<Rightarrow> Format \<Rightarrow> uint32 \<Rightarrow> Device \<Rightarrow>
   error + ((handle list \<times> handle list \<times> handle list) \<times> Device)"
where
  "createImagesWithViews 0 ext imageFormat usage dev = Inr (([], [], []), dev)"
| "createImagesWithViews (Suc n) ext imageFormat usage dev =
     (case createImage dev (width ext) (height ext) imageFormat eOptimal usage 0x1 1 of
        Inl e \<Rightarrow> Inl e
      | Inr ((img, mem), dev2) \<Rightarrow>
          (case createHandle dev2 of (view, dev3) \<Rightarrow>
             (case createImagesWithViews n ext imageFormat usage dev3 of
                Inl e \<Rightarrow> Inl e
              | Inr ((imgs, mems, views), dev4) \<Rightarrow>
                  Inr ((img # imgs, mem # mems, view # views), dev4))))"

definition cleanupSwapChainDependents :: "Device \<Rightarrow> FrameContext \<Rightarrow> Device \<times> FrameContext" where
  "cleanupSwapChainDependents dev fc =
     (destroyHandles
        (storageImageViews fc @ storageImages fc @ storageImagesMemory fc @
         rayTracingOutputImageViews fc @ rayTracingOutputImages fc @
         rayTracingOutputImagesMemory fc @
         depthImageViews fc @ depthImages fc @ depthImagesMemory fc) dev,
      fc\<lparr>storageImageViews := [], storageImages := [], storageImagesMemory := [],
         rayTracingOutputImageViews := [], rayTracingOutputImages := [],
         rayTracingOutputImagesMemory := [],
         depthImageViews := [], depthImages := [], depthImagesMemory := []\<rparr>)"

definition createDepthResources ::
  "Device \<Rightarrow> SwapchainManager \<Rightarrow> FrameContext \<Rightarrow> error + (Device \<times> FrameContext)"
where
  "createDepthResources dev sc fc =
     (case findDepthFormat dev of
        Inl e \<Rightarrow> Inl e
      | Inr depthFormat \<Rightarrow>
          (case createImagesWithViews (length (images sc)) (extent sc) depthFormat 0x20
                  (destroyHandles (depthImages fc @ depthImagesMemory fc @ depthImageViews fc) dev)
           of Inl e \<Rightarrow> Inl e
            | Inr ((imgs, mems, views), dev1) \<Rightarrow>
                Inr (dev1, fc\<lparr>depthImages := imgs, depthImagesMemory := mems,
                               depthImageViews := views\<rparr>)))"

definition createStorageResources ::
  "Device \<Rightarrow> SwapchainManager \<Rightarrow> FrameContext \<Rightarrow> error + (Device \<times> FrameContext)"
where
  "createStorageResources dev sc fc =
     (case createImagesWithViews MAX_FRAMES_IN_FLIGHT (extent sc) eR16G16B16A16Sfloat 0x9
             (destroyHandles (storageImages fc @ storageImagesMemory fc @ storageImageViews fc) dev)
      of Inl e \<Rightarrow> Inl e
       | Inr ((imgs, mems, views), dev1) \<Rightarrow>
           Inr (dev1, fc\<lparr>storageImages := imgs, storageImagesMemory := mems,
                          storageImageViews := views\<rparr>))"

definition createRayTracingOutputImages ::
  "Device \<Rightarrow> SwapchainManager \<Rightarrow> FrameContext \<Rightarrow> error + (Device \<times> FrameContext)"
where
  "createRayTracingOutputImages dev sc fc =
     (case createImagesWithViews MAX_FRAMES_IN_FLIGHT (extent sc) eR16G16B16A16Sfloat 0x9
             (destroyHandles (rayTracingOutputImages fc @ rayTracingOutputImagesMemory fc @
                              rayTracingOutputImageViews fc) dev)
      of Inl e \<Rightarrow> Inl e
       | Inr ((imgs, mems, views), dev1) \<Rightarrow>
           Inr (dev1, fc\<lparr>rayTracingOutputImages := imgs, rayTracingOutputImagesMemory := mems,
                          rayTracingOutputImageViews := views\<rparr>))"

text \<open>\<open>FrameContext::recreate\<close>, the resize path.\<close>

definition FrameContext_recreate ::
  "Device \<Rightarrow> SwapchainManager \<Rightarrow> FrameContext \<Rightarrow> error + (Device \<times> FrameContext)"
where
  "FrameContext_recreate dev sc fc =
     (case cleanupSwapChainDependents dev fc of (dev1, fc1) \<Rightarrow>
      case createStorageResources dev1 sc fc1 of
        Inl e \<Rightarrow> Inl e
      | Inr (dev2, fc2) \<Rightarrow>
          (case createRayTracingOutputImages dev2 sc fc2 of
             Inl e \<Rightarrow> Inl e
           | Inr (dev3, fc3) \<Rightarrow> createDepthResources dev3 sc fc3))"

text \<open>
  The creation functions that run once, in \<open>FrameContext::init\<close>. A vector that is
  cleared first loses its handles; \<open>createTLASResources\<close> and \<open>createSyncObjects\<close> only
  push.
\<close>

definition createCommandPool :: "Device \<Rightarrow> FrameContext \<Rightarrow> Device \<times> FrameContext" where
  "createCommandPool dev fc =
     (case createHandle dev of (pool, dev1) \<Rightarrow>
        (destroyHandles (case commandPool fc of None \<Rightarrow> [] | Some old \<Rightarrow> [old]) dev1,
         fc\<lparr>commandPool := Some pool\<rparr>))"

fun createBuffersMapped ::
  "nat \<Rightarrow> Device \<Rightarrow> error + ((handle list \<times> handle list \<times> handle list) \<times> Device)"
where
  "createBuffersMapped 0 dev = Inr (([], [], []), dev)"
| "createBuffersMapped (Suc n) dev =
     bindE (createBuffer dev 0x10 0x6) (\<lambda>((buffer, bufferMem), dev2).
     case createHandle dev2 of (mapped, dev3) \<Rightarrow>
     bindE (createBuffersMapped n dev3) (\<lambda>((buffers, mems, ptrs), dev4).
       Inr ((buffer # buffers, bufferMem # mems, mapped # ptrs), dev4)))"

definition createUniformBuffers :: "Device \<Rightarrow> FrameContext \<Rightarrow> error + (Device \<times> FrameContext)" where
  "createUniformBuffers dev fc =
     bindE (createBuffersMapped MAX_FRAMES_IN_FLIGHT
              (destroyHandles (uniformBuffers fc @ uniformBuffersMemory fc) dev))
       (\<lambda>((buffers, mems, ptrs), dev1).
          Inr (dev1, fc\<lparr>uniformBuffers := buffers, uniformBuffersMemory := mems,
                         uniformBuffersMapped := ptrs\<rparr>))"

definition SHADOW_MAP_DIM :: uint32 where
  "SHADOW_MAP_DIM = 2048"

fun createShadowImages ::
  "nat \<Rightarrow> Device \<Rightarrow>
   error + ((handle list \<times> handle list \<times> handle list \<times> handle list) \<times> Device)"
where
  "createShadowImages 0 dev = Inr (([], [], [], []), dev)"
| "createShadowImages (Suc n) dev =
     bindE (createImage dev SHADOW_MAP_DIM SHADOW_MAP_DIM eD32Sfloat eOptimal 0x24 0x1
              (word_of_nat NUM_SHADOW_CASCADES)) (\<lambda>((img, mem), dev2).
     case createHandles NUM_SHADOW_CASCADES dev2 of (layerViews, dev3) \<Rightarrow>
     case createHandle dev3 of (arrayView, dev4) \<Rightarrow>
     bindE (createShadowImages n dev4) (\<lambda>((imgs, mems, cascadeViews, arrayViews), dev5).
       Inr ((img # imgs, mem # mems, layerViews @ cascadeViews, arrayView # arrayViews), dev5)))"

definition createShadowResources :: "Device \<Rightarrow> FrameContext \<Rightarrow> error + (Device \<times> FrameContext)" where
  "createShadowResources dev fc =
     bindE (createShadowImages MAX_FRAMES_IN_FLIGHT
              (destroyHandles (shadowImages fc @ shadowImagesMemory fc @ shadowCascadeViews fc @
                               shadowArrayViews fc) dev))
       (\<lambda>((imgs, mems, cascadeViews, arrayViews), dev1).
          case createHandle dev1 of (sampler, dev2) \<Rightarrow>
            Inr (destroyHandles (case shadowSampler fc of None \<Rightarrow> [] | Some old \<Rightarrow> [old]) dev2,
                 fc\<lparr>shadowImages := imgs, shadowImagesMemory := mems,
                    shadowCascadeViews := cascadeViews, shadowArrayViews := arrayViews,
                    shadowSampler := Some sampler\<rparr>))"

fun createTLASLoop :: "nat \<Rightarrow> Device \<Rightarrow> FrameContext \<Rightarrow> error + (Device \<times> FrameContext)" where
  "createTLASLoop 0 dev fc = Inr (dev, fc)"
| "createTLASLoop (Suc n) dev fc =
     bindE (createBuffer dev 0x120000 0x1) (\<lambda>((storageBuffer, storageMemory), dev2).
     case createHandle dev2 of (accel, dev3) \<Rightarrow>
     bindE (createBuffer dev3 0x20020 0x1) (\<lambda>((scratchBuffer, scratchMemory), dev5).
     case createHandle dev5 of (scratchAddress, dev6) \<Rightarrow>
     bindE (createBuffer dev6 0xA0000 0x6) (\<lambda>((instanceBuffer, instanceMemory), dev8).
     case createHandle dev8 of (instanceMapped, dev9) \<Rightarrow>
     case createHandle dev9 of (instanceAddress, dev10) \<Rightarrow>
       createTLASLoop n dev10
         (fc\<lparr>tlasBuffers := tlasBuffers fc @ [storageBuffer],
             tlasMemories := tlasMemories fc @ [storageMemory],
             tlas := tlas fc @ [accel],
             tlasScratchBuffers := tlasScratchBuffers fc @ [scratchBuffer],
             tlasScratchMemories := tlasScratchMemories fc @ [scratchMemory],
             tlasScratchAddresses := tlasScratchAddresses fc @ [scratchAddress],
             tlasInstanceBuffersMapped := tlasInstanceBuffersMapped fc @ [instanceMapped],
             tlasInstanceBuffers := tlasInstanceBuffers fc @ [instanceBuffer],
             tlasInstanceMemories := tlasInstanceMemories fc @ [instanceMemory],
             tlasInstanceAddresses := tlasInstanceAddresses fc @ [instanceAddress]\<rparr>))))"

definition createTLASResources :: "Device \<Rightarrow> FrameContext \<Rightarrow> error + (Device \<times> FrameContext)" where
  "createTLASResources dev fc = createTLASLoop MAX_FRAMES_IN_FLIGHT dev fc"

definition createCommandBuffers :: "Device \<Rightarrow> FrameContext \<Rightarrow> Device \<times> FrameContext" where
  "createCommandBuffers dev fc =
     (case createHandles MAX_FRAMES_IN_FLIGHT (destroyHandles (commandBuffers fc) dev) of
        (cbs, dev1) \<Rightarrow> (dev1, fc\<lparr>commandBuffers := cbs\<rparr>))"

text \<open>
  \<open>FrameContext::createSyncObjects\<close>: first \<open>imageCount\<close> render-finished semaphores,
  then, for every frame in flight, one present-complete semaphore and one fence created
  signalled. The set of signalled fences is host-visible device state and is returned with
  the device.
\<close>

fun createSemaphoreFencePairs ::
  "nat \<Rightarrow> Device \<Rightarrow> (handle list \<times> handle list) \<times> Device"
where
  "createSemaphoreFencePairs 0 dev = (([], []), dev)"
| "createSemaphoreFencePairs (Suc n) dev =
     (case createHandle dev of (semaphore, dev1) \<Rightarrow>
      case createHandle dev1 of (fence, dev2) \<Rightarrow>
      case createSemaphoreFencePairs n dev2 of ((semaphores, fences), dev3) \<Rightarrow>
        ((semaphore # semaphores, fence # fences), dev3))"

definition createSyncObjects ::
  "bool \<Rightarrow> Device \<Rightarrow> uint32 \<Rightarrow> FrameContext \<Rightarrow> error + (Device \<times> FrameContext \<times> handle set)"
where
  "createSyncObjects ndebug dev imageCount fc =
     (if \<not> ndebug \<and> \<not> (presentCompleteSemaphores fc = [] \<and> renderFinishedSemaphores fc = [] \<and>
                          inFlightFences fc = [])
      then Inl (AssertionFailed
                 ''presentCompleteSemaphores.empty() && renderFinishedSemaphores.empty() && inFlightFences.empty()'')
      else
        (case createHandles (unat imageCount) dev of (renderFinished, dev1) \<Rightarrow>
         case createSemaphoreFencePairs MAX_FRAMES_IN_FLIGHT dev1 of
           ((presentComplete, fences), dev2) \<Rightarrow>
             Inr (dev2,
                  fc\<lparr>renderFinishedSemaphores := renderFinishedSemaphores fc @ renderFinished,
                     presentCompleteSemaphores := presentCompleteSemaphores fc @ presentComplete,
                     inFlightFences := inFlightFences fc @ fences\<rparr>,
                  set fences)))"

definition FrameContext_init ::
  "bool \<Rightarrow> Device \<Rightarrow> SwapchainManager \<Rightarrow> FrameContext \<Rightarrow> error + (Device \<times> FrameContext \<times> handle set)"
where
  "FrameContext_init ndebug dev sc fc =
     (case createCommandPool dev fc of (dev1, fc1) \<Rightarrow>
      bindE (createUniformBuffers dev1 fc1) (\<lambda>(dev2, fc2).
      bindE (createDepthResources dev2 sc fc2) (\<lambda>(dev3, fc3).
      bindE (createStorageResources dev3 sc fc3) (\<lambda>(dev4, fc4).
      bindE (createRayTracingOutputImages dev4 sc fc4) (\<lambda>(dev5, fc5).
      bindE (createShadowResources dev5 fc5) (\<lambda>(dev6, fc6).
      bindE (createTLASResources dev6 fc6) (\<lambda>(dev7, fc7).
      case createCommandBuffers dev7 fc7 of (dev8, fc8) \<Rightarrow>
        createSyncObjects ndebug dev8 (word_of_nat (length (images sc))) fc8)))))))"

section \<open>Loaded models and recorded commands\<close>

record MeshPrimitive =
  firstIndex :: uint32
  indexCount :: uint32
  vertexOffset :: uint32
  materialIndex :: int32
  flatPrimitiveIndex :: uint32

record LoadedMesh =
  primitives :: "MeshPrimitive list"

text \<open>
  \<open>ModelResource\<close>, with the members the frame code reads. A \<open>vk::raii\<close> member that may
  hold the null handle is an option. The resource manager is its vector \<open>models\<close>.
\<close>

record ModelResource =
  vertexBuffer :: "handle option"
  indexBuffer :: "handle option"
  materialBuffer :: "handle option"
  meshes :: "LoadedMesh list"
  descriptorSet :: "handle option"
  blasElements :: "handle list"

type_synonym ResourceManager = "ModelResource list"

definition getModelResource :: "ResourceManager \<Rightarrow> int32 \<Rightarrow> ModelResource option" where
  "getModelResource models ident =
     (if 0 \<le> sint ident \<and> nat (sint ident) < length models
      then Some (models ! nat (sint ident)) else None)"

text \<open>
  A command buffer is the list of commands recorded into it. Each command carries the
  arguments that identify what it acts on; pipeline stage and access masks, clear values and
  filters are left out.
\<close>

datatype PipelineBindPoint = eGraphics | eCompute | eRayTracingKHR

datatype ImageLayout =
    eUndefined | eGeneral | eColorAttachmentOptimal | eDepthAttachmentOptimal
  | eShaderReadOnlyOptimal | eTransferSrcOptimal | eTransferDstOptimal | ePresentSrcKHR

datatype Barrier =
    HostWriteToAccelerationStructureBuild
  | AccelerationStructureBuildToRayTracingShader
  | ImageLayoutTransition handle ImageLayout ImageLayout nat

datatype PushData =
    ScenePush mat4 uint32 uint32
  | SkyPush
  | IdentityPush

datatype Viewport = ShadowViewport | FlippedViewport Extent2D

datatype Command =
    PipelineBarrier2 Barrier
  | BuildAccelerationStructuresKHR handle handle handle uint32
  | BindPipeline PipelineBindPoint handle
  | BindDescriptorSets PipelineBindPoint handle nat "handle list"
  | BindVertexBuffers handle
  | BindIndexBuffer "handle option"
  | PushConstants handle PushData
  | DrawIndexed uint32 uint32 uint32
  | BeginRendering "handle option" "handle option" Extent2D
  | EndRendering
  | SetViewport Viewport
  | SetScissor Extent2D
  | Dispatch uint32 uint32 uint32
  | TraceRaysKHR uint32 uint32 uint32
  | BlitImage handle handle Extent2D
  | ImGuiRenderDrawData

definition bindResources :: "ResourceManager \<Rightarrow> int32 \<Rightarrow> Command list" where
  "bindResources models ident =
     (if 0 \<le> sint ident \<and> nat (sint ident) < length models
      then (case vertexBuffer (models ! nat (sint ident)) of
              None \<Rightarrow> []
            | Some vb \<Rightarrow> [BindVertexBuffers vb,
                          BindIndexBuffer (indexBuffer (models ! nat (sint ident)))])
      else [])"

text \<open>
  The draw calls of one mesh index of a node: nothing when the index is outside the model's
  meshes, otherwise a push-constant update and an indexed draw per primitive.
\<close>

definition drawMesh :: "handle \<Rightarrow> mat4 \<Rightarrow> uint32 \<Rightarrow> ModelResource \<Rightarrow> int32 \<Rightarrow> Command list" where
  "drawMesh layout modelMatrix cascadeIndex modelRes meshIdx =
     (if 0 \<le> sint meshIdx \<and> nat (sint meshIdx) < length (meshes modelRes)
      then concat (map (\<lambda>prim. [PushConstants layout
                                   (ScenePush modelMatrix (flatPrimitiveIndex prim) cascadeIndex),
                                 DrawIndexed (indexCount prim) (firstIndex prim) (vertexOffset prim)])
                     (primitives (meshes modelRes ! nat (sint meshIdx))))
      else [])"

text \<open>\<open>Scene::drawNode\<close>.\<close>

definition drawNode :: "NodeStore \<Rightarrow> ResourceManager \<Rightarrow> handle \<Rightarrow> nodeId \<Rightarrow> Command list" where
  "drawNode store models graphicsPipelineLayout node =
     (if modelId (store node) \<noteq> - 1
      then (case getModelResource models (modelId (store node)) of
              None \<Rightarrow> []
            | Some modelRes \<Rightarrow>
                bindResources models (modelId (store node)) @
                (case descriptorSet modelRes of
                   None \<Rightarrow> []
                 | Some ds \<Rightarrow> [BindDescriptorSets eGraphics graphicsPipelineLayout 1 [ds]]) @
                concat (map (drawMesh graphicsPipelineLayout (worldTransform (store node)) 0 modelRes)
                          (meshIndices (store node))))
      else [])"

section \<open>The scene and its culled draw\<close>

record Scene =
  root :: "nodeId option"
  allNodes :: "nodeId list"
  octree :: "Octree option"
  freezeCulling :: bool
  frozenCullBounds :: AABB

text \<open>
  \<open>Scene::draw\<close>, in two steps. \<open>Scene_cull\<close> is the first half: the octree query that
  fills \<open>visibleNodes\<close>, against the frozen bounds when culling is frozen and otherwise
  against \<open>cullBounds\<close>, which is then remembered. \<open>Scene_draw\<close> calls \<open>drawNode\<close> on every
  visible node in order.
\<close>

definition Scene_cull :: "NodeStore \<Rightarrow> Scene \<Rightarrow> AABB \<Rightarrow> Scene \<times> nodeId list" where
  "Scene_cull store sc cullBounds =
     (case root sc of
        None \<Rightarrow> (sc, [])
      | Some r \<Rightarrow>
          (case octree sc of
             None \<Rightarrow> (sc, [])
           | Some tree \<Rightarrow>
               (if freezeCulling sc
                then (sc, Octree_query store (frozenCullBounds sc) tree [])
                else (sc\<lparr>frozenCullBounds := cullBounds\<rparr>,
                      Octree_query store cullBounds tree []))))"

definition Scene_draw ::
  "NodeStore \<Rightarrow> ResourceManager \<Rightarrow> handle \<Rightarrow> Scene \<Rightarrow> AABB \<Rightarrow> Scene \<times> Command list"
where
  "Scene_draw store models pipelineLayout sc cullBounds =
     (case Scene_cull store sc cullBounds of
        (sc', visibleNodes) \<Rightarrow>
          (sc', concat (map (drawNode store models pipelineLayout) visibleNodes)))"

section \<open>Top-level acceleration structure instances\<close>

type_synonym TransformMatrixKHR = "vec4 \<times> vec4 \<times> vec4"

record AccelerationStructureInstanceKHR =
  transform :: TransformMatrixKHR
  instanceCustomIndex :: uint32
  instanceMask :: "8 word"
  instanceShaderBindingTableRecordOffset :: uint32
  flags :: "8 word"
  accelerationStructureReference :: handle

text \<open>
  The double loop \<open>transformMatrix.matrix[r][c] = transform[c][r]\<close>: the first three rows
  of the column-major matrix.
\<close>

fun toTransformMatrixKHR :: "mat4 \<Rightarrow> TransformMatrixKHR" where
  "toTransformMatrixKHR (Mat4 (a0, a1, a2, a3) (b0, b1, b2, b3) (c0, c1, c2, c3) (d0, d1, d2, d3)) =
     ((a0, b0, c0, d0), (a1, b1, c1, d1), (a2, b2, c2, d2))"

text \<open>
  The loop that sums the primitive counts of the meshes before \<open>meshIdx\<close> into a
  \<open>uint32_t\<close>. It reads \<open>modelRes->meshes[i]\<close> for every \<open>i < meshIdx\<close>.
\<close>

definition primitiveOffsetOf :: "LoadedMesh list \<Rightarrow> nat \<Rightarrow> error + uint32" where
  "primitiveOffsetOf ms meshIdx =
     (if meshIdx \<le> length ms
      then Inr (foldl (\<lambda>primitiveOffset mesh. primitiveOffset + word_of_nat (length (primitives mesh)))
                  0 (take meshIdx ms))
      else Inl (OutOfRange ''modelRes->meshes[i]''))"

fun meshInstances ::
  "bool \<Rightarrow> SceneNode \<Rightarrow> ModelResource \<Rightarrow> int32 list \<Rightarrow> error + AccelerationStructureInstanceKHR list"
where
  "meshInstances ndebug node modelRes [] = Inr []"
| "meshInstances ndebug node modelRes (meshIdx # rest) =
     (if sint meshIdx < 0 \<or> nat (sint meshIdx) \<ge> length (blasElements modelRes)
      then meshInstances ndebug node modelRes rest
      else bindE (primitiveOffsetOf (meshes modelRes) (nat (sint meshIdx))) (\<lambda>primitiveOffset.
           if \<not> ndebug \<and> \<not> sint (modelId node) < 1024
           then Inl (AssertionFailed ''modelId exceeds 10-bit limit; customIndex encoding will be corrupted'')
           else bindE (meshInstances ndebug node modelRes rest) (\<lambda>instances.
                Inr (\<lparr>transform = toTransformMatrixKHR (worldTransform node),
                      instanceCustomIndex =
                        customIndexField (customIndex (modelId node) primitiveOffset),
                      instanceMask = 0xFF,
                      instanceShaderBindingTableRecordOffset = 0,
                      flags = 1,
                      accelerationStructureReference =
                        blasElements modelRes ! nat (sint meshIdx)\<rparr> # instances))))"

text \<open>
  The loop over \<open>scene->getAllNodes()\<close> that fills \<open>tlasInstances\<close>
  (\<open>VK_GEOMETRY_INSTANCE_TRIANGLE_FACING_CULL_DISABLE_BIT_KHR = 1\<close>).
\<close>

fun tlasInstancesOf ::
  "bool \<Rightarrow> NodeStore \<Rightarrow> ResourceManager \<Rightarrow> nodeId list \<Rightarrow> error + AccelerationStructureInstanceKHR list"
where
  "tlasInstancesOf ndebug store models [] = Inr []"
| "tlasInstancesOf ndebug store models (node # rest) =
     (if 0 \<le> sint (modelId (store node))
      then (case getModelResource models (modelId (store node)) of
              None \<Rightarrow> tlasInstancesOf ndebug store models rest
            | Some modelRes \<Rightarrow>
                if blasElements modelRes = [] then tlasInstancesOf ndebug store models rest
                else bindE (meshInstances ndebug (store node) modelRes (meshIndices (store node)))
                       (\<lambda>here. bindE (tlasInstancesOf ndebug store models rest)
                          (\<lambda>later. Inr (here @ later))))
      else tlasInstancesOf ndebug store models rest)"

section \<open>Frame orchestrator\<close>

record Pipelines =
  graphicsPipeline :: handle
  graphicsPipelineLayout :: handle
  shadowPipeline :: handle
  shadowPipelineLayout :: handle
  computePipeline :: handle
  computePipelineLayout :: handle
  rayTracingPipeline :: handle
  rayTracingPipelineLayout :: handle

text \<open>
  Calls on the device and its queue, in the order the host makes them. \<open>QueueSubmit\<close>
  lists the wait semaphore, the command buffer, the signal semaphore and the fence;
  \<open>QueuePresent\<close> the wait semaphore and the image index.
\<close>

datatype HostCall =
    WaitForFences handle
  | AcquireNextImage handle
  | UpdateUniformBuffer uint32
  | ResetFences handle
  | ResetCommandBuffer handle
  | BeginCommandBuffer handle
  | EndCommandBuffer handle
  | QueueSubmit handle handle handle handle
  | QueuePresent handle uint32
  | DeviceWaitIdle

text \<open>
  \<open>EngineCore\<close>: its members, the scene's node store, and the state of the device the host
  can observe: which fences are signalled, what each command buffer holds, what the mapped
  instance buffers hold, and the calls made so far.
\<close>

record EngineCore =
  vulkan :: Device
  swapchain :: SwapchainManager
  pipelines :: Pipelines
  frames :: FrameContext
  descriptorSets :: "handle list"
  computeDescriptorSets :: "handle list"
  rtDescriptorSets :: "handle list"
  scene :: Scene
  nodeStore :: NodeStore
  resourceManager :: ResourceManager
  cameraPosition :: vec3
  useRayTracing :: bool
  signaledFences :: "handle set"
  commandBufferContents :: "handle \<Rightarrow> Command list"
  instanceBufferContents :: "handle \<Rightarrow> AccelerationStructureInstanceKHR list"
  hostCalls :: "HostCall list"

definition transition_image_layout :: "handle \<Rightarrow> ImageLayout \<Rightarrow> ImageLayout \<Rightarrow> Command" where
  "transition_image_layout img old_layout new_layout =
     PipelineBarrier2 (ImageLayoutTransition img old_layout new_layout 1)"

definition frameSlot :: "EngineCore \<Rightarrow> nat" where
  "frameSlot eng = unat (frameIndex (frames eng))"

text \<open>\<open>EngineCore::recordComputeCommandBuffer\<close> (the starfield pass and its blit).\<close>

definition recordComputeCommandBuffer :: "EngineCore \<Rightarrow> uint32 \<Rightarrow> error + Command list" where
  "recordComputeCommandBuffer eng imageIndex =
     bindE (at (storageImages (frames eng)) (frameSlot eng) ''storageImages'') (\<lambda>storageImage.
     bindE (at (computeDescriptorSets eng) (frameSlot eng) ''computeDescriptorSets'') (\<lambda>computeSet.
     bindE (at (images (swapchain eng)) (unat imageIndex) ''swapchain.images'') (\<lambda>swapImage.
       Inr [transition_image_layout storageImage eUndefined eGeneral,
            BindPipeline eCompute (computePipeline (pipelines eng)),
            BindDescriptorSets eCompute (computePipelineLayout (pipelines eng)) 0 [computeSet],
            PushConstants (computePipelineLayout (pipelines eng)) SkyPush,
            Dispatch ((width (extent (swapchain eng)) + 15) div 16)
                     ((height (extent (swapchain eng)) + 15) div 16) 1,
            transition_image_layout storageImage eGeneral eTransferSrcOptimal,
            transition_image_layout swapImage eUndefined eTransferDstOptimal,
            BlitImage storageImage swapImage (extent (swapchain eng)),
            transition_image_layout swapImage eTransferDstOptimal eColorAttachmentOptimal])))"

text \<open>\<open>EngineCore::recordRayTracingCommandBuffer\<close>.\<close>

definition recordRayTracingCommandBuffer :: "EngineCore \<Rightarrow> uint32 \<Rightarrow> error + Command list" where
  "recordRayTracingCommandBuffer eng imageIndex =
     bindE (at (rayTracingOutputImages (frames eng)) (frameSlot eng) ''rayTracingOutputImages'') (\<lambda>rtImage.
     bindE (at (rtDescriptorSets eng) (frameSlot eng) ''rtDescriptorSets'') (\<lambda>rtSet.
     bindE (at (descriptorSets eng) (frameSlot eng) ''descriptorSets'') (\<lambda>globalSet.
     bindE (at (images (swapchain eng)) (unat imageIndex) ''swapchain.images'') (\<lambda>swapImage.
       Inr [transition_image_layout rtImage eUndefined eGeneral,
            BindPipeline eRayTracingKHR (rayTracingPipeline (pipelines eng)),
            BindDescriptorSets eRayTracingKHR (rayTracingPipelineLayout (pipelines eng)) 0
              [rtSet, globalSet],
            PushConstants (rayTracingPipelineLayout (pipelines eng)) IdentityPush,
            TraceRaysKHR (width (extent (swapchain eng))) (height (extent (swapchain eng))) 1,
            transition_image_layout rtImage eGeneral eTransferSrcOptimal,
            transition_image_layout swapImage eUndefined eTransferDstOptimal,
            BlitImage rtImage swapImage (extent (swapchain eng)),
            transition_image_layout swapImage eTransferDstOptimal eColorAttachmentOptimal]))))"

text \<open>
  The block guarded by \<open>if (ui.useRayTracing)\<close> at the top of
  \<open>recordCommandBuffer\<close>: the copy of the instances into the mapped instance buffer
  (skipped for an empty list), the host-to-build barrier, the build of the slot's top-level
  structure with \<open>primitiveCount = tlasInstances.size()\<close> cast to 32 bits, and the
  build-to-shader barrier. The instance buffer holds \<open>MAX_TLAS_INSTANCES\<close> records and
  \<open>memcpy\<close> does not check; a longer list overruns it. The result is the new contents of
  the mapped buffers and the commands.
\<close>

definition recordTlasBuild ::
  "EngineCore \<Rightarrow> AccelerationStructureInstanceKHR list \<Rightarrow>
   error + ((handle \<Rightarrow> AccelerationStructureInstanceKHR list) \<times> Command list)"
where
  "recordTlasBuild eng tlasInstances =
     bindE (if tlasInstances \<noteq> []
            then bindE (at (tlasInstanceBuffersMapped (frames eng)) (frameSlot eng)
                          ''tlasInstanceBuffersMapped'') (\<lambda>mapped.
                 if length tlasInstances > MAX_TLAS_INSTANCES
                 then Inl (OutOfRange ''memcpy past the end of the TLAS instance buffer'')
                 else Inr ((instanceBufferContents eng)
                             (mapped := tlasInstances @
                                drop (length tlasInstances) (instanceBufferContents eng mapped))))
            else Inr (instanceBufferContents eng)) (\<lambda>contents.
     bindE (at (tlasInstanceAddresses (frames eng)) (frameSlot eng) ''tlasInstanceAddresses'') (\<lambda>instanceAddress.
     bindE (at (tlas (frames eng)) (frameSlot eng) ''tlas'') (\<lambda>dst.
     bindE (at (tlasScratchAddresses (frames eng)) (frameSlot eng) ''tlasScratchAddresses'') (\<lambda>scratchAddress.
       Inr (contents,
            [PipelineBarrier2 HostWriteToAccelerationStructureBuild,
             BuildAccelerationStructuresKHR dst scratchAddress instanceAddress
               (word_of_nat (length tlasInstances)),
             PipelineBarrier2 AccelerationStructureBuildToRayTracingShader])))))"

text \<open>
  The shadow pass of \<open>recordCommandBuffer\<close>: what is drawn into one cascade for every
  scene node, one rendering scope per cascade, and the whole block with its two layout
  transitions, followed by the compute pass.
\<close>

fun shadowNodeDraws :: "EngineCore \<Rightarrow> uint32 \<Rightarrow> nodeId list \<Rightarrow> Command list" where
  "shadowNodeDraws eng cascadeIdx [] = []"
| "shadowNodeDraws eng cascadeIdx (node # rest) =
     (if sint (modelId (nodeStore eng node)) < 0 then shadowNodeDraws eng cascadeIdx rest
      else (case getModelResource (resourceManager eng) (modelId (nodeStore eng node)) of
              None \<Rightarrow> shadowNodeDraws eng cascadeIdx rest
            | Some modelRes \<Rightarrow>
                bindResources (resourceManager eng) (modelId (nodeStore eng node)) @
                (case descriptorSet modelRes of
                   None \<Rightarrow> []
                 | Some ds \<Rightarrow> [BindDescriptorSets eGraphics
                                 (shadowPipelineLayout (pipelines eng)) 1 [ds]]) @
                concat (map (drawMesh (shadowPipelineLayout (pipelines eng))
                               (worldTransform (nodeStore eng node)) cascadeIdx modelRes)
                          (meshIndices (nodeStore eng node))) @
                shadowNodeDraws eng cascadeIdx rest))"

fun shadowCascades :: "EngineCore \<Rightarrow> nat \<Rightarrow> nat \<Rightarrow> error + Command list" where
  "shadowCascades eng cascadeIdx 0 = Inr []"
| "shadowCascades eng cascadeIdx (Suc remaining) =
     bindE (at (shadowCascadeViews (frames eng))
              (unat (frameIndex (frames eng) * word_of_nat NUM_SHADOW_CASCADES +
                     (word_of_nat cascadeIdx :: uint32)))
              ''shadowCascadeViews'') (\<lambda>view.
     bindE (shadowCascades eng (Suc cascadeIdx) remaining) (\<lambda>later.
       Inr ([BeginRendering None (Some view) \<lparr>width = SHADOW_MAP_DIM, height = SHADOW_MAP_DIM\<rparr>,
             SetViewport ShadowViewport,
             SetScissor \<lparr>width = SHADOW_MAP_DIM, height = SHADOW_MAP_DIM\<rparr>] @
            shadowNodeDraws eng (word_of_nat cascadeIdx) (allNodes (scene eng)) @
            [EndRendering] @ later)))"

definition recordShadowPass :: "EngineCore \<Rightarrow> uint32 \<Rightarrow> error + Command list" where
  "recordShadowPass eng imageIndex =
     bindE (at (shadowImages (frames eng)) (frameSlot eng) ''shadowImages'') (\<lambda>shadowImg.
     bindE (at (descriptorSets eng) (frameSlot eng) ''descriptorSets'') (\<lambda>globalSet.
     bindE (shadowCascades eng 0 NUM_SHADOW_CASCADES) (\<lambda>cascades.
     bindE (recordComputeCommandBuffer eng imageIndex) (\<lambda>compute.
       Inr ([PipelineBarrier2 (ImageLayoutTransition shadowImg eUndefined eDepthAttachmentOptimal
                                 NUM_SHADOW_CASCADES),
             BindPipeline eGraphics (shadowPipeline (pipelines eng)),
             BindDescriptorSets eGraphics (shadowPipelineLayout (pipelines eng)) 0 [globalSet]] @
            cascades @
            [PipelineBarrier2 (ImageLayoutTransition shadowImg eDepthAttachmentOptimal
                                 eShaderReadOnlyOptimal NUM_SHADOW_CASCADES)] @
            compute)))))"

text \<open>
  The main pass: the rasterised scene, culled by a box of half-width 2000 around the camera
  (\<open>2000.0f\<close> has the bit pattern \<open>0x44FA0000\<close>), when ray tracing is off; the UI overlay
  in either case; the transition of the presentable image to its presentation layout.
\<close>

definition viewDistance :: float32 where
  "viewDistance = 0x44FA0000"

definition cameraCullBounds :: "FloatOps \<Rightarrow> vec3 \<Rightarrow> AABB" where
  "cameraCullBounds ops camPos =
     (case camPos of (x, y, z) \<Rightarrow>
        \<lparr>aabb_min = (fsub ops x viewDistance, fsub ops y viewDistance, fsub ops z viewDistance),
         aabb_max = (fadd ops x viewDistance, fadd ops y viewDistance, fadd ops z viewDistance)\<rparr>)"

definition recordMainPass :: "FloatOps \<Rightarrow> EngineCore \<Rightarrow> uint32 \<Rightarrow> error + (Scene \<times> Command list)" where
  "recordMainPass ops eng imageIndex =
     bindE (at (depthImages (frames eng)) (unat imageIndex) ''depthImages'') (\<lambda>depthImage.
     bindE (at (imageViews (swapchain eng)) (unat imageIndex) ''swapchain.imageViews'') (\<lambda>colorView.
     bindE (at (depthImageViews (frames eng)) (unat imageIndex) ''depthImageViews'') (\<lambda>depthView.
     bindE (if \<not> useRayTracing eng
            then bindE (at (descriptorSets eng) (frameSlot eng) ''descriptorSets'') (\<lambda>globalSet.
                 case Scene_draw (nodeStore eng) (resourceManager eng)
                        (graphicsPipelineLayout (pipelines eng)) (scene eng)
                        (cameraCullBounds ops (cameraPosition eng))
                 of (scene', draws) \<Rightarrow>
                   Inr (scene',
                        [BindPipeline eGraphics (graphicsPipeline (pipelines eng)),
                         SetViewport (FlippedViewport (extent (swapchain eng))),
                         SetScissor (extent (swapchain eng)),
                         BindDescriptorSets eGraphics (graphicsPipelineLayout (pipelines eng)) 0
                           [globalSet]] @ draws))
            else Inr (scene eng, [])) (\<lambda>(scene', raster).
     bindE (at (images (swapchain eng)) (unat imageIndex) ''swapchain.images'') (\<lambda>swapImage.
       Inr (scene',
            [transition_image_layout depthImage eUndefined eDepthAttachmentOptimal,
             BeginRendering (Some colorView) (Some depthView) (extent (swapchain eng))] @
            raster @
            [ImGuiRenderDrawData, EndRendering,
             transition_image_layout swapImage eColorAttachmentOptimal ePresentSrcKHR]))))))"

text \<open>
  \<open>EngineCore::recordCommandBuffer\<close>. The instance list is gathered on every call; the
  build is recorded only under \<open>ui.useRayTracing\<close>, the shadow and compute passes only
  without it. The commands are appended to the slot's command buffer.
\<close>

definition recordCommandBuffer ::
  "bool \<Rightarrow> FloatOps \<Rightarrow> EngineCore \<Rightarrow> uint32 \<Rightarrow> error + EngineCore"
where
  "recordCommandBuffer ndebug ops eng imageIndex =
     bindE (at (commandBuffers (frames eng)) (frameSlot eng) ''commandBuffers'') (\<lambda>commandBuffer.
     bindE (tlasInstancesOf ndebug (nodeStore eng) (resourceManager eng) (allNodes (scene eng)))
       (\<lambda>tlasInstances.
     bindE (if useRayTracing eng then recordTlasBuild eng tlasInstances
            else Inr (instanceBufferContents eng, [])) (\<lambda>(contents, build).
     bindE (if \<not> useRayTracing eng then recordShadowPass eng imageIndex else Inr []) (\<lambda>shadow.
     bindE (if useRayTracing eng then recordRayTracingCommandBuffer eng imageIndex else Inr [])
       (\<lambda>rayTracing.
     bindE (recordMainPass ops eng imageIndex) (\<lambda>(scene', main).
       Inr (eng\<lparr>scene := scene',
                instanceBufferContents := contents,
                commandBufferContents := (commandBufferContents eng)
                  (commandBuffer := commandBufferContents eng commandBuffer @
                     build @ shadow @ rayTracing @ main)\<rparr>)))))))"

section \<open>Resize: rebuilding the chain and what depends on its extent\<close>

text \<open>
  \<open>createComputeDescriptorSets\<close> and \<open>createRayTracingDescriptorSets\<close> free the old
  sets and allocate one per frame in flight. What is written into the sets is not
  represented, only the reads of the frame vectors that the writes index and, for the
  ray-tracing sets, the three assertions on the buffers of each of the first 1000 models.
\<close>

definition createComputeDescriptorSets :: "EngineCore \<Rightarrow> error + EngineCore" where
  "createComputeDescriptorSets eng =
     (case createHandles MAX_FRAMES_IN_FLIGHT
             (destroyHandles (computeDescriptorSets eng) (vulkan eng)) of
        (sets, dev1) \<Rightarrow>
          if length (storageImageViews (frames eng)) < MAX_FRAMES_IN_FLIGHT
          then Inl (OutOfRange ''storageImageViews'')
          else Inr (eng\<lparr>vulkan := dev1, computeDescriptorSets := sets\<rparr>))"

definition modelHasBuffers :: "ModelResource \<Rightarrow> bool" where
  "modelHasBuffers model =
     (vertexBuffer model \<noteq> None \<and> indexBuffer model \<noteq> None \<and> materialBuffer model \<noteq> None)"

definition createRayTracingDescriptorSets :: "bool \<Rightarrow> EngineCore \<Rightarrow> error + EngineCore" where
  "createRayTracingDescriptorSets ndebug eng =
     (case createHandles MAX_FRAMES_IN_FLIGHT
             (destroyHandles (rtDescriptorSets eng) (vulkan eng)) of
        (sets, dev1) \<Rightarrow>
          if length (tlas (frames eng)) < MAX_FRAMES_IN_FLIGHT then Inl (OutOfRange ''tlas'')
          else if length (rayTracingOutputImageViews (frames eng)) < MAX_FRAMES_IN_FLIGHT
          then Inl (OutOfRange ''rayTracingOutputImageViews'')
          else if \<not> ndebug \<and> \<not> list_all modelHasBuffers (take 1000 (resourceManager eng))
          then Inl (AssertionFailed ''RT descriptor: model has no buffer'')
          else Inr (eng\<lparr>vulkan := dev1, rtDescriptorSets := sets\<rparr>))"

text \<open>
  What the surroundings answer during one call of \<open>drawFrame\<close>: the result of the fence
  wait, of the image acquisition and of the present (each may also throw), and, should the
  chain be rebuilt, the framebuffer size read first, the sizes read on each later round of
  the minimised-window loop (one per wake-up of \<open>glfwWaitEvents\<close>), and the surface.
\<close>

datatype Result =
    eSuccess | eNotReady | eTimeout | eSuboptimalKHR | eErrorOutOfDateKHR
  | eErrorSurfaceLostKHR | eErrorDeviceLost

datatype AcquireOutcome = AcquireReturns Result uint32 | AcquireThrows string

datatype PresentOutcome =
    PresentReturns Result | PresentThrowsOutOfDate | PresentThrowsSurfaceLost
  | PresentThrowsOther string

record FrameEnv =
  fenceWaitResult :: Result
  acquireOutcome :: AcquireOutcome
  presentOutcome :: PresentOutcome
  framebufferSizeNow :: "int32 \<times> int32"
  framebufferSizesLater :: "(int32 \<times> int32) list"
  surface :: Surface

text \<open>
  The loop \<open>while (width == 0 || height == 0)\<close> of \<open>recreateSwapChain\<close>. It ends when a
  read gives a non-zero size; when no further event arrives it never returns, which is
  \<open>False\<close> here.
\<close>

fun framebufferRestored :: "int32 \<times> int32 \<Rightarrow> (int32 \<times> int32) list \<Rightarrow> bool" where
  "framebufferRestored (w, h) later =
     (if w = 0 \<or> h = 0
      then (case later of [] \<Rightarrow> False | next # rest \<Rightarrow> framebufferRestored next rest)
      else True)"

definition cleanupSwapChain :: "EngineCore \<Rightarrow> EngineCore" where
  "cleanupSwapChain eng =
     (case SwapchainManager_cleanup (vulkan eng) (swapchain eng) of (dev1, sc1) \<Rightarrow>
      case cleanupSwapChainDependents dev1 (frames eng) of (dev2, fc2) \<Rightarrow>
        eng\<lparr>vulkan := dev2, swapchain := sc1, frames := fc2\<rparr>)"

text \<open>
  \<open>EngineCore::recreateSwapChain\<close>. \<open>None\<close> means the call does not return (the window
  stays minimised).
\<close>

definition recreateSwapChain :: "bool \<Rightarrow> FrameEnv \<Rightarrow> EngineCore \<Rightarrow> (error + EngineCore) option" where
  "recreateSwapChain ndebug env eng =
     (if \<not> framebufferRestored (framebufferSizeNow env) (framebufferSizesLater env) then None
      else Some
        (case cleanupSwapChain (eng\<lparr>hostCalls := hostCalls eng @ [DeviceWaitIdle]\<rparr>) of eng1 \<Rightarrow>
         bindE (SwapchainManager_init ndebug (vulkan eng1) (surface env) (swapchain eng1))
           (\<lambda>(dev2, sc2).
         bindE (FrameContext_recreate dev2 sc2 (frames eng1)) (\<lambda>(dev3, fc3).
         bindE (createComputeDescriptorSets (eng1\<lparr>vulkan := dev3, swapchain := sc2, frames := fc3\<rparr>))
           (\<lambda>eng4. createRayTracingDescriptorSets ndebug eng4)))))"

section \<open>One frame\<close>

text \<open>
  \<open>EngineCore::drawFrame\<close>, in three parts. \<open>recordSubmitPresent\<close> is the straight
  line after a successful acquisition, from the uniform update (which copies to
  \<open>uniformBuffersMapped[frameIdx]\<close>; the matrices it computes are not represented) to the
  present call, and gives the state and the result of the present (an out-of-date or
  surface-lost exception is caught and read as out-of-date). \<open>finishFrame\<close> is the end of the function: the
  rebuild on a suboptimal or out-of-date present or a flagged resize, and the advance of
  the frame slot. \<open>drawFrame\<close> is the wait, the acquisition and the three ways on from
  there.
\<close>

definition recordSubmitPresent ::
  "bool \<Rightarrow> FloatOps \<Rightarrow> FrameEnv \<Rightarrow> EngineCore \<Rightarrow> handle \<Rightarrow> uint32 \<Rightarrow> error + (EngineCore \<times> Result)"
where
  "recordSubmitPresent ndebug ops env eng fence imageIndex =
     bindE (at (uniformBuffersMapped (frames eng)) (frameSlot eng) ''uniformBuffersMapped'')
       (\<lambda>uniformBuffer.
     bindE (at (commandBuffers (frames eng)) (frameSlot eng) ''commandBuffers'') (\<lambda>commandBuffer.
     bindE (recordCommandBuffer ndebug ops
              (eng\<lparr>hostCalls := hostCalls eng @
                     [UpdateUniformBuffer (frameIndex (frames eng)), ResetFences fence,
                      ResetCommandBuffer commandBuffer, BeginCommandBuffer commandBuffer],
                   signaledFences := signaledFences eng - {fence},
                   commandBufferContents := (commandBufferContents eng) (commandBuffer := [])\<rparr>)
              imageIndex) (\<lambda>eng1.
     bindE (at (presentCompleteSemaphores (frames eng1)) (frameSlot eng1)
              ''presentCompleteSemaphores'') (\<lambda>waitSemaphore.
     bindE (at (renderFinishedSemaphores (frames eng1)) (unat imageIndex)
              ''renderFinishedSemaphores'') (\<lambda>signalSemaphore.
     bindE (case presentOutcome env of
              PresentReturns r \<Rightarrow> Inr r
            | PresentThrowsOutOfDate \<Rightarrow> Inr eErrorOutOfDateKHR
            | PresentThrowsSurfaceLost \<Rightarrow> Inr eErrorOutOfDateKHR
            | PresentThrowsOther what \<Rightarrow> Inl (RuntimeError what)) (\<lambda>result.
       Inr (eng1\<lparr>hostCalls := hostCalls eng1 @
                    [EndCommandBuffer commandBuffer,
                     QueueSubmit waitSemaphore commandBuffer signalSemaphore fence,
                     QueuePresent signalSemaphore imageIndex]\<rparr>,
            result)))))))"

definition advanceFrameIndex :: "EngineCore \<Rightarrow> EngineCore" where
  "advanceFrameIndex eng =
     eng\<lparr>frames := (frames eng)
           \<lparr>frameIndex := (frameIndex (frames eng) + 1) mod word_of_nat MAX_FRAMES_IN_FLIGHT\<rparr>\<rparr>"

definition finishFrame ::
  "bool \<Rightarrow> FrameEnv \<Rightarrow> EngineCore \<Rightarrow> Result \<Rightarrow> (error + EngineCore) option"
where
  "finishFrame ndebug env eng result =
     (if result = eSuboptimalKHR \<or> result = eErrorOutOfDateKHR \<or>
         framebufferResized (swapchain eng)
      then (case recreateSwapChain ndebug env
                   (eng\<lparr>swapchain := (swapchain eng)\<lparr>framebufferResized := False\<rparr>\<rparr>) of
              None \<Rightarrow> None
            | Some (Inl e) \<Rightarrow> Some (Inl e)
            | Some (Inr eng') \<Rightarrow> Some (Inr (advanceFrameIndex eng')))
      else if \<not> ndebug \<and> result \<noteq> eSuccess
      then Some (Inl (AssertionFailed ''result == vk::Result::eSuccess''))
      else Some (Inr (advanceFrameIndex eng)))"

definition submitAndPresent ::
  "bool \<Rightarrow> FloatOps \<Rightarrow> FrameEnv \<Rightarrow> EngineCore \<Rightarrow> handle \<Rightarrow> uint32 \<Rightarrow> (error + EngineCore) option"
where
  "submitAndPresent ndebug ops env eng fence imageIndex =
     (case recordSubmitPresent ndebug ops env eng fence imageIndex of
        Inl e \<Rightarrow> Some (Inl e)
      | Inr (eng', result) \<Rightarrow> finishFrame ndebug env eng' result)"

definition drawFrame ::
  "bool \<Rightarrow> FloatOps \<Rightarrow> FrameEnv \<Rightarrow> EngineCore \<Rightarrow> (error + EngineCore) option"
where
  "drawFrame ndebug ops env eng =
     (case at (inFlightFences (frames eng)) (frameSlot eng) ''inFlightFences'' of
        Inl e \<Rightarrow> Some (Inl e)
      | Inr fence \<Rightarrow>
          if fenceWaitResult env \<noteq> eSuccess
          then Some (Inl (RuntimeError ''failed to wait for fence!''))
          else
            (case at (presentCompleteSemaphores (frames eng)) (frameSlot eng)
                    ''presentCompleteSemaphores'' of
               Inl e \<Rightarrow> Some (Inl e)
             | Inr acquireSemaphore \<Rightarrow>
                 (case eng\<lparr>hostCalls := hostCalls eng @
                             [WaitForFences fence, AcquireNextImage acquireSemaphore],
                           signaledFences := insert fence (signaledFences eng)\<rparr> of eng1 \<Rightarrow>
                  case acquireOutcome env of
                    AcquireThrows what \<Rightarrow> Some (Inl (RuntimeError what))
                  | AcquireReturns result imageIndex \<Rightarrow>
                      if result = eErrorOutOfDateKHR then recreateSwapChain ndebug env eng1
                      else if result \<noteq> eSuccess \<and> result \<noteq> eSuboptimalKHR
                      then (if \<not> ndebug \<and> \<not> (result = eTimeout \<or> result = eNotReady)
                            then Some (Inl (AssertionFailed
                                   ''result == vk::Result::eTimeout || result == vk::Result::eNotReady''))
                            else Some (Inl (RuntimeError ''failed to acquire swap chain image!'')))
                      else submitAndPresent ndebug ops env eng1 fence imageIndex)))"

section \<open>Physics objects in the storage buffer\<close>

text \<open>
  \<open>PhysicsObject\<close> (\<open>PhysicsDefines.h\<close>): sixteen 4-byte members, 64 bytes, in this
  order. The field names carry the prefix \<open>obj_\<close> because the scene node has members of
  the same names.
\<close>

record PhysicsObject =
  obj_position :: vec3
  obj_radius :: float32
  obj_velocity :: vec3
  obj_mass :: float32
  obj_halfExtents :: vec3
  obj_type :: int32
  obj_active :: int32
  obj_restitution :: float32
  obj_friction :: float32
  obj_padding :: float32

definition sizeof_PhysicsObject :: nat where
  "sizeof_PhysicsObject = 64"

definition bytesOfWord :: "32 word \<Rightarrow> 8 word list" where
  "bytesOfWord w = [ucast w, ucast (drop_bit 8 w), ucast (drop_bit 16 w), ucast (drop_bit 24 w)]"

definition bytesOfVec3 :: "vec3 \<Rightarrow> 8 word list" where
  "bytesOfVec3 v = (case v of (x, y, z) \<Rightarrow> bytesOfWord x @ bytesOfWord y @ bytesOfWord z)"

definition bytesOfObject :: "PhysicsObject \<Rightarrow> 8 word list" where
  "bytesOfObject obj =
     bytesOfVec3 (obj_position obj) @ bytesOfWord (obj_radius obj) @
     bytesOfVec3 (obj_velocity obj) @ bytesOfWord (obj_mass obj) @
     bytesOfVec3 (obj_halfExtents obj) @ bytesOfWord (obj_type obj) @
     bytesOfWord (obj_active obj) @ bytesOfWord (obj_restitution obj) @
     bytesOfWord (obj_friction obj) @ bytesOfWord (obj_padding obj)"

text \<open>
  A message written by \<open>LOGE\<close>: the overflow message with the capacity and the requested
  size it prints. What is written stays written whatever happens afterwards, so a function
  that logs returns its messages beside its result.
\<close>

datatype Diagnostic = PhysicsSSBOOverflow nat nat

text \<open>
  The GPU members of \<open>PhysicsSystem\<close>. \<open>physicsSSBOMapped\<close> is the mapped range itself:
  \<open>None\<close> for the null pointer, otherwise the bytes of the range.
\<close>

record PhysicsSystem =
  hostPhysicsObjects :: "PhysicsObject list"
  physicsSSBO :: "handle option"
  physicsSSBOMemory :: "handle option"
  physicsSSBOMapped :: "8 word list option"
  currentSSBOSize :: nat

text \<open>
  \<open>PhysicsSystem::createSSBO\<close>. The bytes of a fresh mapping are not specified by Vulkan;
  the model starts them at zero.
\<close>

definition createSSBO :: "Device \<Rightarrow> nat \<Rightarrow> PhysicsSystem \<Rightarrow> error + (Device \<times> PhysicsSystem)" where
  "createSSBO dev byteCount ps =
     (if byteCount = 0 then Inr (dev, ps)
      else if physicsSSBO ps \<noteq> None \<and> currentSSBOSize ps \<ge> byteCount then Inr (dev, ps)
      else
        bindE (createBuffer
                 (destroyHandles
                    ((case physicsSSBO ps of None \<Rightarrow> [] | Some b \<Rightarrow> [b]) @
                     (case physicsSSBOMemory ps of None \<Rightarrow> [] | Some m \<Rightarrow> [m])) dev)
                 0x23 0x6)
          (\<lambda>((buffer, memory), dev2).
             Inr (dev2, ps\<lparr>physicsSSBO := Some buffer, physicsSSBOMemory := Some memory,
                            physicsSSBOMapped := Some (replicate byteCount 0),
                            currentSSBOSize := byteCount\<rparr>)))"

definition colliderTypeAsInt :: "ColliderType \<Rightarrow> int32" where
  "colliderTypeAsInt t = (case t of Sphere \<Rightarrow> 0 | Box \<Rightarrow> 1 | Cylinder \<Rightarrow> 2 | NoCollider \<Rightarrow> - 1)"

text \<open>The body of the loop of \<open>updateSSBO\<close>: one node, serialised (\<open>0.0f\<close> is the pattern 0).\<close>

definition physicsObjectOf :: "SceneNode \<Rightarrow> PhysicsObject" where
  "physicsObjectOf node =
     \<lparr>obj_position = position node,
      obj_radius = radius (physics node),
      obj_velocity = velocity (physics node),
      obj_mass = (if isStatic (physics node) then 0 else mass (physics node)),
      obj_halfExtents = halfExtents (physics node),
      obj_type = colliderTypeAsInt (colliderType (physics node)),
      obj_active = (if enabled (physics node) then 1 else 0),
      obj_restitution = restitution (physics node),
      obj_friction = friction (physics node),
      obj_padding = 0\<rparr>"

text \<open>
  \<open>memcpy(dst, src, n)\<close> into a mapped range: undefined for a null destination and when
  \<open>n\<close> exceeds either range, which the model reports.
\<close>

definition memcpy :: "8 word list option \<Rightarrow> 8 word list \<Rightarrow> nat \<Rightarrow> error + 8 word list option" where
  "memcpy dst src n =
     (case dst of
        None \<Rightarrow> Inl (OutOfRange ''memcpy to a null pointer'')
      | Some mem \<Rightarrow>
          if n \<le> length mem \<and> n \<le> length src then Inr (Some (take n src @ drop n mem))
          else Inl (OutOfRange ''memcpy past the end of a buffer''))"

text \<open>
  \<open>PhysicsSystem::updateSSBO\<close>. \<open>dataSize\<close> is a \<open>size_t\<close> product that cannot wrap for
  any list that fits in memory, so it is a natural number. On overflow of the buffer the
  message is written first, then comes \<open>assert(false && ...)\<close>, which ends the process
  unless \<open>NDEBUG\<close> is defined, and only then the truncation and the copy. The result is
  the messages written during the call and how the call ended.
\<close>

definition updateSSBO ::
  "bool \<Rightarrow> NodeStore \<Rightarrow> nodeId list \<Rightarrow> PhysicsSystem \<Rightarrow> Diagnostic list \<times> (error + PhysicsSystem)"
where
  "updateSSBO ndebug store nodeList ps =
     (let objs = map (\<lambda>node. physicsObjectOf (store node)) nodeList;
          ps1 = ps\<lparr>hostPhysicsObjects := objs\<rparr>;
          dataSize = length objs * sizeof_PhysicsObject
      in if objs = [] then ([], Inr ps1)
         else if dataSize > currentSSBOSize ps1
         then ([PhysicsSSBOOverflow (currentSSBOSize ps1) dataSize],
               if \<not> ndebug
               then Inl (AssertionFailed ''Physics SSBO overflow: increase SSBO allocation size'')
               else bindE (memcpy (physicsSSBOMapped ps1) (concat (map bytesOfObject objs))
                             (currentSSBOSize ps1))
                      (\<lambda>mapped. Inr (ps1\<lparr>physicsSSBOMapped := mapped\<rparr>)))
         else ([], bindE (memcpy (physicsSSBOMapped ps1) (concat (map bytesOfObject objs)) dataSize)
                     (\<lambda>mapped. Inr (ps1\<lparr>physicsSSBOMapped := mapped\<rparr>))))"

section \<open>Filling the octree\<close>

text \<open>
  \<open>Scene::addNode\<close> and \<open>Scene::rebuildOctree\<close> call \<open>octree->insert\<close> on one node
  after the other and ignore the \<open>bool\<close> it returns; \<open>insertAll\<close> is that sequence of
  calls. \<open>storedNodes\<close> lists what a tree holds, in the order \<open>query\<close> visits it.
  \<open>octreeCurrent\<close> says that the tree still matches the node store: every node stored
  in a subtree has its present world position inside that subtree's boundary. \<open>insert\<close>
  establishes this at the time of the call; a later \<open>setPosition\<close> on a stored node does
  not touch the tree.
\<close>

fun insertAll :: "nat \<Rightarrow> FloatOps \<Rightarrow> NodeStore \<Rightarrow> nodeId list \<Rightarrow> Octree \<Rightarrow> Octree option" where
  "insertAll depth ops store [] t = Some t"
| "insertAll depth ops store (node # rest) t =
     (case Octree_insert depth ops store node t of
        None \<Rightarrow> None
      | Some (ok, t') \<Rightarrow> insertAll depth ops store rest t')"

fun storedNodes :: "Octree \<Rightarrow> nodeId list" where
  "storedNodes (Octree b cap ns cs) = ns @ concat (map storedNodes cs)"

fun octreeCurrent :: "NodeStore \<Rightarrow> Octree \<Rightarrow> bool" where
  "octreeCurrent store (Octree b cap ns cs) =
     (list_all (\<lambda>node. AABB_contains b (getWorldPosition store node))
        (ns @ concat (map storedNodes cs)) \<and>
      list_all (octreeCurrent store) cs)"

fun capacityPositive :: "Octree \<Rightarrow> bool" where
  "capacityPositive (Octree b cap ns cs) =
     (0 < capacityAsSize cap \<and> list_all capacityPositive cs)"

fun levels :: "Octree \<Rightarrow> nat" where
  "levels (Octree b cap ns cs) = Suc (foldr max (map levels cs) 0)"

section \<open>The device's side of a recorded build\<close>

text \<open>
  \<open>createTLASResources\<close> pushes, for each frame slot, the host pointer at which the memory
  of the instance buffer is mapped and the device address of that same buffer, so the
  records the device finds at \<open>tlasInstanceAddresses[i]\<close> are those the host wrote through
  \<open>tlasInstanceBuffersMapped[i]\<close>. When a recorded build (one geometry of instances, mode
  \<open>eBuild\<close>) runs on the device, the destination structure is built anew from the first
  \<open>primitiveCount\<close> records at the instance address and can be traversed from then on;
  built from no record, it is hit by no ray. \<open>structuresBuilt\<close> lists, for a sequence of
  commands, the structures they build, each with the instances it is built from.
\<close>

definition instanceRecordsAt :: "EngineCore \<Rightarrow> handle \<Rightarrow> AccelerationStructureInstanceKHR list" where
  "instanceRecordsAt eng address =
     (case map_of (zip (tlasInstanceAddresses (frames eng))
                       (tlasInstanceBuffersMapped (frames eng))) address of
        None \<Rightarrow> []
      | Some mapped \<Rightarrow> instanceBufferContents eng mapped)"

fun structuresBuilt ::
  "EngineCore \<Rightarrow> Command list \<Rightarrow> (handle \<times> AccelerationStructureInstanceKHR list) list"
where
  "structuresBuilt eng [] = []"
| "structuresBuilt eng (BuildAccelerationStructuresKHR dst scratch address primitiveCount # later) =
     (dst, take (unat primitiveCount) (instanceRecordsAt eng address)) # structuresBuilt eng later"
| "structuresBuilt eng (c # later) = structuresBuilt eng later"

section \<open>Predicates used in the statements\<close>

text \<open>
  \<open>createImage\<close> finds a device-local memory type for a one-layer image of this extent,
  format and usage with optimal tiling: the lookup of \<open>findMemoryType\<close> does not throw.
\<close>

definition imageMemoryFound :: "Device \<Rightarrow> Extent2D \<Rightarrow> Format \<Rightarrow> uint32 \<Rightarrow> bool" where
  "imageMemoryFound dev ext imageFormat usage =
     (case findMemoryType dev
             (imageMemoryTypeBits dev (width ext) (height ext) imageFormat eOptimal usage 1) 0x1 of
        Inl e \<Rightarrow> False
      | Inr memoryTypeIndex \<Rightarrow> True)"

definition isTlasBuild :: "Command \<Rightarrow> bool" where
  "isTlasBuild c = (case c of BuildAccelerationStructuresKHR dst scratch inst n \<Rightarrow> True | _ \<Rightarrow> False)"

definition tlasBuilds :: "Command list \<Rightarrow> Command list" where
  "tlasBuilds cs = filter isTlasBuild cs"

definition recordedTlasBuilds :: "error + EngineCore \<Rightarrow> handle \<Rightarrow> error + Command list" where
  "recordedTlasBuilds r commandBuffer =
     (case r of Inl e \<Rightarrow> Inl e
      | Inr eng \<Rightarrow> Inr (tlasBuilds (commandBufferContents eng commandBuffer)))"

text \<open>
  The sizes \<open>FrameContext::init\<close> and the descriptor-set creation give the vectors that
  \<open>recordCommandBuffer\<close> indexes by the frame slot and by the image index.
\<close>

definition framesInRange :: "EngineCore \<Rightarrow> uint32 \<Rightarrow> bool" where
  "framesInRange eng imageIndex =
     (frameSlot eng < length (commandBuffers (frames eng)) \<and>
      frameSlot eng < length (tlas (frames eng)) \<and>
      frameSlot eng < length (tlasScratchAddresses (frames eng)) \<and>
      frameSlot eng < length (tlasInstanceAddresses (frames eng)) \<and>
      frameSlot eng < length (tlasInstanceBuffersMapped (frames eng)) \<and>
      frameSlot eng < length (shadowImages (frames eng)) \<and>
      frameSlot eng * NUM_SHADOW_CASCADES + NUM_SHADOW_CASCADES
        \<le> length (shadowCascadeViews (frames eng)) \<and>
      frameSlot eng < length (storageImages (frames eng)) \<and>
      frameSlot eng < length (rayTracingOutputImages (frames eng)) \<and>
      frameSlot eng < length (descriptorSets eng) \<and>
      frameSlot eng < length (computeDescriptorSets eng) \<and>
      frameSlot eng < length (rtDescriptorSets eng) \<and>
      unat imageIndex < length (depthImages (frames eng)) \<and>
      unat imageIndex < length (depthImageViews (frames eng)) \<and>
      unat imageIndex < length (images (swapchain eng)) \<and>
      unat imageIndex < length (imageViews (swapchain eng)))"

section \<open>Handles owned by the extent-dependent members\<close>

definition extentDependentHandles :: "FrameContext \<Rightarrow> handle set" where
  "extentDependentHandles fc =
     set (storageImageViews fc @ storageImages fc @ storageImagesMemory fc @
          rayTracingOutputImageViews fc @ rayTracingOutputImages fc @
          rayTracingOutputImagesMemory fc @
          depthImageViews fc @ depthImages fc @ depthImagesMemory fc)"

text \<open>
  What \<open>recreateSwapChain\<close> gives up and makes anew: the chain with its image views, the
  extent-dependent members of the frame context, and the compute and ray-tracing descriptor
  sets.
\<close>

definition resizeDependentHandles :: "EngineCore \<Rightarrow> handle set" where
  "resizeDependentHandles eng =
     set_option (swapChain (swapchain eng)) \<union> set (imageViews (swapchain eng)) \<union>
     extentDependentHandles (frames eng) \<union>
     set (computeDescriptorSets eng) \<union> set (rtDescriptorSets eng)"

section \<open>Example configurations\<close>

text \<open>
  A device that supports \<open>D32_SFLOAT\<close> as a depth attachment, a chain of three images of
  800 by 600 (handles 0 to 6), and the frame context that \<open>FrameContext::init\<close> builds
  for them starting at handle 7, in its second frame slot.
\<close>

definition exampleDevice :: Device where
  "exampleDevice =
     \<lparr>nextHandle = 79, liveHandles = {0..<79},
      formatProperties = (\<lambda>f. (0, if f = eD32Sfloat then 0x200 else 0)),
      memoryTypes = [0x1, 0x6],
      imageMemoryTypeBits = (\<lambda>w h format tiling usage arrayLayers. 0x1),
      bufferMemoryTypeBits = (\<lambda>usage. 0x3)\<rparr>"

definition exampleSwapchain :: SwapchainManager where
  "exampleSwapchain =
     \<lparr>framebufferResized = False, swapChain = Some 0, images = [1, 2, 3],
      surfaceFormat = \<lparr>format = eB8G8R8A8Srgb, colorSpace = eSrgbNonlinear\<rparr>,
      extent = \<lparr>width = 800, height = 600\<rparr>, imageViews = [4, 5, 6]\<rparr>"

definition exampleFrames :: FrameContext where
  "exampleFrames =
     \<lparr>shadowImages = [35, 42], shadowImagesMemory = [36, 43],
      shadowCascadeViews = [37, 38, 39, 40, 44, 45, 46, 47],
      shadowArrayViews = [41, 48], shadowSampler = Some 49, frameIndex = 1,
      commandPool = Some 7, commandBuffers = [70, 71],
      presentCompleteSemaphores = [75, 77],
      renderFinishedSemaphores = [72, 73, 74], inFlightFences = [76, 78],
      depthImages = [14, 17, 20], depthImagesMemory = [15, 18, 21],
      depthImageViews = [16, 19, 22], storageImages = [23, 26],
      storageImagesMemory = [24, 27], storageImageViews = [25, 28],
      rayTracingOutputImages = [29, 32], rayTracingOutputImagesMemory = [30, 33],
      rayTracingOutputImageViews = [31, 34], uniformBuffers = [8, 11],
      uniformBuffersMemory = [9, 12], uniformBuffersMapped = [10, 13],
      tlas = [52, 62], tlasBuffers = [50, 60], tlasMemories = [51, 61],
      tlasScratchBuffers = [53, 63], tlasScratchMemories = [54, 64],
      tlasScratchAddresses = [55, 65], tlasInstanceBuffers = [56, 66],
      tlasInstanceMemories = [57, 67], tlasInstanceBuffersMapped = [58, 68],
      tlasInstanceAddresses = [59, 69]\<rparr>"

text \<open>
  Two devices of one machine, both meeting every mandatory requirement: a discrete GPU with
  4 GiB of device-local memory next to a host-visible heap, and an integrated GPU whose
  single 16 GiB heap of shared memory is reported device-local.
\<close>

definition exampleDiscreteGpu :: PhysicalDevice where
  "exampleDiscreteGpu =
     \<lparr>deviceName = ''discrete'', apiVersion = 4210688, deviceType = eDiscreteGpu,
      queueFamilyFlags = [15, 12],
      deviceExtensions = requiredDeviceExtension @ [''VK_KHR_maintenance1''],
      memoryHeaps = [\<lparr>heapSize = 4294967296, heapFlags = 1\<rparr>,
                     \<lparr>heapSize = 17179869184, heapFlags = 0\<rparr>]\<rparr>"

definition exampleIntegratedGpu :: PhysicalDevice where
  "exampleIntegratedGpu =
     \<lparr>deviceName = ''integrated'', apiVersion = 4210688, deviceType = eIntegratedGpu,
      queueFamilyFlags = [15],
      deviceExtensions = requiredDeviceExtension,
      memoryHeaps = [\<lparr>heapSize = 17179869184, heapFlags = 1\<rparr>]\<rparr>"

text \<open>
  A scene node with a unit sphere collider at the origin, an engine in its second frame
  slot with an empty scene, and a physics system whose buffer holds one object.
\<close>

definition identityTransform :: mat4 where
  "identityTransform =
     Mat4 (0x3F800000, 0, 0, 0) (0, 0x3F800000, 0, 0) (0, 0, 0x3F800000, 0) (0, 0, 0, 0x3F800000)"

definition exampleNode :: SceneNode where
  "exampleNode =
     \<lparr>position = (0, 0, 0), worldTransform = identityTransform, meshIndices = [0], modelId = 0,
      physics = \<lparr>enabled = True, isStatic = False, colliderType = Sphere, mass = 0x3F800000,
                 friction = 0x3F000000, restitution = 0x3F000000, velocity = (0, 0, 0),
                 acceleration = (0, 0, 0), radius = 0x3F800000,
                 halfExtents = (0x3F000000, 0x3F000000, 0x3F000000)\<rparr>\<rparr>"

definition examplePhysics :: PhysicsSystem where
  "examplePhysics =
     \<lparr>hostPhysicsObjects = [], physicsSSBO = Some 90, physicsSSBOMemory = Some 91,
      physicsSSBOMapped = Some (replicate 64 0), currentSSBOSize = 64\<rparr>"

definition examplePipelines :: Pipelines where
  "examplePipelines =
     \<lparr>graphicsPipeline = 100, graphicsPipelineLayout = 101, shadowPipeline = 102,
      shadowPipelineLayout = 103, computePipeline = 104, computePipelineLayout = 105,
      rayTracingPipeline = 106, rayTracingPipelineLayout = 107\<rparr>"

definition exampleOps :: FloatOps where
  "exampleOps = \<lparr>fadd = (\<lambda>a b. a), fsub = (\<lambda>a b. a), fmul = (\<lambda>a b. a)\<rparr>"

definition exampleEngine :: EngineCore where
  "exampleEngine =
     \<lparr>vulkan = exampleDevice\<lparr>nextHandle := 120, liveHandles := {0..<120}\<rparr>,
      swapchain = exampleSwapchain,
      pipelines = examplePipelines, frames = exampleFrames,
      descriptorSets = [110, 111], computeDescriptorSets = [112, 113],
      rtDescriptorSets = [114, 115],
      scene = \<lparr>root = Some 0, allNodes = [],
               octree = Some (Octree \<lparr>aabb_min = (0xC47A0000, 0xC47A0000, 0xC47A0000),
                                       aabb_max = (0x447A0000, 0x447A0000, 0x447A0000)\<rparr> 4 [] []),
               freezeCulling = False,
               frozenCullBounds = \<lparr>aabb_min = (0, 0, 0), aabb_max = (0, 0, 0)\<rparr>\<rparr>,
      nodeStore = (\<lambda>n. exampleNode), resourceManager = [],
      cameraPosition = (0, 0x3F800000, 0x40400000), useRayTracing = False,
      signaledFences = {76, 78}, commandBufferContents = (\<lambda>cb. []),
      instanceBufferContents = (\<lambda>p. []), hostCalls = []\<rparr>"

definition exampleSurface :: Surface where
  "exampleSurface =
     \<lparr>capabilities = \<lparr>currentExtent = \<lparr>width = 1024, height = 768\<rparr>,
                       minImageExtent = \<lparr>width = 1, height = 1\<rparr>,
                       maxImageExtent = \<lparr>width = 4096, height = 4096\<rparr>,
                       minImageCount = 2, maxImageCount = 8\<rparr>,
      surfaceFormats = [\<lparr>format = eB8G8R8A8Srgb, colorSpace = eSrgbNonlinear\<rparr>],
      presentModes = [eFifo, eMailbox],
      framebufferSize = (1024, 768),
      chainLength = 3\<rparr>"

text \<open>
  A model with one mesh of one primitive and its bottom-level structure, and the example
  engine with ray tracing on, first with the empty scene and then with one node that shows
  this model.
\<close>

definition exampleModel :: ModelResource where
  "exampleModel =
     \<lparr>vertexBuffer = Some 80, indexBuffer = Some 81, materialBuffer = Some 82,
      meshes = [\<lparr>primitives = [\<lparr>firstIndex = 0, indexCount = 36, vertexOffset = 0,
                                  materialIndex = 0, flatPrimitiveIndex = 0\<rparr>]\<rparr>],
      descriptorSet = Some 83, blasElements = [84]\<rparr>"

definition exampleInstance :: AccelerationStructureInstanceKHR where
  "exampleInstance =
     \<lparr>transform = ((0x3F800000, 0, 0, 0), (0, 0x3F800000, 0, 0), (0, 0, 0x3F800000, 0)),
      instanceCustomIndex = 0, instanceMask = 0xFF,
      instanceShaderBindingTableRecordOffset = 0, flags = 1,
      accelerationStructureReference = 84\<rparr>"

definition rayTracedEmpty :: EngineCore where
  "rayTracedEmpty = exampleEngine\<lparr>useRayTracing := True\<rparr>"

definition rayTracedEngine :: EngineCore where
  "rayTracedEngine =
     exampleEngine\<lparr>useRayTracing := True, resourceManager := [exampleModel],
                   scene := (scene exampleEngine)\<lparr>allNodes := [0]\<rparr>\<rparr>"

definition exampleEnv :: FrameEnv where
  "exampleEnv =
     \<lparr>fenceWaitResult = eSuccess,
      acquireOutcome = AcquireReturns eSuccess 2,
      presentOutcome = PresentReturns eSuccess,
      framebufferSizeNow = (0, 0),
      framebufferSizesLater = [(0, 0), (1024, 768)],
      surface = exampleSurface\<rparr>"

text \<open>
  The device before \<open>FrameContext::init\<close> has run, a surface whose new chain has four
  images, a frame during which the window is resized (the acquisition reports out-of-date
  and the chain is rebuilt on that surface), and the frame after it, in which the fourth
  image is acquired.
\<close>

definition deviceBeforeInit :: Device where
  "deviceBeforeInit = exampleDevice\<lparr>nextHandle := 7, liveHandles := {0..<7}\<rparr>"

definition largerSurface :: Surface where
  "largerSurface = exampleSurface\<lparr>chainLength := 4\<rparr>"

definition resizeEnv :: FrameEnv where
  "resizeEnv =
     exampleEnv\<lparr>acquireOutcome := AcquireReturns eErrorOutOfDateKHR 0, surface := largerSurface\<rparr>"

definition fourthImageEnv :: FrameEnv where
  "fourthImageEnv =
     exampleEnv\<lparr>acquireOutcome := AcquireReturns eSuccess 3, surface := largerSurface\<rparr>"

text \<open>
  Five nodes in the positive octant of a world of \<open>\<plusminus>1000\<close>, the float operations on
  the arguments that occur while the root is subdivided (\<open>-1000 + 1000 = 0\<close> and
  \<open>0 * 0.5 = 0\<close>), the store after node 4 has been moved from (30, 30, 30) to
  (-20, 10, 10), and the cull box of half-width 2000 around a camera at (-2010, 0, 0).
\<close>

definition translation :: "vec3 \<Rightarrow> mat4" where
  "translation p =
     (case p of (x, y, z) \<Rightarrow>
        Mat4 (0x3F800000, 0, 0, 0) (0, 0x3F800000, 0, 0) (0, 0, 0x3F800000, 0)
             (x, y, z, 0x3F800000))"

definition nodeAt :: "vec3 \<Rightarrow> SceneNode" where
  "nodeAt p = exampleNode\<lparr>position := p, worldTransform := translation p\<rparr>"

definition storeAtInsert :: NodeStore where
  "storeAtInsert n =
     (if n = 0 then nodeAt (0x41200000, 0x41200000, 0x41200000)
      else if n = 1 then nodeAt (0x41F00000, 0x41200000, 0x41200000)
      else if n = 2 then nodeAt (0x41200000, 0x41F00000, 0x41200000)
      else if n = 3 then nodeAt (0x41200000, 0x41200000, 0x41F00000)
      else nodeAt (0x41F00000, 0x41F00000, 0x41F00000))"

definition storeMoved :: NodeStore where
  "storeMoved = storeAtInsert (4 := nodeAt (0xC1A00000, 0x41200000, 0x41200000))"

definition worldBounds :: AABB where
  "worldBounds =
     \<lparr>aabb_min = (0xC47A0000, 0xC47A0000, 0xC47A0000),
      aabb_max = (0x447A0000, 0x447A0000, 0x447A0000)\<rparr>"

definition octreeExampleOps :: FloatOps where
  "octreeExampleOps =
     \<lparr>fadd = (\<lambda>a b. if a = 0xC47A0000 \<and> b = 0x447A0000 then 0 else a),
      fsub = (\<lambda>a b. a),
      fmul = (\<lambda>a b. if a = 0 then 0 else a)\<rparr>"

definition exampleCullBounds :: AABB where
  "exampleCullBounds =
     \<lparr>aabb_min = (0xC57AA000, 0xC4FA0000, 0xC4FA0000),
      aabb_max = (0xC1200000, 0x44FA0000, 0x44FA0000)\<rparr>"

text \<open>
  The octree after the five nodes have been inserted at their first positions (the fifth
  finds the root full, so the root is subdivided and the node goes to the octant from the
  centre to the maximum), and a scene that holds it.
\<close>

definition octantOf :: "float32 \<Rightarrow> float32 \<Rightarrow> float32 \<Rightarrow> float32 \<Rightarrow> float32 \<Rightarrow> float32 \<Rightarrow> nodeId list \<Rightarrow> Octree" where
  "octantOf x0 y0 z0 x1 y1 z1 ns =
     Octree \<lparr>aabb_min = (x0, y0, z0), aabb_max = (x1, y1, z1)\<rparr> 4 ns []"

definition staleOctree :: Octree where
  "staleOctree =
     Octree worldBounds 4 [0, 1, 2, 3]
       [octantOf 0xC47A0000 0xC47A0000 0xC47A0000 0 0 0 [],
        octantOf 0 0xC47A0000 0xC47A0000 0x447A0000 0 0 [],
        octantOf 0xC47A0000 0xC47A0000 0 0 0 0x447A0000 [],
        octantOf 0 0xC47A0000 0 0x447A0000 0 0x447A0000 [],
        octantOf 0xC47A0000 0 0xC47A0000 0 0x447A0000 0 [],
        octantOf 0 0 0xC47A0000 0x447A0000 0x447A0000 0 [],
        octantOf 0xC47A0000 0 0 0 0x447A0000 0x447A0000 [],
        octantOf 0 0 0 0x447A0000 0x447A0000 0x447A0000 [4]]"

definition staleScene :: Scene where
  "staleScene =
     \<lparr>root = Some 0, allNodes = [0, 1, 2, 3, 4], octree = Some staleOctree,
      freezeCulling = False, frozenCullBounds = worldBounds\<rparr>"

section \<open>Present-mode selection\<close>

text \<open>
  C3, as amended. The function fails exactly when FIFO is not offered, whether or not
  Mailbox is; when FIFO is offered it returns Mailbox if that is offered too and FIFO
  otherwise.
\<close>

theorem chooseSwapPresentMode_spec:
  "chooseSwapPresentMode modes =
     (if eFifo \<notin> set modes
      then Inl (RuntimeError ''Vulkan driver missing mandatory FIFO present mode (spec violation)'')
      else if eMailbox \<in> set modes then Inr eMailbox else Inr eFifo)"
  by (auto simp: chooseSwapPresentMode_def list_ex_iff)

theorem chooseSwapPresentMode_spec_witness:
  "chooseSwapPresentMode [eImmediate, eFifo, eMailbox] = Inr eMailbox"
  using chooseSwapPresentMode_spec [of "[eImmediate, eFifo, eMailbox]"] by simp

text \<open>
  C3 as stated fails: with Mailbox offered and FIFO missing, the claim promises Mailbox and
  no error, and the function raises the fatal error.
\<close>

theorem chooseSwapPresentMode_mailbox_only:
  "chooseSwapPresentMode [eMailbox] =
     Inl (RuntimeError ''Vulkan driver missing mandatory FIFO present mode (spec violation)'')"
  by (simp add: chooseSwapPresentMode_def)

section \<open>Custom index round trip\<close>

lemma int32_small_nonneg:
  fixes m :: int32
  assumes "0 \<le> sint m" and "sint m < 1024"
  shows "take_bit 10 m = m"
proof -
  have "uint m = take_bit 32 (sint m)" by (simp add: uint_sint)
  also have "\<dots> = sint m" using assms by (simp add: take_bit_int_eq_self)
  finally have "uint m < 2 ^ 10" using assms(2) by simp
  then have "m < 2 ^ 10" by (simp add: word_less_def)
  then show ?thesis by (simp add: take_bit_eq_mask less_mask_eq)
qed

lemma uint32_below_2p14:
  fixes p :: uint32
  assumes "unat p < 16384"
  shows "take_bit 14 p = p"
proof -
  have "p < 2 ^ 14" using assms by (simp add: word_less_nat_alt)
  then show ?thesis by (simp add: take_bit_eq_mask less_mask_eq)
qed

lemma mask_14_numeral: "(0x3FFF :: uint32) = mask 14"
  by (simp add: mask_eq_exp_minus_1)

text \<open>
  C4. For a model identity in [0, 1024) and a primitive offset in [0, 16384), shifting the
  stored 24-bit custom index right by 14 gives back the model identity and masking it with
  \<open>0x3FFF\<close> gives back the primitive offset.
\<close>

theorem customIndex_roundtrip:
  fixes m :: int32 and p :: uint32
  assumes "0 \<le> sint m" and "sint m < 1024" and "unat p < 16384"
  shows "drop_bit 14 (customIndexField (customIndex m p)) = m \<and> customIndexField (customIndex m p) AND 0x3FFF = p"
proof -
  have m: "take_bit 10 m = m" using assms(1,2) by (rule int32_small_nonneg)
  have p: "take_bit 14 p = p" using assms(3) by (rule uint32_below_2p14)
  have "drop_bit 14 (customIndexField (customIndex m p)) = take_bit 10 m"
    unfolding customIndexField_def customIndex_def mask_14_numeral
    by (rule bit_eqI) (auto simp add: bit_simps)
  moreover have "customIndexField (customIndex m p) AND 0x3FFF = take_bit 14 p"
    unfolding customIndexField_def customIndex_def mask_14_numeral
    by (rule bit_eqI) (auto simp add: bit_simps)
  ultimately show ?thesis using m p by simp
qed

theorem customIndex_roundtrip_witness:
  "drop_bit 14 (customIndexField (customIndex 1023 16383)) = 1023 \<and>
   customIndexField (customIndex 1023 16383) AND 0x3FFF = 16383"
  using customIndex_roundtrip [of 1023 16383] by simp

section \<open>Resize leaves the extent-independent members alone\<close>

lemma bindE_Inr [simp]: "bindE (Inr x) f = f x"
  by (simp add: bindE_def)

lemma bindE_Inl [simp]: "bindE (Inl e) f = Inl e"
  by (simp add: bindE_def)

lemma findMemoryType_cong:
  "memoryTypes dev' = memoryTypes dev \<Longrightarrow> findMemoryType dev' = findMemoryType dev"
  by (simp add: findMemoryType_def fun_eq_iff)

lemma imageMemoryFound_cong:
  assumes "memoryTypes dev' = memoryTypes dev" "imageMemoryTypeBits dev' = imageMemoryTypeBits dev"
  shows "imageMemoryFound dev' = imageMemoryFound dev"
  using assms by (simp add: imageMemoryFound_def findMemoryType_def fun_eq_iff)

lemma createImage_found:
  assumes "imageMemoryFound dev ext imageFormat usage"
  shows "createImage dev (width ext) (height ext) imageFormat eOptimal usage 0x1 1 =
     Inr ((nextHandle dev, Suc (nextHandle dev)),
          dev\<lparr>nextHandle := Suc (Suc (nextHandle dev)),
              liveHandles := insert (Suc (nextHandle dev))
                               (insert (nextHandle dev) (liveHandles dev))\<rparr>)"
  using assms
  by (auto simp add: createImage_def createHandle_def imageMemoryFound_def findMemoryType_def
      split: sum.splits)

lemma createImage_not_found:
  assumes "\<not> imageMemoryFound dev ext imageFormat usage"
  shows "createImage dev (width ext) (height ext) imageFormat eOptimal usage 0x1 1 =
     Inl (RuntimeError ''failed to find suitable memory type!'')"
proof -
  have "findMemoryTypeFrom i ts f p = Inl e \<Longrightarrow>
      e = RuntimeError ''failed to find suitable memory type!''" for i ts f p e
    by (induction ts arbitrary: i) (auto split: if_splits)
  then show ?thesis
    using assms
    by (auto simp add: createImage_def createHandle_def imageMemoryFound_def findMemoryType_def
        split: sum.splits)
qed

lemma createImagesWithViews_props:
  assumes "imageMemoryFound dev ext imageFormat usage"
  shows "\<exists>imgs mems views dev'.
     createImagesWithViews n ext imageFormat usage dev = Inr ((imgs, mems, views), dev') \<and>
     length imgs = n \<and> length mems = n \<and> length views = n \<and>
     nextHandle dev' = nextHandle dev + 3 * n \<and>
     liveHandles dev' = liveHandles dev \<union> {nextHandle dev ..< nextHandle dev + 3 * n} \<and>
     set (imgs @ mems @ views) = {nextHandle dev ..< nextHandle dev + 3 * n} \<and>
     dev' = dev\<lparr>nextHandle := nextHandle dev', liveHandles := liveHandles dev'\<rparr>"
  using assms
proof (induction n arbitrary: dev)
  case 0
  then show ?case by simp
next
  case (Suc n)
  define d3 where "d3 = dev\<lparr>nextHandle := Suc (Suc (Suc (nextHandle dev))),
      liveHandles := insert (Suc (Suc (nextHandle dev)))
                       (insert (Suc (nextHandle dev)) (insert (nextHandle dev) (liveHandles dev)))\<rparr>"
  have f3: "imageMemoryFound d3 ext imageFormat usage"
    using Suc.prems imageMemoryFound_cong[of d3 dev] by (simp add: d3_def)
  from Suc.IH[OF f3] obtain is0 ms vs d4 where
    rec: "createImagesWithViews n ext imageFormat usage d3 = Inr ((is0, ms, vs), d4)"
    and ih: "length is0 = n" "length ms = n" "length vs = n"
      "nextHandle d4 = nextHandle d3 + 3 * n"
      "liveHandles d4 = liveHandles d3 \<union> {nextHandle d3 ..< nextHandle d3 + 3 * n}"
      "set (is0 @ ms @ vs) = {nextHandle d3 ..< nextHandle d3 + 3 * n}"
      "d4 = d3\<lparr>nextHandle := nextHandle d4, liveHandles := liveHandles d4\<rparr>"
    by blast
  have step: "createImagesWithViews (Suc n) ext imageFormat usage dev =
      Inr ((nextHandle dev # is0, Suc (nextHandle dev) # ms, Suc (Suc (nextHandle dev)) # vs), d4)"
    using createImage_found[OF Suc.prems] rec
    by (simp add: createHandle_def d3_def)
  have d4: "d4 = dev\<lparr>nextHandle := nextHandle d4, liveHandles := liveHandles d4\<rparr>"
    by (subst ih(7)) (simp add: d3_def)
  have n3: "nextHandle d3 = nextHandle dev + 3"
    "liveHandles d3 = liveHandles dev \<union> {nextHandle dev ..< nextHandle dev + 3}"
    by (auto simp add: d3_def)
  show ?case
    using step ih(1-6) n3 d4
    by (intro exI[of _ "nextHandle dev # is0"] exI[of _ "Suc (nextHandle dev) # ms"]
        exI[of _ "Suc (Suc (nextHandle dev)) # vs"] exI[of _ d4]) auto
qed

lemma findDepthFormat_cong:
  assumes a: "formatProperties dev' = formatProperties dev"
  shows "findDepthFormat dev' = findDepthFormat dev"
proof -
  have "findSupportedFormat dev' cs t f = findSupportedFormat dev cs t f" for cs t f
    by (induction cs) (simp_all add: a)
  then show ?thesis by (simp only: findDepthFormat_def)
qed

lemma FrameContext_recreate_result:
  assumes fmt: "findDepthFormat dev = Inr depthFormat"
    and sm: "imageMemoryFound dev (extent sc) eR16G16B16A16Sfloat 0x9"
    and dm: "imageMemoryFound dev (extent sc) depthFormat 0x20"
  shows "\<exists>dev' fc'. FrameContext_recreate dev sc fc = Inr (dev', fc') \<and>
     fc' = fc\<lparr>storageImages := storageImages fc', storageImagesMemory := storageImagesMemory fc',
               storageImageViews := storageImageViews fc',
               rayTracingOutputImages := rayTracingOutputImages fc',
               rayTracingOutputImagesMemory := rayTracingOutputImagesMemory fc',
               rayTracingOutputImageViews := rayTracingOutputImageViews fc',
               depthImages := depthImages fc', depthImagesMemory := depthImagesMemory fc',
               depthImageViews := depthImageViews fc'\<rparr> \<and>
     length (storageImages fc') = MAX_FRAMES_IN_FLIGHT \<and>
     length (rayTracingOutputImages fc') = MAX_FRAMES_IN_FLIGHT \<and>
     length (depthImages fc') = length (images sc) \<and>
     length (storageImageViews fc') = MAX_FRAMES_IN_FLIGHT \<and>
     length (rayTracingOutputImageViews fc') = MAX_FRAMES_IN_FLIGHT \<and>
     length (depthImageViews fc') = length (images sc) \<and>
     dev' = dev\<lparr>nextHandle := nextHandle dev', liveHandles := liveHandles dev'\<rparr> \<and>
     nextHandle dev' = nextHandle dev + 6 * MAX_FRAMES_IN_FLIGHT + 3 * length (images sc) \<and>
     extentDependentHandles fc' = {nextHandle dev ..< nextHandle dev'} \<and>
     liveHandles dev' =
       (liveHandles dev - extentDependentHandles fc) \<union> {nextHandle dev ..< nextHandle dev'}"
proof -
  obtain d1 fc1 where c: "cleanupSwapChainDependents dev fc = (d1, fc1)" by force
  have d1: "nextHandle d1 = nextHandle dev"
    "liveHandles d1 = liveHandles dev - extentDependentHandles fc"
    "d1 = dev\<lparr>nextHandle := nextHandle d1, liveHandles := liveHandles d1\<rparr>"
    using c by (auto simp: cleanupSwapChainDependents_def destroyHandles_def
        extentDependentHandles_def)
  have fc1: "fc1 = fc\<lparr>storageImageViews := [], storageImages := [], storageImagesMemory := [],
         rayTracingOutputImageViews := [], rayTracingOutputImages := [],
         rayTracingOutputImagesMemory := [],
         depthImageViews := [], depthImages := [], depthImagesMemory := []\<rparr>"
    using c by (auto simp: cleanupSwapChainDependents_def)
  have same1: "memoryTypes d1 = memoryTypes dev" "imageMemoryTypeBits d1 = imageMemoryTypeBits dev"
    "formatProperties d1 = formatProperties dev"
    by (subst d1(3), simp)+
  have sm1: "imageMemoryFound d1 (extent sc) eR16G16B16A16Sfloat 0x9"
    using sm imageMemoryFound_cong[OF same1(1,2)] by simp
  from createImagesWithViews_props[OF sm1, of MAX_FRAMES_IN_FLIGHT]
  obtain si sm0 sv d2 where
    s: "createImagesWithViews MAX_FRAMES_IN_FLIGHT (extent sc) eR16G16B16A16Sfloat 0x9 d1 =
          Inr ((si, sm0, sv), d2)"
    and sp: "length si = MAX_FRAMES_IN_FLIGHT" "length sm0 = MAX_FRAMES_IN_FLIGHT"
      "length sv = MAX_FRAMES_IN_FLIGHT"
      "nextHandle d2 = nextHandle d1 + 3 * MAX_FRAMES_IN_FLIGHT"
      "liveHandles d2 = liveHandles d1 \<union> {nextHandle d1 ..< nextHandle d1 + 3 * MAX_FRAMES_IN_FLIGHT}"
      "set (si @ sm0 @ sv) = {nextHandle d1 ..< nextHandle d1 + 3 * MAX_FRAMES_IN_FLIGHT}"
      "d2 = d1\<lparr>nextHandle := nextHandle d2, liveHandles := liveHandles d2\<rparr>"
    by blast
  have same2: "memoryTypes d2 = memoryTypes dev" "imageMemoryTypeBits d2 = imageMemoryTypeBits dev"
    "formatProperties d2 = formatProperties dev"
    by (subst sp(7), simp add: same1)+
  have sm2: "imageMemoryFound d2 (extent sc) eR16G16B16A16Sfloat 0x9"
    using sm imageMemoryFound_cong[OF same2(1,2)] by simp
  from createImagesWithViews_props[OF sm2, of MAX_FRAMES_IN_FLIGHT]
  obtain ri rm rv d3 where
    r: "createImagesWithViews MAX_FRAMES_IN_FLIGHT (extent sc) eR16G16B16A16Sfloat 0x9 d2 =
          Inr ((ri, rm, rv), d3)"
    and rp: "length ri = MAX_FRAMES_IN_FLIGHT" "length rm = MAX_FRAMES_IN_FLIGHT"
      "length rv = MAX_FRAMES_IN_FLIGHT"
      "nextHandle d3 = nextHandle d2 + 3 * MAX_FRAMES_IN_FLIGHT"
      "liveHandles d3 = liveHandles d2 \<union> {nextHandle d2 ..< nextHandle d2 + 3 * MAX_FRAMES_IN_FLIGHT}"
      "set (ri @ rm @ rv) = {nextHandle d2 ..< nextHandle d2 + 3 * MAX_FRAMES_IN_FLIGHT}"
      "d3 = d2\<lparr>nextHandle := nextHandle d3, liveHandles := liveHandles d3\<rparr>"
    by blast
  have same3: "memoryTypes d3 = memoryTypes dev" "imageMemoryTypeBits d3 = imageMemoryTypeBits dev"
    "formatProperties d3 = formatProperties dev"
    by (subst rp(7), simp add: same2)+
  have dm3: "imageMemoryFound d3 (extent sc) depthFormat 0x20"
    using dm imageMemoryFound_cong[OF same3(1,2)] by simp
  from createImagesWithViews_props[OF dm3, of "length (images sc)"]
  obtain di dm0 dv d4 where
    d: "createImagesWithViews (length (images sc)) (extent sc) depthFormat 0x20 d3 =
          Inr ((di, dm0, dv), d4)"
    and dp: "length di = length (images sc)" "length dm0 = length (images sc)"
      "length dv = length (images sc)"
      "nextHandle d4 = nextHandle d3 + 3 * length (images sc)"
      "liveHandles d4 = liveHandles d3 \<union> {nextHandle d3 ..< nextHandle d3 + 3 * length (images sc)}"
      "set (di @ dm0 @ dv) = {nextHandle d3 ..< nextHandle d3 + 3 * length (images sc)}"
      "d4 = d3\<lparr>nextHandle := nextHandle d4, liveHandles := liveHandles d4\<rparr>"
    by blast
  have d4: "d4 = dev\<lparr>nextHandle := nextHandle d4, liveHandles := liveHandles d4\<rparr>"
    by (subst dp(7), subst rp(7), subst sp(7), subst d1(3)) simp
  have f3: "findDepthFormat d3 = Inr depthFormat"
    using fmt findDepthFormat_cong[OF same3(3)] by simp
  define fc' where "fc' = fc1\<lparr>storageImages := si, storageImagesMemory := sm0,
      storageImageViews := sv, rayTracingOutputImages := ri,
      rayTracingOutputImagesMemory := rm, rayTracingOutputImageViews := rv,
      depthImages := di, depthImagesMemory := dm0, depthImageViews := dv\<rparr>"
  have d1e: "destroyHandles [] x = x" for x by (simp add: destroyHandles_def)
  have res: "FrameContext_recreate dev sc fc = Inr (d4, fc')"
    unfolding FrameContext_recreate_def createStorageResources_def
      createRayTracingOutputImages_def createDepthResources_def
    using c s r d f3 by (simp add: fc1 d1e fc'_def)
  have sets: "set (si @ sm0 @ sv) = {nextHandle dev ..< nextHandle dev + 3 * MAX_FRAMES_IN_FLIGHT}"
    "set (ri @ rm @ rv) =
       {nextHandle dev + 3 * MAX_FRAMES_IN_FLIGHT ..< nextHandle dev + 6 * MAX_FRAMES_IN_FLIGHT}"
    "set (di @ dm0 @ dv) = {nextHandle dev + 6 * MAX_FRAMES_IN_FLIGHT ..< nextHandle d4}"
    "nextHandle d4 = nextHandle dev + 6 * MAX_FRAMES_IN_FLIGHT + 3 * length (images sc)"
    using sp(4,6) rp(4,6) dp(4,6) d1(1) by auto
  have edh: "extentDependentHandles fc' =
      set (si @ sm0 @ sv) \<union> set (ri @ rm @ rv) \<union> set (di @ dm0 @ dv)"
    by (auto simp: extentDependentHandles_def fc'_def)
  have e: "extentDependentHandles fc' = {nextHandle dev ..< nextHandle d4}"
    unfolding edh sets(1,2,3) using sets(4) by auto
  have l: "liveHandles d4 =
      (liveHandles dev - extentDependentHandles fc) \<union> {nextHandle dev ..< nextHandle d4}"
    using sp(4,5) rp(4,5) dp(4,5) d1(1,2) by auto
  show ?thesis
    using res e l sp(1-3) rp(1-3) dp(1-3) d4 sets(4)
    by (intro exI[of _ d4] exI[of _ fc']) (simp add: fc'_def fc1)
qed

lemma FrameContext_recreate_throws:
  assumes "\<not> imageMemoryFound dev (extent sc) eR16G16B16A16Sfloat 0x9"
  shows "FrameContext_recreate dev sc fc =
     Inl (RuntimeError ''failed to find suitable memory type!'')"
proof -
  obtain d1 fc1 where c: "cleanupSwapChainDependents dev fc = (d1, fc1)" by force
  define d1' where "d1' = destroyHandles
      (storageImages fc1 @ storageImagesMemory fc1 @ storageImageViews fc1) d1"
  have "memoryTypes d1' = memoryTypes dev" "imageMemoryTypeBits d1' = imageMemoryTypeBits dev"
    using c by (auto simp: cleanupSwapChainDependents_def destroyHandles_def d1'_def)
  then have "\<not> imageMemoryFound d1' (extent sc) eR16G16B16A16Sfloat 0x9"
    using assms imageMemoryFound_cong[of d1' dev] by simp
  from createImage_not_found[OF this] show ?thesis
    using c by (simp add: FrameContext_recreate_def createStorageResources_def
        MAX_FRAMES_IN_FLIGHT_def numeral_2_eq_2 d1'_def)
qed



section \<open>What a recorded frame contains\<close>


lemma at_Inr: "i < length xs \<Longrightarrow> at xs i what = Inr (xs ! i)"
  by (simp add: at_def)

lemma isTlasBuild_simps [simp]:
  "isTlasBuild (PipelineBarrier2 b) = False"
  "isTlasBuild (BuildAccelerationStructuresKHR dst scratch inst n) = True"
  "isTlasBuild (BindPipeline bp h) = False"
  "isTlasBuild (BindDescriptorSets bp h k hs) = False"
  "isTlasBuild (BindVertexBuffers h) = False"
  "isTlasBuild (BindIndexBuffer ho) = False"
  "isTlasBuild (PushConstants h pd) = False"
  "isTlasBuild (DrawIndexed a1 a2 a3) = False"
  "isTlasBuild (BeginRendering o1 o2 e) = False"
  "isTlasBuild EndRendering = False"
  "isTlasBuild (SetViewport v) = False"
  "isTlasBuild (SetScissor e) = False"
  "isTlasBuild (Dispatch x y z) = False"
  "isTlasBuild (TraceRaysKHR x y z) = False"
  "isTlasBuild (BlitImage h1 h2 e) = False"
  "isTlasBuild ImGuiRenderDrawData = False"
  by (simp_all add: isTlasBuild_def)

lemma tlasBuilds_simps [simp]:
  "tlasBuilds [] = []"
  "tlasBuilds (c # cs) = (if isTlasBuild c then c # tlasBuilds cs else tlasBuilds cs)"
  "tlasBuilds (xs @ ys) = tlasBuilds xs @ tlasBuilds ys"
  by (simp_all add: tlasBuilds_def)

lemma noBuild_drawMesh: "tlasBuilds (drawMesh layout m c modelRes meshIdx) = []"
proof -
  have aux: "tlasBuilds (concat (map (\<lambda>prim. [PushConstants layout (ScenePush m (flatPrimitiveIndex prim) c),
          DrawIndexed (indexCount prim) (firstIndex prim) (vertexOffset prim)]) ps)) = []" for ps
    by (induction ps) simp_all
  show ?thesis by (simp add: drawMesh_def aux)
qed

lemma noBuild_bindResources: "tlasBuilds (bindResources models ident) = []"
  by (simp add: bindResources_def split: option.splits)

lemma noBuild_concat_drawMesh:
  "tlasBuilds (concat (map (drawMesh layout m c modelRes) idxs)) = []"
  by (induction idxs) (simp_all add: noBuild_drawMesh)

lemma noBuild_drawNode: "tlasBuilds (drawNode store models layout node) = []"
  by (auto simp: drawNode_def noBuild_bindResources noBuild_concat_drawMesh
      split: option.splits)

lemma noBuild_Scene_draw:
  "tlasBuilds (snd (Scene_draw store models layout sc cullBounds)) = []"
proof -
  have aux: "tlasBuilds (concat (map (drawNode store models layout) ns)) = []" for ns
    by (induction ns) (simp_all add: noBuild_drawNode)
  show ?thesis by (simp add: Scene_draw_def aux split: prod.splits)
qed

lemma noBuild_shadowNodeDraws:
  "tlasBuilds (shadowNodeDraws eng cascadeIdx ns) = []"
  by (induction ns)
    (auto simp: noBuild_bindResources noBuild_concat_drawMesh split: option.splits)

lemma unat_cascade_view_index:
  fixes fi :: uint32
  shows "unat (fi * word_of_nat NUM_SHADOW_CASCADES + (word_of_nat c :: uint32))
           \<le> unat fi * NUM_SHADOW_CASCADES + c"
proof -
  have "unat (fi * word_of_nat NUM_SHADOW_CASCADES + (word_of_nat c :: uint32))
      = (unat fi * NUM_SHADOW_CASCADES + c) mod 2 ^ 32"
    by (simp add: unat_word_ariths unat_of_nat NUM_SHADOW_CASCADES_def mod_simps)
  then show ?thesis by simp
qed

lemma shadowCascades_returns:
  "unat (frameIndex (frames eng)) * NUM_SHADOW_CASCADES + c + remaining
      \<le> length (shadowCascadeViews (frames eng)) \<Longrightarrow>
   \<exists>cs. shadowCascades eng c remaining = Inr cs \<and> tlasBuilds cs = []"
proof (induction remaining arbitrary: c)
  case 0
  then show ?case by simp
next
  case (Suc remaining)
  have "unat (frameIndex (frames eng) * word_of_nat NUM_SHADOW_CASCADES + (word_of_nat c :: uint32))
      < length (shadowCascadeViews (frames eng))"
    using unat_cascade_view_index[of "frameIndex (frames eng)" c] Suc.prems by linarith
  moreover from Suc.IH[of "Suc c"] Suc.prems obtain cs where
    "shadowCascades eng (Suc c) remaining = Inr cs" "tlasBuilds cs = []" by auto
  ultimately show ?case
    by (simp add: at_Inr noBuild_shadowNodeDraws)
qed

lemma recordComputeCommandBuffer_returns:
  assumes "framesInRange eng imageIndex"
  shows "\<exists>cs. recordComputeCommandBuffer eng imageIndex = Inr cs \<and> tlasBuilds cs = []"
  using assms
  by (simp add: recordComputeCommandBuffer_def framesInRange_def at_Inr
      transition_image_layout_def)

lemma recordRayTracingCommandBuffer_returns:
  assumes "framesInRange eng imageIndex"
  shows "\<exists>cs. recordRayTracingCommandBuffer eng imageIndex = Inr cs \<and> tlasBuilds cs = []"
  using assms
  by (simp add: recordRayTracingCommandBuffer_def framesInRange_def at_Inr
      transition_image_layout_def)

lemma recordShadowPass_returns:
  assumes r: "framesInRange eng imageIndex"
  shows "\<exists>cs. recordShadowPass eng imageIndex = Inr cs \<and> tlasBuilds cs = []"
proof -
  from r have "unat (frameIndex (frames eng)) * NUM_SHADOW_CASCADES + 0 + NUM_SHADOW_CASCADES
      \<le> length (shadowCascadeViews (frames eng))"
    by (simp add: framesInRange_def frameSlot_def)
  from shadowCascades_returns[OF this] obtain cs where
    cs: "shadowCascades eng 0 NUM_SHADOW_CASCADES = Inr cs" "tlasBuilds cs = []" by auto
  from recordComputeCommandBuffer_returns[OF r] obtain cc where
    cc: "recordComputeCommandBuffer eng imageIndex = Inr cc" "tlasBuilds cc = []" by auto
  show ?thesis using r cs cc
    by (simp add: recordShadowPass_def framesInRange_def at_Inr)
qed

lemma recordMainPass_returns:
  assumes r: "framesInRange eng imageIndex"
  shows "\<exists>sc cs. recordMainPass ops eng imageIndex = Inr (sc, cs) \<and> tlasBuilds cs = []"
proof -
  obtain sc' draws where d: "Scene_draw (nodeStore eng) (resourceManager eng)
      (graphicsPipelineLayout (pipelines eng)) (scene eng)
      (cameraCullBounds ops (cameraPosition eng)) = (sc', draws)" by force
  have nb: "tlasBuilds draws = []"
    using noBuild_Scene_draw[of "nodeStore eng" "resourceManager eng"
        "graphicsPipelineLayout (pipelines eng)" "scene eng"
        "cameraCullBounds ops (cameraPosition eng)"] d by simp
  show ?thesis using r d nb
    by (cases "useRayTracing eng")
      (simp_all add: recordMainPass_def framesInRange_def at_Inr
        transition_image_layout_def)
qed

lemma recordTlasBuild_returns:
  assumes r: "framesInRange eng imageIndex"
    and n: "length insts \<le> MAX_TLAS_INSTANCES"
  shows "recordTlasBuild eng insts =
      Inr (if insts = [] then instanceBufferContents eng
           else (instanceBufferContents eng)
                  (tlasInstanceBuffersMapped (frames eng) ! frameSlot eng :=
                     insts @ drop (length insts)
                       (instanceBufferContents eng
                          (tlasInstanceBuffersMapped (frames eng) ! frameSlot eng))),
           [PipelineBarrier2 HostWriteToAccelerationStructureBuild,
            BuildAccelerationStructuresKHR (tlas (frames eng) ! frameSlot eng)
              (tlasScratchAddresses (frames eng) ! frameSlot eng)
              (tlasInstanceAddresses (frames eng) ! frameSlot eng)
              (word_of_nat (length insts)),
            PipelineBarrier2 AccelerationStructureBuildToRayTracingShader])"
  using r n by (simp add: recordTlasBuild_def framesInRange_def at_Inr)

lemma recordCommandBuffer_returns:
  assumes r: "framesInRange eng imageIndex"
    and i: "tlasInstancesOf ndebug (nodeStore eng) (resourceManager eng) (allNodes (scene eng))
              = Inr insts"
    and n: "useRayTracing eng \<longrightarrow> length insts \<le> MAX_TLAS_INSTANCES"
  shows "\<exists>recorded eng'. recordCommandBuffer ndebug ops eng imageIndex = Inr eng' \<and>
     frames eng' = frames eng \<and> swapchain eng' = swapchain eng \<and> vulkan eng' = vulkan eng \<and>
     hostCalls eng' = hostCalls eng \<and> signaledFences eng' = signaledFences eng \<and>
     commandBufferContents eng' =
       (commandBufferContents eng)
         (commandBuffers (frames eng) ! frameSlot eng :=
            commandBufferContents eng (commandBuffers (frames eng) ! frameSlot eng) @ recorded) \<and>
     tlasBuilds recorded =
       (if useRayTracing eng
        then [BuildAccelerationStructuresKHR (tlas (frames eng) ! frameSlot eng)
                (tlasScratchAddresses (frames eng) ! frameSlot eng)
                (tlasInstanceAddresses (frames eng) ! frameSlot eng)
                (word_of_nat (length insts))]
        else []) \<and>
     instanceBufferContents eng' =
       (if useRayTracing eng \<and> insts \<noteq> []
        then (instanceBufferContents eng)
               (tlasInstanceBuffersMapped (frames eng) ! frameSlot eng :=
                  insts @ drop (length insts)
                    (instanceBufferContents eng
                       (tlasInstanceBuffersMapped (frames eng) ! frameSlot eng)))
        else instanceBufferContents eng)"
proof -
  have cb: "at (commandBuffers (frames eng)) (frameSlot eng) ''commandBuffers'' =
      Inr (commandBuffers (frames eng) ! frameSlot eng)"
    using r by (simp add: framesInRange_def at_Inr)
  from recordMainPass_returns[OF r, of ops] obtain sc mainCs where
    m: "recordMainPass ops eng imageIndex = Inr (sc, mainCs)" "tlasBuilds mainCs = []"
    by auto
  show ?thesis
  proof (cases "useRayTracing eng")
    case True
    with n have n': "length insts \<le> MAX_TLAS_INSTANCES" by simp
    from recordRayTracingCommandBuffer_returns[OF r] obtain rt where
      rt: "recordRayTracingCommandBuffer eng imageIndex = Inr rt" "tlasBuilds rt = []"
      by auto
    show ?thesis
      using True cb i m rt recordTlasBuild_returns[OF r n']
      by (intro exI[of _ "[PipelineBarrier2 HostWriteToAccelerationStructureBuild,
            BuildAccelerationStructuresKHR (tlas (frames eng) ! frameSlot eng)
              (tlasScratchAddresses (frames eng) ! frameSlot eng)
              (tlasInstanceAddresses (frames eng) ! frameSlot eng)
              (word_of_nat (length insts)),
            PipelineBarrier2 AccelerationStructureBuildToRayTracingShader] @ rt @ mainCs"])
        (simp add: recordCommandBuffer_def)
  next
    case False
    from recordShadowPass_returns[OF r] obtain sh where
      sh: "recordShadowPass eng imageIndex = Inr sh" "tlasBuilds sh = []" by auto
    show ?thesis
      using False cb i m sh
      by (intro exI[of _ "sh @ mainCs"]) (simp add: recordCommandBuffer_def)
  qed
qed

lemma structuresBuilt_tlasBuilds:
  "structuresBuilt eng cs = structuresBuilt eng (tlasBuilds cs)"
  by (induction eng cs rule: structuresBuilt.induct) simp_all

lemma map_of_zip_same_index:
  assumes d: "distinct xs" and i: "i < length xs" "i < length ys"
  shows "map_of (zip xs ys) (xs ! i) = Some (ys ! i)"
proof -
  define m where "m = min (length xs) (length ys)"
  have z: "zip xs ys = zip (take m xs) (take m ys)"
    by (simp add: m_def zip_eq_conv take_zip[symmetric])
  have "map_of (zip (take m xs) (take m ys)) (take m xs ! i) = Some (take m ys ! i)"
    using d i by (intro map_of_zip_nth) (simp_all add: m_def)
  then show ?thesis using z i by (simp add: m_def)
qed

lemma instanceRecordsAt_slot:
  assumes "distinct (tlasInstanceAddresses (frames eng))"
    and "i < length (tlasInstanceAddresses (frames eng))"
    and "i < length (tlasInstanceBuffersMapped (frames eng))"
  shows "instanceRecordsAt eng (tlasInstanceAddresses (frames eng) ! i) =
     instanceBufferContents eng (tlasInstanceBuffersMapped (frames eng) ! i)"
  using map_of_zip_same_index[OF assms] by (simp add: instanceRecordsAt_def)


section \<open>Rebuilding the chain\<close>

lemma createHandles_props:
  "createHandles n dev = (hs, dev') \<Longrightarrow>
     length hs = n \<and> set hs = {nextHandle dev ..< nextHandle dev + n} \<and>
     nextHandle dev' = nextHandle dev + n \<and>
     liveHandles dev' = liveHandles dev \<union> {nextHandle dev ..< nextHandle dev + n} \<and>
     dev' = dev\<lparr>nextHandle := nextHandle dev', liveHandles := liveHandles dev'\<rparr>"
proof (induction n arbitrary: dev hs dev')
  case 0
  then show ?case by simp
next
  case (Suc n)
  define d1 where "d1 = dev\<lparr>nextHandle := Suc (nextHandle dev),
                             liveHandles := insert (nextHandle dev) (liveHandles dev)\<rparr>"
  obtain hs1 d2 where r: "createHandles n d1 = (hs1, d2)" by force
  from Suc.IH[OF r] have ih: "length hs1 = n" "set hs1 = {nextHandle d1 ..< nextHandle d1 + n}"
    "nextHandle d2 = nextHandle d1 + n"
    "liveHandles d2 = liveHandles d1 \<union> {nextHandle d1 ..< nextHandle d1 + n}"
    "d2 = d1\<lparr>nextHandle := nextHandle d2, liveHandles := liveHandles d2\<rparr>"
    by auto
  from Suc.prems r have eqs: "hs = nextHandle dev # hs1" "dev' = d2"
    by (auto simp: createHandle_def d1_def split: prod.splits)
  have d2: "d2 = dev\<lparr>nextHandle := nextHandle d2, liveHandles := liveHandles d2\<rparr>"
    by (subst ih(5)) (simp add: d1_def)
  have n1: "nextHandle d1 = Suc (nextHandle dev)"
    "liveHandles d1 = insert (nextHandle dev) (liveHandles dev)"
    by (simp_all add: d1_def)
  show ?case
    unfolding eqs using ih(1-4) n1 d2 by auto
qed

lemma chooseSwapPresentMode_fifo:
  "eFifo \<in> set modes \<Longrightarrow> \<exists>m. chooseSwapPresentMode modes = Inr m"
  by (auto simp: chooseSwapPresentMode_def list_ex_iff)

lemma chooseSwapSurfaceFormat_nonempty:
  "fs \<noteq> [] \<Longrightarrow> \<exists>f. chooseSwapSurfaceFormat fs = Inr f"
  by (cases fs) (auto simp: chooseSwapSurfaceFormat_def split: option.splits)

lemma SwapchainManager_init_returns:
  assumes f: "surfaceFormats srf \<noteq> []"
    and m: "eFifo \<in> set (presentModes srf)"
    and v: "imageViews sc = []"
    and c: "swapChain sc = None"
  shows "\<exists>dev' sc'. SwapchainManager_init ndebug dev srf sc = Inr (dev', sc') \<and>
     dev' = dev\<lparr>nextHandle := nextHandle dev', liveHandles := liveHandles dev'\<rparr> \<and>
     nextHandle dev' = nextHandle dev + 1 + 2 * chainLength srf \<and>
     liveHandles dev' = liveHandles dev \<union> {nextHandle dev ..< nextHandle dev'} \<and>
     swapChain sc' = Some (nextHandle dev) \<and>
     set (images sc') = {nextHandle dev + 1 ..< nextHandle dev + 1 + chainLength srf} \<and>
     set (imageViews sc') = {nextHandle dev + 1 + chainLength srf ..< nextHandle dev'} \<and>
     length (images sc') = chainLength srf \<and>
     length (imageViews sc') = chainLength srf \<and>
     extent sc' = chooseSwapExtent (capabilities srf) (framebufferSize srf) \<and>
     framebufferResized sc' = framebufferResized sc"
proof -
  from chooseSwapSurfaceFormat_nonempty[OF f] obtain fmt where
    fmt: "chooseSwapSurfaceFormat (surfaceFormats srf) = Inr fmt" by auto
  from chooseSwapPresentMode_fifo[OF m] obtain mode where
    mode: "chooseSwapPresentMode (presentModes srf) = Inr mode" by auto
  define d1 where "d1 = dev\<lparr>nextHandle := Suc (nextHandle dev),
                             liveHandles := insert (nextHandle dev) (liveHandles dev)\<rparr>"
  obtain imgs d2 where i: "createHandles (chainLength srf) d1 = (imgs, d2)" by force
  note ip = createHandles_props[OF i]
  obtain views d3 where w: "createHandles (length imgs) d2 = (views, d3)" by force
  note wp = createHandles_props[OF w]
  have cs: "createSwapChain dev srf sc =
      Inr (d2, sc\<lparr>extent := chooseSwapExtent (capabilities srf) (framebufferSize srf),
                   surfaceFormat := fmt, swapChain := Some (nextHandle dev),
                   images := imgs\<rparr>)"
    using fmt mode c i[unfolded d1_def] by (simp add: createSwapChain_def createHandle_def)
  have res: "SwapchainManager_init ndebug dev srf sc =
      Inr (d3, sc\<lparr>extent := chooseSwapExtent (capabilities srf) (framebufferSize srf),
                   surfaceFormat := fmt, swapChain := Some (nextHandle dev),
                   images := imgs, imageViews := views\<rparr>)"
    using cs w v by (simp add: SwapchainManager_init_def createImageViews_def)
  from ip have ipd: "d2 = d1\<lparr>nextHandle := nextHandle d2, liveHandles := liveHandles d2\<rparr>"
    by blast
  from wp have wpd: "d3 = d2\<lparr>nextHandle := nextHandle d3, liveHandles := liveHandles d3\<rparr>"
    by blast
  have d3: "d3 = dev\<lparr>nextHandle := nextHandle d3, liveHandles := liveHandles d3\<rparr>"
    by (subst wpd, subst ipd) (simp add: d1_def)
  have n1: "nextHandle d1 = Suc (nextHandle dev)"
    "liveHandles d1 = insert (nextHandle dev) (liveHandles dev)"
    by (simp_all add: d1_def)
  have nums: "nextHandle d2 = nextHandle dev + 1 + chainLength srf"
    "nextHandle d3 = nextHandle dev + 1 + 2 * chainLength srf"
    "length imgs = chainLength srf" "length views = chainLength srf"
    using ip wp n1 by auto
  have sets: "set imgs = {nextHandle dev + 1 ..< nextHandle dev + 1 + chainLength srf}"
    "set views = {nextHandle dev + 1 + chainLength srf ..< nextHandle d3}"
    "liveHandles d3 = liveHandles dev \<union> {nextHandle dev ..< nextHandle d3}"
    using ip wp n1 nums by auto
  show ?thesis
    using res d3 nums sets by (intro exI[of _ d3]) simp
qed

lemma recreateSwapChain_returns:
  assumes w: "framebufferRestored (framebufferSizeNow env) (framebufferSizesLater env)"
    and f: "surfaceFormats (surface env) \<noteq> []"
    and m: "eFifo \<in> set (presentModes (surface env))"
    and d: "findDepthFormat (vulkan eng) = Inr depthFormat"
    and sm: "imageMemoryFound (vulkan eng)
               (chooseSwapExtent (capabilities (surface env)) (framebufferSize (surface env)))
               eR16G16B16A16Sfloat 0x9"
    and dm: "imageMemoryFound (vulkan eng)
               (chooseSwapExtent (capabilities (surface env)) (framebufferSize (surface env)))
               depthFormat 0x20"
    and t: "MAX_FRAMES_IN_FLIGHT \<le> length (tlas (frames eng))"
    and b: "ndebug \<or> list_all modelHasBuffers (take 1000 (resourceManager eng))"
  shows "\<exists>eng'. recreateSwapChain ndebug env eng = Some (Inr eng') \<and>
     eng' = eng\<lparr>vulkan := vulkan eng', swapchain := swapchain eng', frames := frames eng',
                 computeDescriptorSets := computeDescriptorSets eng',
                 rtDescriptorSets := rtDescriptorSets eng',
                 hostCalls := hostCalls eng @ [DeviceWaitIdle]\<rparr> \<and>
     frames eng' = (frames eng)
       \<lparr>storageImages := storageImages (frames eng'),
        storageImagesMemory := storageImagesMemory (frames eng'),
        storageImageViews := storageImageViews (frames eng'),
        rayTracingOutputImages := rayTracingOutputImages (frames eng'),
        rayTracingOutputImagesMemory := rayTracingOutputImagesMemory (frames eng'),
        rayTracingOutputImageViews := rayTracingOutputImageViews (frames eng'),
        depthImages := depthImages (frames eng'),
        depthImagesMemory := depthImagesMemory (frames eng'),
        depthImageViews := depthImageViews (frames eng')\<rparr> \<and>
     length (depthImageViews (frames eng')) = chainLength (surface env) \<and>
     hostCalls eng' = hostCalls eng @ [DeviceWaitIdle] \<and>
     signaledFences eng' = signaledFences eng \<and>
     commandBufferContents eng' = commandBufferContents eng \<and>
     instanceBufferContents eng' = instanceBufferContents eng \<and>
     frameIndex (frames eng') = frameIndex (frames eng) \<and>
     inFlightFences (frames eng') = inFlightFences (frames eng) \<and>
     presentCompleteSemaphores (frames eng') = presentCompleteSemaphores (frames eng) \<and>
     renderFinishedSemaphores (frames eng') = renderFinishedSemaphores (frames eng) \<and>
     commandBuffers (frames eng') = commandBuffers (frames eng) \<and>
     swapChain (swapchain eng') = Some (nextHandle (vulkan eng)) \<and>
     length (images (swapchain eng')) = chainLength (surface env) \<and>
     length (imageViews (swapchain eng')) = chainLength (surface env) \<and>
     extent (swapchain eng') =
       chooseSwapExtent (capabilities (surface env)) (framebufferSize (surface env)) \<and>
     length (storageImages (frames eng')) = MAX_FRAMES_IN_FLIGHT \<and>
     length (rayTracingOutputImages (frames eng')) = MAX_FRAMES_IN_FLIGHT \<and>
     length (depthImages (frames eng')) = chainLength (surface env) \<and>
     length (computeDescriptorSets eng') = MAX_FRAMES_IN_FLIGHT \<and>
     length (rtDescriptorSets eng') = MAX_FRAMES_IN_FLIGHT \<and>
     nextHandle (vulkan eng') =
       nextHandle (vulkan eng) + 1 + 5 * chainLength (surface env) + 8 * MAX_FRAMES_IN_FLIGHT \<and>
     set (images (swapchain eng')) \<union> resizeDependentHandles eng' =
       {nextHandle (vulkan eng) ..< nextHandle (vulkan eng')} \<and>
     liveHandles (vulkan eng') \<subseteq>
       (liveHandles (vulkan eng) - resizeDependentHandles eng) \<union>
       {nextHandle (vulkan eng) ..< nextHandle (vulkan eng')} \<and>
     ((\<forall>h \<in> set (computeDescriptorSets eng) \<union> set (rtDescriptorSets eng).
          h < nextHandle (vulkan eng)) \<longrightarrow>
      {nextHandle (vulkan eng) ..< nextHandle (vulkan eng')} \<subseteq> liveHandles (vulkan eng'))"
proof -
  define n0 where "n0 = nextHandle (vulkan eng)"
  define k where "k = chainLength (surface env)"
  define ext where
    "ext = chooseSwapExtent (capabilities (surface env)) (framebufferSize (surface env))"
  define eng0 where "eng0 = eng\<lparr>hostCalls := hostCalls eng @ [DeviceWaitIdle]\<rparr>"
  obtain dev1 sc1 where c1: "SwapchainManager_cleanup (vulkan eng0) (swapchain eng0) = (dev1, sc1)"
    by force
  obtain dev2 fc2 where c2: "cleanupSwapChainDependents dev1 (frames eng0) = (dev2, fc2)"
    by force
  have sc1: "imageViews sc1 = []" "swapChain sc1 = None"
    "framebufferResized sc1 = framebufferResized (swapchain eng)"
    using c1 by (auto simp: SwapchainManager_cleanup_def eng0_def)
  have dev2: "dev2 = (vulkan eng)\<lparr>nextHandle := nextHandle dev2, liveHandles := liveHandles dev2\<rparr>"
    "nextHandle dev2 = n0"
    "liveHandles dev2 = liveHandles (vulkan eng) -
        (set_option (swapChain (swapchain eng)) \<union> set (imageViews (swapchain eng)) \<union>
         extentDependentHandles (frames eng))"
    using c1 c2 by (auto simp: SwapchainManager_cleanup_def cleanupSwapChainDependents_def
        destroyHandles_def eng0_def n0_def extentDependentHandles_def split: option.splits)
  have fc2: "fc2 = (frames eng)\<lparr>storageImageViews := [], storageImages := [],
         storageImagesMemory := [], rayTracingOutputImageViews := [],
         rayTracingOutputImages := [], rayTracingOutputImagesMemory := [],
         depthImageViews := [], depthImages := [], depthImagesMemory := []\<rparr>"
    using c2 by (auto simp: cleanupSwapChainDependents_def eng0_def)
  have fc2e: "extentDependentHandles fc2 = {}"
    by (simp add: fc2 extentDependentHandles_def)
  define eng1 where "eng1 = eng0\<lparr>vulkan := dev2, swapchain := sc1, frames := fc2\<rparr>"
  have e1: "cleanupSwapChain eng0 = eng1"
    using c1 c2 by (simp add: cleanupSwapChain_def eng1_def)
  from SwapchainManager_init_returns[OF f m sc1(1,2), of ndebug dev2]
  obtain dev3 sc3 where i: "SwapchainManager_init ndebug dev2 (surface env) sc1 = Inr (dev3, sc3)"
    and dev3: "dev3 = dev2\<lparr>nextHandle := nextHandle dev3, liveHandles := liveHandles dev3\<rparr>"
      "nextHandle dev3 = n0 + 1 + 2 * k"
      "liveHandles dev3 = liveHandles dev2 \<union> {n0 ..< nextHandle dev3}"
    and sc3: "swapChain sc3 = Some n0"
      "set (images sc3) = {n0 + 1 ..< n0 + 1 + k}"
      "set (imageViews sc3) = {n0 + 1 + k ..< nextHandle dev3}"
      "length (images sc3) = k" "length (imageViews sc3) = k"
      "extent sc3 = ext"
    unfolding k_def ext_def using dev2(2) by blast
  have same3: "formatProperties dev3 = formatProperties (vulkan eng)"
    "memoryTypes dev3 = memoryTypes (vulkan eng)"
    "imageMemoryTypeBits dev3 = imageMemoryTypeBits (vulkan eng)"
    by (subst dev3(1), subst dev2(1), simp)+
  have d3: "findDepthFormat dev3 = Inr depthFormat"
    using d findDepthFormat_cong[OF same3(1)] by simp
  have sm3: "imageMemoryFound dev3 (extent sc3) eR16G16B16A16Sfloat 0x9"
    using sm imageMemoryFound_cong[OF same3(2,3)] sc3(6) by (simp add: ext_def)
  have dm3: "imageMemoryFound dev3 (extent sc3) depthFormat 0x20"
    using dm imageMemoryFound_cong[OF same3(2,3)] sc3(6) by (simp add: ext_def)
  from FrameContext_recreate_result[OF d3 sm3 dm3, of fc2]
  obtain dev4 fc4 where r: "FrameContext_recreate dev3 sc3 fc2 = Inr (dev4, fc4)"
    and eq: "fc4 = fc2\<lparr>storageImages := storageImages fc4,
               storageImagesMemory := storageImagesMemory fc4,
               storageImageViews := storageImageViews fc4,
               rayTracingOutputImages := rayTracingOutputImages fc4,
               rayTracingOutputImagesMemory := rayTracingOutputImagesMemory fc4,
               rayTracingOutputImageViews := rayTracingOutputImageViews fc4,
               depthImages := depthImages fc4, depthImagesMemory := depthImagesMemory fc4,
               depthImageViews := depthImageViews fc4\<rparr>"
    and len: "length (storageImageViews fc4) = MAX_FRAMES_IN_FLIGHT"
      "length (rayTracingOutputImageViews fc4) = MAX_FRAMES_IN_FLIGHT"
      "length (depthImages fc4) = length (images sc3)"
      "length (depthImageViews fc4) = length (images sc3)"
      "length (storageImages fc4) = MAX_FRAMES_IN_FLIGHT"
      "length (rayTracingOutputImages fc4) = MAX_FRAMES_IN_FLIGHT"
    and dev4: "nextHandle dev4 = nextHandle dev3 + 6 * MAX_FRAMES_IN_FLIGHT + 3 * length (images sc3)"
      "extentDependentHandles fc4 = {nextHandle dev3 ..< nextHandle dev4}"
      "liveHandles dev4 =
         (liveHandles dev3 - extentDependentHandles fc2) \<union> {nextHandle dev3 ..< nextHandle dev4}"
    by blast
  have keep: "tlas fc4 = tlas (frames eng)" "frameIndex fc4 = frameIndex (frames eng)"
    "inFlightFences fc4 = inFlightFences (frames eng)"
    "presentCompleteSemaphores fc4 = presentCompleteSemaphores (frames eng)"
    "renderFinishedSemaphores fc4 = renderFinishedSemaphores (frames eng)"
    "commandBuffers fc4 = commandBuffers (frames eng)"
    by (subst eq, simp add: fc2)+
  define eng3 where "eng3 = eng1\<lparr>vulkan := dev4, swapchain := sc3, frames := fc4\<rparr>"
  obtain cs dev5 where c: "createHandles MAX_FRAMES_IN_FLIGHT
      (destroyHandles (computeDescriptorSets eng3) (vulkan eng3)) = (cs, dev5)" by force
  note cp = createHandles_props[OF c]
  define eng4 where "eng4 = eng3\<lparr>vulkan := dev5, computeDescriptorSets := cs\<rparr>"
  have e4: "createComputeDescriptorSets eng3 = Inr eng4"
    using c len by (simp add: createComputeDescriptorSets_def eng4_def eng3_def)
  obtain rs dev6 where rr: "createHandles MAX_FRAMES_IN_FLIGHT
      (destroyHandles (rtDescriptorSets eng4) (vulkan eng4)) = (rs, dev6)" by force
  note rp = createHandles_props[OF rr]
  define eng5 where "eng5 = eng4\<lparr>vulkan := dev6, rtDescriptorSets := rs\<rparr>"
  have e5: "createRayTracingDescriptorSets ndebug eng4 = Inr eng5"
    using rr len t b keep
    by (auto simp add: createRayTracingDescriptorSets_def eng5_def eng4_def eng3_def eng1_def
        eng0_def)
  have e3: "eng0\<lparr>vulkan := dev4, swapchain := sc3, frames := fc4\<rparr> = eng3"
    by (simp add: eng3_def eng1_def)
  have res: "recreateSwapChain ndebug env eng = Some (Inr eng5)"
    using w e1 i r e4 e5
    by (simp add: recreateSwapChain_def eng0_def[symmetric] eng1_def e3)
  have n4: "nextHandle dev4 = n0 + 1 + 5 * k + 6 * MAX_FRAMES_IN_FLIGHT"
    using dev4(1) dev3(2) sc3(4) by simp
  have live4: "liveHandles dev4 = liveHandles dev2 \<union> {n0 ..< nextHandle dev4}"
    using dev4(1,3) dev3(2,3) fc2e by auto
  have v3: "vulkan eng3 = dev4" "computeDescriptorSets eng3 = computeDescriptorSets eng"
    "rtDescriptorSets eng4 = rtDescriptorSets eng" "vulkan eng4 = dev5"
    by (simp_all add: eng4_def eng3_def eng1_def eng0_def)
  have n5: "nextHandle dev5 = nextHandle dev4 + MAX_FRAMES_IN_FLIGHT"
    "set cs = {nextHandle dev4 ..< nextHandle dev4 + MAX_FRAMES_IN_FLIGHT}"
    "length cs = MAX_FRAMES_IN_FLIGHT"
    "liveHandles dev5 = (liveHandles dev4 - set (computeDescriptorSets eng)) \<union>
        {nextHandle dev4 ..< nextHandle dev4 + MAX_FRAMES_IN_FLIGHT}"
    using cp by (simp_all add: v3 destroyHandles_def)
  have n6: "nextHandle dev6 = nextHandle dev5 + MAX_FRAMES_IN_FLIGHT"
    "set rs = {nextHandle dev5 ..< nextHandle dev5 + MAX_FRAMES_IN_FLIGHT}"
    "length rs = MAX_FRAMES_IN_FLIGHT"
    "liveHandles dev6 = (liveHandles dev5 - set (rtDescriptorSets eng)) \<union>
        {nextHandle dev5 ..< nextHandle dev5 + MAX_FRAMES_IN_FLIGHT}"
    using rp by (simp_all add: v3 destroyHandles_def)
  have final: "vulkan eng5 = dev6" "swapchain eng5 = sc3" "frames eng5 = fc4"
    "computeDescriptorSets eng5 = cs" "rtDescriptorSets eng5 = rs"
    "hostCalls eng5 = hostCalls eng @ [DeviceWaitIdle]"
    "signaledFences eng5 = signaledFences eng"
    "commandBufferContents eng5 = commandBufferContents eng"
    "instanceBufferContents eng5 = instanceBufferContents eng"
    by (simp_all add: eng5_def eng4_def eng3_def eng1_def eng0_def)
  have next6: "nextHandle dev6 = n0 + 1 + 5 * k + 8 * MAX_FRAMES_IN_FLIGHT"
    using n4 n5(1) n6(1) by simp
  have fresh: "set (images sc3) \<union> resizeDependentHandles eng5 = {n0 ..< nextHandle dev6}"
    unfolding resizeDependentHandles_def final sc3(1,2,3) dev4(2) n5(2) n6(2)
    using dev3(2) n4 n5(1) n6(1) by auto
  have old: "resizeDependentHandles eng =
      set_option (swapChain (swapchain eng)) \<union> set (imageViews (swapchain eng)) \<union>
      extentDependentHandles (frames eng) \<union>
      set (computeDescriptorSets eng) \<union> set (rtDescriptorSets eng)"
    by (simp add: resizeDependentHandles_def)
  have sub: "liveHandles dev6 \<subseteq>
      (liveHandles (vulkan eng) - resizeDependentHandles eng) \<union> {n0 ..< nextHandle dev6}"
    unfolding old n6(4) n5(4) live4 dev2(3) using n4 n5(1) n6(1) by auto
  have sup: "{n0 ..< nextHandle dev6} \<subseteq> liveHandles dev6"
    if "\<forall>h \<in> set (computeDescriptorSets eng) \<union> set (rtDescriptorSets eng). h < n0"
  proof
    fix h
    assume h: "h \<in> {n0 ..< nextHandle dev6}"
    from that have below: "x \<in> set (computeDescriptorSets eng) \<Longrightarrow> x < n0"
      "x \<in> set (rtDescriptorSets eng) \<Longrightarrow> x < n0" for x by blast+
    have notold: "h \<notin> set (computeDescriptorSets eng)" "h \<notin> set (rtDescriptorSets eng)"
      using below[of h] h by auto
    consider "h < nextHandle dev4" | "nextHandle dev4 \<le> h" "h < nextHandle dev5"
      | "nextHandle dev5 \<le> h" by linarith
    then show "h \<in> liveHandles dev6"
    proof cases
      case 1
      then show ?thesis unfolding n6(4) n5(4) live4 using h notold by simp
    next
      case 2
      then show ?thesis unfolding n6(4) n5(4) live4 using h notold n5(1) by simp
    next
      case 3
      then show ?thesis unfolding n6(4) n5(4) live4 using h notold n6(1) by simp
    qed
  qed
  have whole: "eng5 = eng\<lparr>vulkan := vulkan eng5, swapchain := swapchain eng5, frames := frames eng5,
                 computeDescriptorSets := computeDescriptorSets eng5,
                 rtDescriptorSets := rtDescriptorSets eng5,
                 hostCalls := hostCalls eng @ [DeviceWaitIdle]\<rparr>"
    by (simp add: eng5_def eng4_def eng3_def eng1_def eng0_def)
  have fr: "frames eng5 = (frames eng)
       \<lparr>storageImages := storageImages (frames eng5),
        storageImagesMemory := storageImagesMemory (frames eng5),
        storageImageViews := storageImageViews (frames eng5),
        rayTracingOutputImages := rayTracingOutputImages (frames eng5),
        rayTracingOutputImagesMemory := rayTracingOutputImagesMemory (frames eng5),
        rayTracingOutputImageViews := rayTracingOutputImageViews (frames eng5),
        depthImages := depthImages (frames eng5),
        depthImagesMemory := depthImagesMemory (frames eng5),
        depthImageViews := depthImageViews (frames eng5)\<rparr>"
    unfolding final(3) by (subst eq) (simp add: fc2)
  show ?thesis
    using res whole fr final keep len sc3 next6 fresh sub sup n5(3) n6(3)
    by (intro exI[of _ eng5]) (simp add: n0_def[symmetric] k_def[symmetric] ext_def[symmetric])
qed
section \<open>A frame whose acquisition reports the chain out of date\<close>

text \<open>
  C8. Let the fence wait succeed and the acquisition report out-of-date, and let the rebuild
  be able to go through: the window gets a non-zero size, the surface offers a format and
  FIFO, the device has a depth format and device-local memory for the images of the new
  extent, the TLAS vectors are in place and, in a build with assertions, every loaded model
  has its buffers. Then \<open>drawFrame\<close> is the rebuild and nothing else, and it returns.

  The rebuild is the full one. After the \<open>waitIdle\<close> there are a new chain with as many
  images and image views as the surface gives, at the extent chosen for the surface, two
  storage and two ray-tracing output images and one depth image per image of the chain, and
  two compute and two ray-tracing descriptor sets. The chain, its images and views, the
  extent-dependent images with their memories and views and the descriptor sets are exactly
  the handles created during the call, each a different one. No handle of the old chain, of
  its views, of the old extent-dependent members or of the old descriptor sets is alive
  afterwards, and all the new ones are, provided the old sets were handed out earlier by
  this device.

  The aborted frame leaves nothing behind: the calls made are the fence wait, the
  acquisition and the \<open>waitIdle\<close>, with no uniform update, no fence reset, no
  command-buffer reset or begin, no submit and no present; the slot's fence is signalled
  (the wait returned and nothing reset it); no command buffer and no instance buffer has
  changed; the frame slot index and the synchronisation objects are what they were.
\<close>

theorem drawFrame_out_of_date:
  assumes slot: "frameSlot eng < length (inFlightFences (frames eng))"
      "frameSlot eng < length (presentCompleteSemaphores (frames eng))"
    and wait: "fenceWaitResult env = eSuccess"
    and acq: "acquireOutcome env = AcquireReturns eErrorOutOfDateKHR imageIndex"
    and w: "framebufferRestored (framebufferSizeNow env) (framebufferSizesLater env)"
    and f: "surfaceFormats (surface env) \<noteq> []"
    and m: "eFifo \<in> set (presentModes (surface env))"
    and d: "findDepthFormat (vulkan eng) = Inr depthFormat"
    and sm: "imageMemoryFound (vulkan eng)
               (chooseSwapExtent (capabilities (surface env)) (framebufferSize (surface env)))
               eR16G16B16A16Sfloat 0x9"
    and dm: "imageMemoryFound (vulkan eng)
               (chooseSwapExtent (capabilities (surface env)) (framebufferSize (surface env)))
               depthFormat 0x20"
    and t: "MAX_FRAMES_IN_FLIGHT \<le> length (tlas (frames eng))"
    and b: "ndebug \<or> list_all modelHasBuffers (take 1000 (resourceManager eng))"
  shows "drawFrame ndebug ops env eng =
           recreateSwapChain ndebug env
             (eng\<lparr>hostCalls := hostCalls eng @
                     [WaitForFences (inFlightFences (frames eng) ! frameSlot eng),
                      AcquireNextImage (presentCompleteSemaphores (frames eng) ! frameSlot eng)],
                   signaledFences :=
                     insert (inFlightFences (frames eng) ! frameSlot eng) (signaledFences eng)\<rparr>) \<and>
         (\<exists>eng'. drawFrame ndebug ops env eng = Some (Inr eng') \<and>
            hostCalls eng' = hostCalls eng @
              [WaitForFences (inFlightFences (frames eng) ! frameSlot eng),
               AcquireNextImage (presentCompleteSemaphores (frames eng) ! frameSlot eng),
               DeviceWaitIdle] \<and>
            signaledFences eng' =
              insert (inFlightFences (frames eng) ! frameSlot eng) (signaledFences eng) \<and>
            commandBufferContents eng' = commandBufferContents eng \<and>
            instanceBufferContents eng' = instanceBufferContents eng \<and>
            frameIndex (frames eng') = frameIndex (frames eng) \<and>
            inFlightFences (frames eng') = inFlightFences (frames eng) \<and>
            presentCompleteSemaphores (frames eng') = presentCompleteSemaphores (frames eng) \<and>
            renderFinishedSemaphores (frames eng') = renderFinishedSemaphores (frames eng) \<and>
            commandBuffers (frames eng') = commandBuffers (frames eng) \<and>
            swapChain (swapchain eng') = Some (nextHandle (vulkan eng)) \<and>
            length (images (swapchain eng')) = chainLength (surface env) \<and>
            length (imageViews (swapchain eng')) = chainLength (surface env) \<and>
            extent (swapchain eng') =
              chooseSwapExtent (capabilities (surface env)) (framebufferSize (surface env)) \<and>
            length (storageImages (frames eng')) = MAX_FRAMES_IN_FLIGHT \<and>
            length (rayTracingOutputImages (frames eng')) = MAX_FRAMES_IN_FLIGHT \<and>
            length (depthImages (frames eng')) = chainLength (surface env) \<and>
            length (computeDescriptorSets eng') = MAX_FRAMES_IN_FLIGHT \<and>
            length (rtDescriptorSets eng') = MAX_FRAMES_IN_FLIGHT \<and>
            nextHandle (vulkan eng') =
              nextHandle (vulkan eng) + 1 + 5 * chainLength (surface env) +
              8 * MAX_FRAMES_IN_FLIGHT \<and>
            set (images (swapchain eng')) \<union> resizeDependentHandles eng' =
              {nextHandle (vulkan eng) ..< nextHandle (vulkan eng')} \<and>
            liveHandles (vulkan eng') \<subseteq>
              (liveHandles (vulkan eng) - resizeDependentHandles eng) \<union>
              {nextHandle (vulkan eng) ..< nextHandle (vulkan eng')} \<and>
            ((\<forall>h \<in> set (computeDescriptorSets eng) \<union> set (rtDescriptorSets eng).
                 h < nextHandle (vulkan eng)) \<longrightarrow>
             {nextHandle (vulkan eng) ..< nextHandle (vulkan eng')} \<subseteq> liveHandles (vulkan eng')))"
proof -
  define eng1 where "eng1 = eng\<lparr>hostCalls := hostCalls eng @
        [WaitForFences (inFlightFences (frames eng) ! frameSlot eng),
         AcquireNextImage (presentCompleteSemaphores (frames eng) ! frameSlot eng)],
      signaledFences :=
        insert (inFlightFences (frames eng) ! frameSlot eng) (signaledFences eng)\<rparr>"
  have eq: "drawFrame ndebug ops env eng = recreateSwapChain ndebug env eng1"
    using slot wait acq by (simp add: drawFrame_def at_Inr eng1_def)
  have same: "vulkan eng1 = vulkan eng" "frames eng1 = frames eng"
    "resourceManager eng1 = resourceManager eng" "swapchain eng1 = swapchain eng"
    "computeDescriptorSets eng1 = computeDescriptorSets eng"
    "rtDescriptorSets eng1 = rtDescriptorSets eng"
    "commandBufferContents eng1 = commandBufferContents eng"
    "instanceBufferContents eng1 = instanceBufferContents eng"
    "resizeDependentHandles eng1 = resizeDependentHandles eng"
    by (simp_all add: eng1_def resizeDependentHandles_def)
  have calls: "hostCalls eng1 @ [DeviceWaitIdle] = hostCalls eng @
      [WaitForFences (inFlightFences (frames eng) ! frameSlot eng),
       AcquireNextImage (presentCompleteSemaphores (frames eng) ! frameSlot eng),
       DeviceWaitIdle]"
    "signaledFences eng1 =
       insert (inFlightFences (frames eng) ! frameSlot eng) (signaledFences eng)"
    by (simp_all add: eng1_def)
  have d1: "findDepthFormat (vulkan eng1) = Inr depthFormat" using d by (simp add: same)
  have sm1: "imageMemoryFound (vulkan eng1)
      (chooseSwapExtent (capabilities (surface env)) (framebufferSize (surface env)))
      eR16G16B16A16Sfloat 0x9" using sm by (simp add: same)
  have dm1: "imageMemoryFound (vulkan eng1)
      (chooseSwapExtent (capabilities (surface env)) (framebufferSize (surface env)))
      depthFormat 0x20" using dm by (simp add: same)
  have t1: "MAX_FRAMES_IN_FLIGHT \<le> length (tlas (frames eng1))" using t by (simp add: same)
  have b1: "ndebug \<or> list_all modelHasBuffers (take 1000 (resourceManager eng1))"
    using b by (simp add: same)
  from recreateSwapChain_returns[OF w f m d1 sm1 dm1 t1 b1]
  obtain eng' where r: "recreateSwapChain ndebug env eng1 = Some (Inr eng')"
    and p: "hostCalls eng' = hostCalls eng1 @ [DeviceWaitIdle]"
      "signaledFences eng' = signaledFences eng1"
      "commandBufferContents eng' = commandBufferContents eng1"
      "instanceBufferContents eng' = instanceBufferContents eng1"
      "frameIndex (frames eng') = frameIndex (frames eng1)"
      "inFlightFences (frames eng') = inFlightFences (frames eng1)"
      "presentCompleteSemaphores (frames eng') = presentCompleteSemaphores (frames eng1)"
      "renderFinishedSemaphores (frames eng') = renderFinishedSemaphores (frames eng1)"
      "commandBuffers (frames eng') = commandBuffers (frames eng1)"
    and q: "swapChain (swapchain eng') = Some (nextHandle (vulkan eng1))"
      "length (images (swapchain eng')) = chainLength (surface env)"
      "length (imageViews (swapchain eng')) = chainLength (surface env)"
      "extent (swapchain eng') =
         chooseSwapExtent (capabilities (surface env)) (framebufferSize (surface env))"
      "length (storageImages (frames eng')) = MAX_FRAMES_IN_FLIGHT"
      "length (rayTracingOutputImages (frames eng')) = MAX_FRAMES_IN_FLIGHT"
      "length (depthImages (frames eng')) = chainLength (surface env)"
      "length (computeDescriptorSets eng') = MAX_FRAMES_IN_FLIGHT"
      "length (rtDescriptorSets eng') = MAX_FRAMES_IN_FLIGHT"
    and h: "nextHandle (vulkan eng') =
         nextHandle (vulkan eng1) + 1 + 5 * chainLength (surface env) + 8 * MAX_FRAMES_IN_FLIGHT"
      "set (images (swapchain eng')) \<union> resizeDependentHandles eng' =
         {nextHandle (vulkan eng1) ..< nextHandle (vulkan eng')}"
      "liveHandles (vulkan eng') \<subseteq>
         (liveHandles (vulkan eng1) - resizeDependentHandles eng1) \<union>
         {nextHandle (vulkan eng1) ..< nextHandle (vulkan eng')}"
      "(\<forall>h \<in> set (computeDescriptorSets eng1) \<union> set (rtDescriptorSets eng1).
           h < nextHandle (vulkan eng1)) \<longrightarrow>
       {nextHandle (vulkan eng1) ..< nextHandle (vulkan eng')} \<subseteq> liveHandles (vulkan eng')"
    by blast
  have ex: "\<exists>eng'. drawFrame ndebug ops env eng = Some (Inr eng') \<and>
            hostCalls eng' = hostCalls eng @
              [WaitForFences (inFlightFences (frames eng) ! frameSlot eng),
               AcquireNextImage (presentCompleteSemaphores (frames eng) ! frameSlot eng),
               DeviceWaitIdle] \<and>
            signaledFences eng' =
              insert (inFlightFences (frames eng) ! frameSlot eng) (signaledFences eng) \<and>
            commandBufferContents eng' = commandBufferContents eng \<and>
            instanceBufferContents eng' = instanceBufferContents eng \<and>
            frameIndex (frames eng') = frameIndex (frames eng) \<and>
            inFlightFences (frames eng') = inFlightFences (frames eng) \<and>
            presentCompleteSemaphores (frames eng') = presentCompleteSemaphores (frames eng) \<and>
            renderFinishedSemaphores (frames eng') = renderFinishedSemaphores (frames eng) \<and>
            commandBuffers (frames eng') = commandBuffers (frames eng) \<and>
            swapChain (swapchain eng') = Some (nextHandle (vulkan eng)) \<and>
            length (images (swapchain eng')) = chainLength (surface env) \<and>
            length (imageViews (swapchain eng')) = chainLength (surface env) \<and>
            extent (swapchain eng') =
              chooseSwapExtent (capabilities (surface env)) (framebufferSize (surface env)) \<and>
            length (storageImages (frames eng')) = MAX_FRAMES_IN_FLIGHT \<and>
            length (rayTracingOutputImages (frames eng')) = MAX_FRAMES_IN_FLIGHT \<and>
            length (depthImages (frames eng')) = chainLength (surface env) \<and>
            length (computeDescriptorSets eng') = MAX_FRAMES_IN_FLIGHT \<and>
            length (rtDescriptorSets eng') = MAX_FRAMES_IN_FLIGHT \<and>
            nextHandle (vulkan eng') =
              nextHandle (vulkan eng) + 1 + 5 * chainLength (surface env) +
              8 * MAX_FRAMES_IN_FLIGHT \<and>
            set (images (swapchain eng')) \<union> resizeDependentHandles eng' =
              {nextHandle (vulkan eng) ..< nextHandle (vulkan eng')} \<and>
            liveHandles (vulkan eng') \<subseteq>
              (liveHandles (vulkan eng) - resizeDependentHandles eng) \<union>
              {nextHandle (vulkan eng) ..< nextHandle (vulkan eng')} \<and>
            ((\<forall>h \<in> set (computeDescriptorSets eng) \<union> set (rtDescriptorSets eng).
                 h < nextHandle (vulkan eng)) \<longrightarrow>
             {nextHandle (vulkan eng) ..< nextHandle (vulkan eng')} \<subseteq> liveHandles (vulkan eng'))"
    using r p q h unfolding eq same calls by (intro exI[of _ eng']) simp
  show ?thesis using eq ex by (simp add: eng1_def)
qed

theorem drawFrame_out_of_date_witness:
  "framebufferRestored (framebufferSizeNow resizeEnv) (framebufferSizesLater resizeEnv) \<and>
   imageMemoryFound (vulkan exampleEngine) \<lparr>width = 1024, height = 768\<rparr> eD32Sfloat 0x20 \<and>
   (\<exists>eng'. drawFrame True exampleOps resizeEnv exampleEngine = Some (Inr eng') \<and>
      hostCalls eng' = [WaitForFences 78, AcquireNextImage 77, DeviceWaitIdle] \<and>
      signaledFences eng' = {76, 78} \<and>
      frameIndex (frames eng') = 1 \<and>
      swapChain (swapchain eng') = Some 120 \<and>
      length (images (swapchain eng')) = 4 \<and>
      extent (swapchain eng') = \<lparr>width = 1024, height = 768\<rparr> \<and>
      length (depthImages (frames eng')) = 4 \<and>
      nextHandle (vulkan eng') = 157 \<and>
      set (images (swapchain eng')) \<union> resizeDependentHandles eng' = {120 ..< 157} \<and>
      {120 ..< 157} \<subseteq> liveHandles (vulkan eng'))"
proof -
  have ext: "chooseSwapExtent (capabilities (surface resizeEnv)) (framebufferSize (surface resizeEnv))
      = \<lparr>width = 1024, height = 768\<rparr>"
    by (simp add: resizeEnv_def exampleEnv_def largerSurface_def exampleSurface_def
        chooseSwapExtent_def)
  have dev: "vulkan exampleEngine = exampleDevice\<lparr>nextHandle := 120, liveHandles := {0..<120}\<rparr>"
    by (simp add: exampleEngine_def)
  have slot: "frameSlot exampleEngine < length (inFlightFences (frames exampleEngine))"
    "frameSlot exampleEngine < length (presentCompleteSemaphores (frames exampleEngine))"
    by (simp_all add: frameSlot_def exampleEngine_def exampleFrames_def)
  have wait: "fenceWaitResult resizeEnv = eSuccess" by (simp add: resizeEnv_def exampleEnv_def)
  have acq: "acquireOutcome resizeEnv = AcquireReturns eErrorOutOfDateKHR 0"
    by (simp add: resizeEnv_def)
  have w: "framebufferRestored (framebufferSizeNow resizeEnv) (framebufferSizesLater resizeEnv)"
    by (simp add: resizeEnv_def exampleEnv_def)
  have f: "surfaceFormats (surface resizeEnv) \<noteq> []"
    by (simp add: resizeEnv_def largerSurface_def exampleSurface_def)
  have m: "eFifo \<in> set (presentModes (surface resizeEnv))"
    by (simp add: resizeEnv_def largerSurface_def exampleSurface_def)
  have d: "findDepthFormat (vulkan exampleEngine) = Inr eD32Sfloat"
    by (simp add: dev findDepthFormat_def exampleDevice_def)
  have sm: "imageMemoryFound (vulkan exampleEngine)
      (chooseSwapExtent (capabilities (surface resizeEnv)) (framebufferSize (surface resizeEnv)))
      eR16G16B16A16Sfloat 0x9"
    by (simp add: dev imageMemoryFound_def findMemoryType_def exampleDevice_def)
  have dm: "imageMemoryFound (vulkan exampleEngine)
      (chooseSwapExtent (capabilities (surface resizeEnv)) (framebufferSize (surface resizeEnv)))
      eD32Sfloat 0x20"
    by (simp add: dev imageMemoryFound_def findMemoryType_def exampleDevice_def)
  have t: "MAX_FRAMES_IN_FLIGHT \<le> length (tlas (frames exampleEngine))"
    by (simp add: MAX_FRAMES_IN_FLIGHT_def exampleEngine_def exampleFrames_def)
  have b: "True \<or> list_all modelHasBuffers (take 1000 (resourceManager exampleEngine))" by simp
  have vals: "hostCalls exampleEngine = []" "signaledFences exampleEngine = {76, 78}"
    "inFlightFences (frames exampleEngine) ! frameSlot exampleEngine = 78"
    "presentCompleteSemaphores (frames exampleEngine) ! frameSlot exampleEngine = 77"
    "frameIndex (frames exampleEngine) = 1" "nextHandle (vulkan exampleEngine) = 120"
    "chainLength (surface resizeEnv) = 4"
    "set (computeDescriptorSets exampleEngine) \<union> set (rtDescriptorSets exampleEngine) =
       {112, 113, 114, 115}"
    by (auto simp add: frameSlot_def exampleEngine_def exampleFrames_def resizeEnv_def
        largerSurface_def)
  have below: "\<forall>h \<in> set (computeDescriptorSets exampleEngine) \<union>
      set (rtDescriptorSets exampleEngine). h < nextHandle (vulkan exampleEngine)"
    unfolding vals by simp
  from drawFrame_out_of_date[OF slot wait acq w f m d sm dm t b, of exampleOps]
  obtain eng' where r: "drawFrame True exampleOps resizeEnv exampleEngine = Some (Inr eng')"
    and p: "hostCalls eng' = hostCalls exampleEngine @
       [WaitForFences (inFlightFences (frames exampleEngine) ! frameSlot exampleEngine),
        AcquireNextImage (presentCompleteSemaphores (frames exampleEngine) ! frameSlot exampleEngine),
        DeviceWaitIdle]"
      "signaledFences eng' =
         insert (inFlightFences (frames exampleEngine) ! frameSlot exampleEngine)
           (signaledFences exampleEngine)"
      "frameIndex (frames eng') = frameIndex (frames exampleEngine)"
      "swapChain (swapchain eng') = Some (nextHandle (vulkan exampleEngine))"
      "length (images (swapchain eng')) = chainLength (surface resizeEnv)"
      "extent (swapchain eng') =
         chooseSwapExtent (capabilities (surface resizeEnv)) (framebufferSize (surface resizeEnv))"
      "length (depthImages (frames eng')) = chainLength (surface resizeEnv)"
      "nextHandle (vulkan eng') =
         nextHandle (vulkan exampleEngine) + 1 + 5 * chainLength (surface resizeEnv) +
         8 * MAX_FRAMES_IN_FLIGHT"
      "set (images (swapchain eng')) \<union> resizeDependentHandles eng' =
         {nextHandle (vulkan exampleEngine) ..< nextHandle (vulkan eng')}"
      "(\<forall>h \<in> set (computeDescriptorSets exampleEngine) \<union> set (rtDescriptorSets exampleEngine).
           h < nextHandle (vulkan exampleEngine)) \<longrightarrow>
       {nextHandle (vulkan exampleEngine) ..< nextHandle (vulkan eng')} \<subseteq>
         liveHandles (vulkan eng')"
    by blast
  have n: "nextHandle (vulkan eng') = 157"
    using p(8) by (simp add: vals MAX_FRAMES_IN_FLIGHT_def)
  have live: "{120 ..< 157} \<subseteq> liveHandles (vulkan eng')"
    using p(10) below n by (simp add: vals)
  have "drawFrame True exampleOps resizeEnv exampleEngine = Some (Inr eng') \<and>
      hostCalls eng' = [WaitForFences 78, AcquireNextImage 77, DeviceWaitIdle] \<and>
      signaledFences eng' = {76, 78} \<and>
      frameIndex (frames eng') = 1 \<and>
      swapChain (swapchain eng') = Some 120 \<and>
      length (images (swapchain eng')) = 4 \<and>
      extent (swapchain eng') = \<lparr>width = 1024, height = 768\<rparr> \<and>
      length (depthImages (frames eng')) = 4 \<and>
      nextHandle (vulkan eng') = 157 \<and>
      set (images (swapchain eng')) \<union> resizeDependentHandles eng' = {120 ..< 157} \<and>
      {120 ..< 157} \<subseteq> liveHandles (vulkan eng')"
    using r p(1-7,9) n live unfolding ext by (auto simp add: vals)
  then have "\<exists>eng'. drawFrame True exampleOps resizeEnv exampleEngine = Some (Inr eng') \<and>
      hostCalls eng' = [WaitForFences 78, AcquireNextImage 77, DeviceWaitIdle] \<and>
      signaledFences eng' = {76, 78} \<and>
      frameIndex (frames eng') = 1 \<and>
      swapChain (swapchain eng') = Some 120 \<and>
      length (images (swapchain eng')) = 4 \<and>
      extent (swapchain eng') = \<lparr>width = 1024, height = 768\<rparr> \<and>
      length (depthImages (frames eng')) = 4 \<and>
      nextHandle (vulkan eng') = 157 \<and>
      set (images (swapchain eng')) \<union> resizeDependentHandles eng' = {120 ..< 157} \<and>
      {120 ..< 157} \<subseteq> liveHandles (vulkan eng')"
    by (rule exI)
  with w dm[unfolded ext] show ?thesis by simp
qed
section \<open>Submission and presentation\<close>

lemma recordSubmitPresent_returns:
  assumes r: "framesInRange eng imageIndex"
    and ub: "frameSlot eng < length (uniformBuffersMapped (frames eng))"
    and s: "frameSlot eng < length (presentCompleteSemaphores (frames eng))"
    and i: "unat imageIndex < length (renderFinishedSemaphores (frames eng))"
    and insts: "tlasInstancesOf ndebug (nodeStore eng) (resourceManager eng) (allNodes (scene eng))
              = Inr insts"
    and n: "useRayTracing eng \<longrightarrow> length insts \<le> MAX_TLAS_INSTANCES"
    and p: "\<forall>what. presentOutcome env \<noteq> PresentThrowsOther what"
  shows "\<exists>eng' result. recordSubmitPresent ndebug ops env eng fence imageIndex = Inr (eng', result) \<and>
     hostCalls eng' = hostCalls eng @
       [UpdateUniformBuffer (frameIndex (frames eng)), ResetFences fence,
        ResetCommandBuffer (commandBuffers (frames eng) ! frameSlot eng),
        BeginCommandBuffer (commandBuffers (frames eng) ! frameSlot eng),
        EndCommandBuffer (commandBuffers (frames eng) ! frameSlot eng),
        QueueSubmit (presentCompleteSemaphores (frames eng) ! frameSlot eng)
          (commandBuffers (frames eng) ! frameSlot eng)
          (renderFinishedSemaphores (frames eng) ! unat imageIndex) fence,
        QueuePresent (renderFinishedSemaphores (frames eng) ! unat imageIndex) imageIndex] \<and>
     frames eng' = frames eng \<and>
     signaledFences eng' = signaledFences eng - {fence}"
proof -
  define cb where "cb = commandBuffers (frames eng) ! frameSlot eng"
  define eng0 where "eng0 = eng\<lparr>hostCalls := hostCalls eng @
        [UpdateUniformBuffer (frameIndex (frames eng)), ResetFences fence,
         ResetCommandBuffer cb, BeginCommandBuffer cb],
      signaledFences := signaledFences eng - {fence},
      commandBufferContents := (commandBufferContents eng) (cb := [])\<rparr>"
  have r0: "framesInRange eng0 imageIndex"
    using r by (simp add: framesInRange_def eng0_def frameSlot_def)
  have i0: "tlasInstancesOf ndebug (nodeStore eng0) (resourceManager eng0) (allNodes (scene eng0))
      = Inr insts" using insts by (simp add: eng0_def)
  have n0: "useRayTracing eng0 \<longrightarrow> length insts \<le> MAX_TLAS_INSTANCES"
    using n by (simp add: eng0_def)
  from recordCommandBuffer_returns[OF r0 i0 n0, of ops]
  obtain recorded eng1 where rec: "recordCommandBuffer ndebug ops eng0 imageIndex = Inr eng1"
    and keep: "frames eng1 = frames eng0" "hostCalls eng1 = hostCalls eng0"
      "signaledFences eng1 = signaledFences eng0"
    by blast
  have cbat: "at (commandBuffers (frames eng)) (frameSlot eng) ''commandBuffers'' = Inr cb"
    using r by (simp add: framesInRange_def at_Inr cb_def)
  have fr: "frames eng0 = frames eng" by (simp add: eng0_def)
  have sl: "frameSlot eng1 = frameSlot eng" using keep fr by (simp add: frameSlot_def)
  obtain result where res: "(case presentOutcome env of
              PresentReturns r \<Rightarrow> Inr r
            | PresentThrowsOutOfDate \<Rightarrow> Inr eErrorOutOfDateKHR
            | PresentThrowsSurfaceLost \<Rightarrow> Inr eErrorOutOfDateKHR
            | PresentThrowsOther what \<Rightarrow> Inl (RuntimeError what)) = Inr result"
    using p by (cases "presentOutcome env") auto
  have "recordSubmitPresent ndebug ops env eng fence imageIndex =
      Inr (eng1\<lparr>hostCalls := hostCalls eng1 @
                   [EndCommandBuffer cb,
                    QueueSubmit (presentCompleteSemaphores (frames eng) ! frameSlot eng) cb
                      (renderFinishedSemaphores (frames eng) ! unat imageIndex) fence,
                    QueuePresent (renderFinishedSemaphores (frames eng) ! unat imageIndex)
                      imageIndex]\<rparr>, result)"
    unfolding recordSubmitPresent_def
    using ub cbat rec[unfolded eng0_def] s i res keep(1) fr sl
    by (simp add: at_Inr)
  then show ?thesis
    using keep fr by (simp add: eng0_def cb_def)
qed

lemma recordSubmitPresent_no_semaphore:
  assumes r: "framesInRange eng imageIndex"
    and ub: "frameSlot eng < length (uniformBuffersMapped (frames eng))"
    and s: "frameSlot eng < length (presentCompleteSemaphores (frames eng))"
    and i: "\<not> unat imageIndex < length (renderFinishedSemaphores (frames eng))"
    and insts: "tlasInstancesOf ndebug (nodeStore eng) (resourceManager eng) (allNodes (scene eng))
              = Inr insts"
    and n: "useRayTracing eng \<longrightarrow> length insts \<le> MAX_TLAS_INSTANCES"
  shows "recordSubmitPresent ndebug ops env eng fence imageIndex =
     Inl (OutOfRange ''renderFinishedSemaphores'')"
proof -
  define cb where "cb = commandBuffers (frames eng) ! frameSlot eng"
  define eng0 where "eng0 = eng\<lparr>hostCalls := hostCalls eng @
        [UpdateUniformBuffer (frameIndex (frames eng)), ResetFences fence,
         ResetCommandBuffer cb, BeginCommandBuffer cb],
      signaledFences := signaledFences eng - {fence},
      commandBufferContents := (commandBufferContents eng) (cb := [])\<rparr>"
  have r0: "framesInRange eng0 imageIndex"
    using r by (simp add: framesInRange_def eng0_def frameSlot_def)
  have i0: "tlasInstancesOf ndebug (nodeStore eng0) (resourceManager eng0) (allNodes (scene eng0))
      = Inr insts" using insts by (simp add: eng0_def)
  have n0: "useRayTracing eng0 \<longrightarrow> length insts \<le> MAX_TLAS_INSTANCES"
    using n by (simp add: eng0_def)
  from recordCommandBuffer_returns[OF r0 i0 n0, of ops]
  obtain recorded eng1 where rec: "recordCommandBuffer ndebug ops eng0 imageIndex = Inr eng1"
    and keep: "frames eng1 = frames eng0"
    by blast
  have cbat: "at (commandBuffers (frames eng)) (frameSlot eng) ''commandBuffers'' = Inr cb"
    using r by (simp add: framesInRange_def at_Inr cb_def)
  have fr: "frames eng0 = frames eng" by (simp add: eng0_def)
  have sl: "frameSlot eng1 = frameSlot eng" using keep fr by (simp add: frameSlot_def)
  have no: "at (renderFinishedSemaphores (frames eng)) (unat imageIndex)
      ''renderFinishedSemaphores'' = Inl (OutOfRange ''renderFinishedSemaphores'')"
    using i by (simp add: at_def)
  show ?thesis
    unfolding recordSubmitPresent_def
    using ub cbat rec[unfolded eng0_def] s no keep fr sl
    by (simp add: at_Inr)
qed

lemma createSemaphoreFencePairs_length:
  "createSemaphoreFencePairs n dev = ((sems, fences), dev') \<Longrightarrow>
     length sems = n \<and> length fences = n"
proof (induction n arbitrary: dev sems fences dev')
  case 0
  then show ?case by simp
next
  case (Suc n)
  obtain s1 f1 d3 where r: "createSemaphoreFencePairs n
      (snd (createHandle (snd (createHandle dev)))) = ((s1, f1), d3)"
    by (metis surj_pair)
  from Suc.IH[OF r] have "length s1 = n" "length f1 = n" by auto
  moreover from Suc.prems r have "length sems = Suc (length s1)" "length fences = Suc (length f1)"
    by (auto simp: createHandle_def split: prod.splits)
  ultimately show ?case by simp
qed

text \<open>
  \<open>createSyncObjects\<close>, called on empty vectors as \<open>FrameContext::init\<close> does, makes one
  render-complete semaphore per presentable image and one acquire semaphore and one fence
  per frame slot.
\<close>

lemma createSyncObjects_counts:
  assumes "presentCompleteSemaphores fc = []" "renderFinishedSemaphores fc = []"
    "inFlightFences fc = []"
  shows "\<exists>dev' fc' signalled. createSyncObjects ndebug dev imageCount fc = Inr (dev', fc', signalled) \<and>
     length (renderFinishedSemaphores fc') = unat imageCount \<and>
     length (presentCompleteSemaphores fc') = MAX_FRAMES_IN_FLIGHT \<and>
     length (inFlightFences fc') = MAX_FRAMES_IN_FLIGHT \<and>
     signalled = set (inFlightFences fc')"
proof -
  obtain rf d1 where a: "createHandles (unat imageCount) dev = (rf, d1)" by force
  obtain pc fs d2 where b: "createSemaphoreFencePairs MAX_FRAMES_IN_FLIGHT d1 = ((pc, fs), d2)"
    by (metis surj_pair)
  show ?thesis
    using assms a b createHandles_props[OF a] createSemaphoreFencePairs_length[OF b]
    by (simp add: createSyncObjects_def)
qed

text \<open>
  As long as the acquired image index has a render-complete semaphore and the slot its
  uniform buffer, a submitting frame (the fence wait succeeds, the acquisition returns an image with success or suboptimal,
  the recording goes through and the present does not throw anything but the two errors
  that are caught) makes exactly these calls before its closing step: the wait on the
  slot's fence, the acquisition signalling the acquire semaphore of the frame slot, the
  uniform update, the reset of the slot's fence, reset and begin of the slot's command
  buffer, its end, a submit that waits on the acquire semaphore of the frame slot, signals
  the render-complete semaphore of the acquired image index and uses the slot's fence, and
  a present that waits on that same image-indexed semaphore.
\<close>

lemma drawFrame_submit_calls:
  assumes r: "framesInRange eng imageIndex"
    and ub: "frameSlot eng < length (uniformBuffersMapped (frames eng))"
    and slot: "frameSlot eng < length (inFlightFences (frames eng))"
      "frameSlot eng < length (presentCompleteSemaphores (frames eng))"
    and img: "unat imageIndex < length (renderFinishedSemaphores (frames eng))"
    and wait: "fenceWaitResult env = eSuccess"
    and acq: "acquireOutcome env = AcquireReturns res imageIndex"
    and ok: "res = eSuccess \<or> res = eSuboptimalKHR"
    and insts: "tlasInstancesOf ndebug (nodeStore eng) (resourceManager eng) (allNodes (scene eng))
              = Inr insts"
    and n: "useRayTracing eng \<longrightarrow> length insts \<le> MAX_TLAS_INSTANCES"
    and p: "\<forall>what. presentOutcome env \<noteq> PresentThrowsOther what"
  shows "\<exists>eng' result.
            drawFrame ndebug ops env eng = finishFrame ndebug env eng' result \<and>
            hostCalls eng' = hostCalls eng @
              [WaitForFences (inFlightFences (frames eng) ! frameSlot eng),
               AcquireNextImage (presentCompleteSemaphores (frames eng) ! frameSlot eng),
               UpdateUniformBuffer (frameIndex (frames eng)),
               ResetFences (inFlightFences (frames eng) ! frameSlot eng),
               ResetCommandBuffer (commandBuffers (frames eng) ! frameSlot eng),
               BeginCommandBuffer (commandBuffers (frames eng) ! frameSlot eng),
               EndCommandBuffer (commandBuffers (frames eng) ! frameSlot eng),
               QueueSubmit (presentCompleteSemaphores (frames eng) ! frameSlot eng)
                 (commandBuffers (frames eng) ! frameSlot eng)
                 (renderFinishedSemaphores (frames eng) ! unat imageIndex)
                 (inFlightFences (frames eng) ! frameSlot eng),
               QueuePresent (renderFinishedSemaphores (frames eng) ! unat imageIndex)
                 imageIndex]"
proof -
  define fence where "fence = inFlightFences (frames eng) ! frameSlot eng"
  define eng1 where "eng1 = eng\<lparr>hostCalls := hostCalls eng @
        [WaitForFences fence,
         AcquireNextImage (presentCompleteSemaphores (frames eng) ! frameSlot eng)],
      signaledFences := insert fence (signaledFences eng)\<rparr>"
  have ne: "res \<noteq> eErrorOutOfDateKHR" using ok by auto
  have eq: "drawFrame ndebug ops env eng = submitAndPresent ndebug ops env eng1 fence imageIndex"
    using slot wait acq ok ne
    by (auto simp add: drawFrame_def at_Inr eng1_def fence_def)
  have r1: "framesInRange eng1 imageIndex"
    using r by (simp add: framesInRange_def eng1_def frameSlot_def)
  have u1: "frameSlot eng1 < length (uniformBuffersMapped (frames eng1))"
    using ub by (simp add: eng1_def frameSlot_def)
  have s1: "frameSlot eng1 < length (presentCompleteSemaphores (frames eng1))"
    using slot by (simp add: eng1_def frameSlot_def)
  have i1: "unat imageIndex < length (renderFinishedSemaphores (frames eng1))"
    using img by (simp add: eng1_def)
  have t1: "tlasInstancesOf ndebug (nodeStore eng1) (resourceManager eng1) (allNodes (scene eng1))
      = Inr insts" using insts by (simp add: eng1_def)
  have n1: "useRayTracing eng1 \<longrightarrow> length insts \<le> MAX_TLAS_INSTANCES"
    using n by (simp add: eng1_def)
  from recordSubmitPresent_returns[OF r1 u1 s1 i1 t1 n1 p, of ops fence]
  obtain eng2 result where
    rsp: "recordSubmitPresent ndebug ops env eng1 fence imageIndex = Inr (eng2, result)"
    and calls: "hostCalls eng2 = hostCalls eng1 @
       [UpdateUniformBuffer (frameIndex (frames eng1)), ResetFences fence,
        ResetCommandBuffer (commandBuffers (frames eng1) ! frameSlot eng1),
        BeginCommandBuffer (commandBuffers (frames eng1) ! frameSlot eng1),
        EndCommandBuffer (commandBuffers (frames eng1) ! frameSlot eng1),
        QueueSubmit (presentCompleteSemaphores (frames eng1) ! frameSlot eng1)
          (commandBuffers (frames eng1) ! frameSlot eng1)
          (renderFinishedSemaphores (frames eng1) ! unat imageIndex) fence,
        QueuePresent (renderFinishedSemaphores (frames eng1) ! unat imageIndex) imageIndex]"
    by blast
  have fin: "drawFrame ndebug ops env eng = finishFrame ndebug env eng2 result"
    using eq rsp by (simp add: submitAndPresent_def)
  show ?thesis
    using fin calls
    by (intro exI[of _ eng2] exI[of _ result]) (simp add: eng1_def fence_def frameSlot_def)
qed

text \<open>
  When the acquired image index has no render-complete semaphore, the same frame reads
  \<open>renderFinishedSemaphores[imageIndex]\<close> past the end of the vector.
\<close>

lemma drawFrame_no_semaphore:
  assumes r: "framesInRange eng imageIndex"
    and ub: "frameSlot eng < length (uniformBuffersMapped (frames eng))"
    and slot: "frameSlot eng < length (inFlightFences (frames eng))"
      "frameSlot eng < length (presentCompleteSemaphores (frames eng))"
    and img: "\<not> unat imageIndex < length (renderFinishedSemaphores (frames eng))"
    and wait: "fenceWaitResult env = eSuccess"
    and acq: "acquireOutcome env = AcquireReturns res imageIndex"
    and ok: "res = eSuccess \<or> res = eSuboptimalKHR"
    and insts: "tlasInstancesOf ndebug (nodeStore eng) (resourceManager eng) (allNodes (scene eng))
              = Inr insts"
    and n: "useRayTracing eng \<longrightarrow> length insts \<le> MAX_TLAS_INSTANCES"
  shows "drawFrame ndebug ops env eng = Some (Inl (OutOfRange ''renderFinishedSemaphores''))"
proof -
  define fence where "fence = inFlightFences (frames eng) ! frameSlot eng"
  define eng1 where "eng1 = eng\<lparr>hostCalls := hostCalls eng @
        [WaitForFences fence,
         AcquireNextImage (presentCompleteSemaphores (frames eng) ! frameSlot eng)],
      signaledFences := insert fence (signaledFences eng)\<rparr>"
  have ne: "res \<noteq> eErrorOutOfDateKHR" using ok by auto
  have eq: "drawFrame ndebug ops env eng = submitAndPresent ndebug ops env eng1 fence imageIndex"
    using slot wait acq ok ne
    by (auto simp add: drawFrame_def at_Inr eng1_def fence_def)
  have r1: "framesInRange eng1 imageIndex"
    using r by (simp add: framesInRange_def eng1_def frameSlot_def)
  have u1: "frameSlot eng1 < length (uniformBuffersMapped (frames eng1))"
    using ub by (simp add: eng1_def frameSlot_def)
  have s1: "frameSlot eng1 < length (presentCompleteSemaphores (frames eng1))"
    using slot by (simp add: eng1_def frameSlot_def)
  have i1: "\<not> unat imageIndex < length (renderFinishedSemaphores (frames eng1))"
    using img by (simp add: eng1_def)
  have t1: "tlasInstancesOf ndebug (nodeStore eng1) (resourceManager eng1) (allNodes (scene eng1))
      = Inr insts" using insts by (simp add: eng1_def)
  have n1: "useRayTracing eng1 \<longrightarrow> length insts \<le> MAX_TLAS_INSTANCES"
    using n by (simp add: eng1_def)
  from recordSubmitPresent_no_semaphore[OF r1 u1 s1 i1 t1 n1, of ops env fence]
  show ?thesis using eq by (simp add: submitAndPresent_def)
qed

text \<open>
  The frame context of the example engine is the one \<open>FrameContext::init\<close> builds for
  the example chain of three images, with its two fences signalled.
\<close>

lemma exampleFrames_from_init:
  "(case FrameContext_init True deviceBeforeInit exampleSwapchain emptyFrameContext of
      Inl e \<Rightarrow> False
    | Inr (dev, fc, signalled) \<Rightarrow>
        fc = exampleFrames\<lparr>frameIndex := 0\<rparr> \<and> nextHandle dev = 79 \<and> signalled = {76, 78})"
proof -
  have two: "MAX_FRAMES_IN_FLIGHT = Suc (Suc 0)" by (simp add: MAX_FRAMES_IN_FLIGHT_def)
  have four: "NUM_SHADOW_CASCADES = Suc (Suc (Suc (Suc 0)))" by (simp add: NUM_SHADOW_CASCADES_def)
  have three: "length (images exampleSwapchain) = Suc (Suc (Suc 0))"
    by (simp add: exampleSwapchain_def)
  have u: "unat (word_of_nat (Suc (Suc (Suc 0))) :: uint32) = Suc (Suc (Suc 0))" by simp
  have mem: "findMemoryType (deviceBeforeInit\<lparr>nextHandle := n, liveHandles := l\<rparr>) 0x1 0x1 = Inr 0"
    "findMemoryType (deviceBeforeInit\<lparr>nextHandle := n, liveHandles := l\<rparr>) 0x3 0x1 = Inr 0"
    "findMemoryType (deviceBeforeInit\<lparr>nextHandle := n, liveHandles := l\<rparr>) 0x3 0x6 = Inr 1"
    for n l
    by (simp_all add: findMemoryType_def deviceBeforeInit_def exampleDevice_def)
  have fmt: "findDepthFormat (deviceBeforeInit\<lparr>nextHandle := n, liveHandles := l\<rparr>) = Inr eD32Sfloat"
    for n l
    by (simp add: findDepthFormat_def deviceBeforeInit_def exampleDevice_def)
  have drv: "imageMemoryTypeBits (deviceBeforeInit\<lparr>nextHandle := n, liveHandles := l\<rparr>) = (\<lambda>w h format tiling usage arrayLayers. 0x1)"
    "bufferMemoryTypeBits (deviceBeforeInit\<lparr>nextHandle := n, liveHandles := l\<rparr>) = (\<lambda>usage. 0x3)"
    "nextHandle deviceBeforeInit = 7" 
    for n l
    by (simp_all add: deviceBeforeInit_def exampleDevice_def)
  have start: "deviceBeforeInit = deviceBeforeInit\<lparr>nextHandle := 7, liveHandles := {0..<7}\<rparr>"
    by (simp add: deviceBeforeInit_def)
  show ?thesis
    apply (subst start)
    unfolding FrameContext_init_def createCommandPool_def createUniformBuffers_def
      createDepthResources_def createStorageResources_def createRayTracingOutputImages_def
      createShadowResources_def createTLASResources_def createCommandBuffers_def
      createSyncObjects_def two four three u
    apply (simp add: createImage_def createBuffer_def createHandle_def destroyHandles_def
        mem fmt drv two four emptyFrameContext_def exampleFrames_def insert_commute)
    done
qed

text \<open>
  C9 at a failing input. \<open>FrameContext::init\<close>, for a chain of three images, makes the
  frame context of the example engine: three render-complete semaphores, two acquire
  semaphores and two fences. A frame during which the window is resized rebuilds the chain
  on a surface that now gives four images; the rebuild does not touch the semaphores, so
  there are still three. In the next frame the fourth image is acquired, every other vector
  the frame indexes has its entry, and the submit reads \<open>renderFinishedSemaphores[3]\<close>,
  which does not exist.
\<close>

theorem drawFrame_after_resize_no_semaphore:
  "(case FrameContext_init True deviceBeforeInit exampleSwapchain emptyFrameContext of
      Inl e \<Rightarrow> False
    | Inr (dev, fc, signalled) \<Rightarrow>
        fc = exampleFrames\<lparr>frameIndex := 0\<rparr> \<and> nextHandle dev = 79 \<and> signalled = {76, 78}) \<and>
   length (images exampleSwapchain) = 3 \<and>
   swapchain exampleEngine = exampleSwapchain \<and>
   frames exampleEngine = exampleFrames \<and>
   (case drawFrame True exampleOps resizeEnv exampleEngine of
      Some (Inr eng) \<Rightarrow>
        length (images (swapchain eng)) = 4 \<and>
        renderFinishedSemaphores (frames eng) = [72, 73, 74] \<and>
        framesInRange eng 3 \<and>
        (case drawFrame True exampleOps fourthImageEnv eng of
           Some (Inl what) \<Rightarrow> what = OutOfRange ''renderFinishedSemaphores''
         | _ \<Rightarrow> False)
    | _ \<Rightarrow> False)"
proof -
  have three: "length (images exampleSwapchain) = 3" "swapchain exampleEngine = exampleSwapchain"
    "frames exampleEngine = exampleFrames"
    by (simp_all add: exampleEngine_def exampleSwapchain_def)
  define eng1 where "eng1 = exampleEngine\<lparr>hostCalls := hostCalls exampleEngine @
        [WaitForFences 78, AcquireNextImage 77],
      signaledFences := insert 78 (signaledFences exampleEngine)\<rparr>"
  have eq: "drawFrame True exampleOps resizeEnv exampleEngine =
      recreateSwapChain True resizeEnv eng1"
    by (simp add: drawFrame_def at_def frameSlot_def exampleEngine_def exampleFrames_def
        resizeEnv_def exampleEnv_def eng1_def)
  have dev: "vulkan eng1 = exampleDevice\<lparr>nextHandle := 120, liveHandles := {0..<120}\<rparr>"
    "frames eng1 = exampleFrames" "resourceManager eng1 = []"
    "descriptorSets eng1 = [110, 111]" "nodeStore eng1 = (\<lambda>n. exampleNode)"
    "allNodes (scene eng1) = []" "useRayTracing eng1 = False"
    by (simp_all add: eng1_def exampleEngine_def)
  have w: "framebufferRestored (framebufferSizeNow resizeEnv) (framebufferSizesLater resizeEnv)"
    by (simp add: resizeEnv_def exampleEnv_def)
  have f: "surfaceFormats (surface resizeEnv) \<noteq> []"
    by (simp add: resizeEnv_def largerSurface_def exampleSurface_def)
  have m: "eFifo \<in> set (presentModes (surface resizeEnv))"
    by (simp add: resizeEnv_def largerSurface_def exampleSurface_def)
  have d: "findDepthFormat (vulkan eng1) = Inr eD32Sfloat"
    by (simp add: dev findDepthFormat_def exampleDevice_def)
  have sm: "imageMemoryFound (vulkan eng1)
      (chooseSwapExtent (capabilities (surface resizeEnv)) (framebufferSize (surface resizeEnv)))
      eR16G16B16A16Sfloat 0x9"
    by (simp add: dev imageMemoryFound_def findMemoryType_def exampleDevice_def)
  have dm: "imageMemoryFound (vulkan eng1)
      (chooseSwapExtent (capabilities (surface resizeEnv)) (framebufferSize (surface resizeEnv)))
      eD32Sfloat 0x20"
    by (simp add: dev imageMemoryFound_def findMemoryType_def exampleDevice_def)
  have t: "MAX_FRAMES_IN_FLIGHT \<le> length (tlas (frames eng1))"
    by (simp add: MAX_FRAMES_IN_FLIGHT_def dev exampleFrames_def)
  have b: "True \<or> list_all modelHasBuffers (take 1000 (resourceManager eng1))" by simp
  have k: "chainLength (surface resizeEnv) = 4"
    by (simp add: resizeEnv_def largerSurface_def)
  from recreateSwapChain_returns[OF w f m d sm dm t b]
  obtain eng where r: "recreateSwapChain True resizeEnv eng1 = Some (Inr eng)"
    and whole: "eng = eng1\<lparr>vulkan := vulkan eng, swapchain := swapchain eng, frames := frames eng,
                 computeDescriptorSets := computeDescriptorSets eng,
                 rtDescriptorSets := rtDescriptorSets eng,
                 hostCalls := hostCalls eng1 @ [DeviceWaitIdle]\<rparr>"
    and fr: "frames eng = (frames eng1)
       \<lparr>storageImages := storageImages (frames eng),
        storageImagesMemory := storageImagesMemory (frames eng),
        storageImageViews := storageImageViews (frames eng),
        rayTracingOutputImages := rayTracingOutputImages (frames eng),
        rayTracingOutputImagesMemory := rayTracingOutputImagesMemory (frames eng),
        rayTracingOutputImageViews := rayTracingOutputImageViews (frames eng),
        depthImages := depthImages (frames eng),
        depthImagesMemory := depthImagesMemory (frames eng),
        depthImageViews := depthImageViews (frames eng)\<rparr>"
    and len: "length (images (swapchain eng)) = chainLength (surface resizeEnv)"
      "length (imageViews (swapchain eng)) = chainLength (surface resizeEnv)"
      "length (storageImages (frames eng)) = MAX_FRAMES_IN_FLIGHT"
      "length (rayTracingOutputImages (frames eng)) = MAX_FRAMES_IN_FLIGHT"
      "length (depthImages (frames eng)) = chainLength (surface resizeEnv)"
      "length (depthImageViews (frames eng)) = chainLength (surface resizeEnv)"
      "length (computeDescriptorSets eng) = MAX_FRAMES_IN_FLIGHT"
      "length (rtDescriptorSets eng) = MAX_FRAMES_IN_FLIGHT"
    by blast
  have kept: "frameIndex (frames eng) = 1" "commandBuffers (frames eng) = [70, 71]"
    "tlas (frames eng) = [52, 62]" "tlasScratchAddresses (frames eng) = [55, 65]"
    "tlasInstanceAddresses (frames eng) = [59, 69]"
    "tlasInstanceBuffersMapped (frames eng) = [58, 68]"
    "shadowImages (frames eng) = [35, 42]"
    "shadowCascadeViews (frames eng) = [37, 38, 39, 40, 44, 45, 46, 47]"
    "inFlightFences (frames eng) = [76, 78]"
    "presentCompleteSemaphores (frames eng) = [75, 77]"
    "renderFinishedSemaphores (frames eng) = [72, 73, 74]"
    "uniformBuffersMapped (frames eng) = [10, 13]"
    by (subst fr, simp add: dev exampleFrames_def)+
  have rest: "descriptorSets eng = [110, 111]" "nodeStore eng = (\<lambda>n. exampleNode)"
    "resourceManager eng = []" "allNodes (scene eng) = []" "useRayTracing eng = False"
    by (subst whole, simp add: dev)+
  have inRange: "framesInRange eng 3"
    using len kept rest k
    by (simp add: framesInRange_def frameSlot_def MAX_FRAMES_IN_FLIGHT_def NUM_SHADOW_CASCADES_def)
  have ub: "frameSlot eng < length (uniformBuffersMapped (frames eng))"
    using kept by (simp add: frameSlot_def)
  have slot: "frameSlot eng < length (inFlightFences (frames eng))"
    "frameSlot eng < length (presentCompleteSemaphores (frames eng))"
    using kept by (simp_all add: frameSlot_def)
  have img: "\<not> unat (3 :: uint32) < length (renderFinishedSemaphores (frames eng))"
    using kept by simp
  have wait: "fenceWaitResult fourthImageEnv = eSuccess"
    by (simp add: fourthImageEnv_def exampleEnv_def)
  have acq: "acquireOutcome fourthImageEnv = AcquireReturns eSuccess 3"
    by (simp add: fourthImageEnv_def)
  have ok: "eSuccess = eSuccess \<or> eSuccess = eSuboptimalKHR" by simp
  have insts: "tlasInstancesOf True (nodeStore eng) (resourceManager eng) (allNodes (scene eng))
      = Inr []" using rest by simp
  have n: "useRayTracing eng \<longrightarrow> length ([] :: AccelerationStructureInstanceKHR list)
      \<le> MAX_TLAS_INSTANCES" by simp
  note fail = drawFrame_no_semaphore[OF inRange ub slot img wait acq ok insts n, of exampleOps]
  show ?thesis
    using exampleFrames_from_init three eq r len(1) k kept(11) inRange fail by simp
qed
section \<open>The top-level acceleration structure build\<close>

text \<open>
  C1, as amended. Let \<open>recordCommandBuffer\<close> run in a state where the frame slot and the
  image index lie within the per-slot and per-image vectors, the instance buffers of the
  slots have different device addresses, the drawable-instance list is gathered without a
  fault (no mesh index with a bottom-level structure lies past the model's meshes and, in a
  build with assertions, no such node has a model id of 1024 or more), and, on the
  ray-tracing path, the list has at most \<open>MAX_TLAS_INSTANCES = 10000\<close> entries. Then the
  recording succeeds. With ray tracing active it has recorded exactly one
  acceleration-structure build into the slot's command buffer, that of the slot's top-level
  structure, reading the slot's instance buffer with the number of gathered instances as
  primitive count, and the structure the device builds from it is made of exactly the
  current instance list. This includes the empty list: the build is then recorded with
  primitive count 0, nothing is copied into the instance buffer, and the structure built is
  the one without instances. With the rasterization path active the instances are gathered
  all the same, but no build is recorded, no structure is built and the instance buffer is
  not written.
\<close>

theorem recordCommandBuffer_tlas_build:
  assumes r: "framesInRange eng imageIndex"
    and d: "distinct (tlasInstanceAddresses (frames eng))"
    and i: "tlasInstancesOf ndebug (nodeStore eng) (resourceManager eng) (allNodes (scene eng))
              = Inr insts"
    and n: "useRayTracing eng \<longrightarrow> length insts \<le> MAX_TLAS_INSTANCES"
  shows "\<exists>recorded eng'. recordCommandBuffer ndebug ops eng imageIndex = Inr eng' \<and>
     commandBufferContents eng' (commandBuffers (frames eng) ! frameSlot eng) =
       commandBufferContents eng (commandBuffers (frames eng) ! frameSlot eng) @ recorded \<and>
     tlasBuilds recorded =
       (if useRayTracing eng
        then [BuildAccelerationStructuresKHR (tlas (frames eng) ! frameSlot eng)
                (tlasScratchAddresses (frames eng) ! frameSlot eng)
                (tlasInstanceAddresses (frames eng) ! frameSlot eng)
                (word_of_nat (length insts))]
        else []) \<and>
     structuresBuilt eng' recorded =
       (if useRayTracing eng then [(tlas (frames eng) ! frameSlot eng, insts)] else []) \<and>
     instanceBufferContents eng' =
       (if useRayTracing eng \<and> insts \<noteq> []
        then (instanceBufferContents eng)
               (tlasInstanceBuffersMapped (frames eng) ! frameSlot eng :=
                  insts @ drop (length insts)
                    (instanceBufferContents eng
                       (tlasInstanceBuffersMapped (frames eng) ! frameSlot eng)))
        else instanceBufferContents eng)"
proof -
  from recordCommandBuffer_returns[OF r i n, of ops]
  obtain recorded eng' where rec: "recordCommandBuffer ndebug ops eng imageIndex = Inr eng'"
    and fr: "frames eng' = frames eng"
    and cb: "commandBufferContents eng' =
       (commandBufferContents eng)
         (commandBuffers (frames eng) ! frameSlot eng :=
            commandBufferContents eng (commandBuffers (frames eng) ! frameSlot eng) @ recorded)"
    and tb: "tlasBuilds recorded =
       (if useRayTracing eng
        then [BuildAccelerationStructuresKHR (tlas (frames eng) ! frameSlot eng)
                (tlasScratchAddresses (frames eng) ! frameSlot eng)
                (tlasInstanceAddresses (frames eng) ! frameSlot eng)
                (word_of_nat (length insts))]
        else [])"
    and ib: "instanceBufferContents eng' =
       (if useRayTracing eng \<and> insts \<noteq> []
        then (instanceBufferContents eng)
               (tlasInstanceBuffersMapped (frames eng) ! frameSlot eng :=
                  insts @ drop (length insts)
                    (instanceBufferContents eng
                       (tlasInstanceBuffersMapped (frames eng) ! frameSlot eng)))
        else instanceBufferContents eng)"
    by blast
  have slot: "frameSlot eng < length (tlasInstanceAddresses (frames eng'))"
    "frameSlot eng < length (tlasInstanceBuffersMapped (frames eng'))"
    using r fr by (simp_all add: framesInRange_def)
  have d': "distinct (tlasInstanceAddresses (frames eng'))" using d fr by simp
  have at_slot: "instanceRecordsAt eng' (tlasInstanceAddresses (frames eng) ! frameSlot eng) =
      instanceBufferContents eng' (tlasInstanceBuffersMapped (frames eng) ! frameSlot eng)"
    using instanceRecordsAt_slot[OF d' slot] fr by simp
  have sb: "structuresBuilt eng' recorded =
      (if useRayTracing eng then [(tlas (frames eng) ! frameSlot eng, insts)] else [])"
  proof (cases "useRayTracing eng")
    case True
    with n have "length insts \<le> MAX_TLAS_INSTANCES" by simp
    then have u: "unat (word_of_nat (length insts) :: uint32) = length insts"
      by (simp add: unat_of_nat MAX_TLAS_INSTANCES_def)
    have "take (length insts)
        (instanceBufferContents eng' (tlasInstanceBuffersMapped (frames eng) ! frameSlot eng)) = insts"
      using ib True by (cases "insts = []") simp_all
    then show ?thesis
      using True tb u at_slot by (subst structuresBuilt_tlasBuilds) simp
  next
    case False
    then show ?thesis using tb by (subst structuresBuilt_tlasBuilds) simp
  qed
  show ?thesis
    using rec cb tb sb ib by (intro exI[of _ recorded] exI[of _ eng']) simp
qed

lemma exampleEngine_inRange: "framesInRange (exampleEngine\<lparr>useRayTracing := rt\<rparr>) 2"
  by (simp add: framesInRange_def frameSlot_def exampleEngine_def exampleFrames_def
      exampleSwapchain_def NUM_SHADOW_CASCADES_def)

lemma rayTracedEngine_instances:
  "tlasInstancesOf True (nodeStore rayTracedEngine) (resourceManager rayTracedEngine)
     (allNodes (scene rayTracedEngine)) = Inr [exampleInstance]"
  by (simp add: rayTracedEngine_def exampleEngine_def exampleNode_def exampleModel_def
      exampleInstance_def getModelResource_def primitiveOffsetOf_def customIndex_def
      customIndexField_def identityTransform_def)

theorem recordCommandBuffer_tlas_build_witness:
  "framesInRange rayTracedEngine 2 \<and>
   distinct (tlasInstanceAddresses (frames rayTracedEngine)) \<and>
   tlasInstancesOf True (nodeStore rayTracedEngine) (resourceManager rayTracedEngine)
     (allNodes (scene rayTracedEngine)) = Inr [exampleInstance] \<and>
   (\<exists>recorded eng'. recordCommandBuffer True exampleOps rayTracedEngine 2 = Inr eng' \<and>
      commandBufferContents eng' 71 = recorded \<and>
      tlasBuilds recorded = [BuildAccelerationStructuresKHR 62 65 69 1] \<and>
      structuresBuilt eng' recorded = [(62, [exampleInstance])] \<and>
      instanceBufferContents eng' 68 = [exampleInstance]) \<and>
   (\<exists>recorded eng'. recordCommandBuffer True exampleOps rayTracedEmpty 2 = Inr eng' \<and>
      commandBufferContents eng' 71 = recorded \<and>
      tlasBuilds recorded = [BuildAccelerationStructuresKHR 62 65 69 0] \<and>
      structuresBuilt eng' recorded = [(62, [])] \<and>
      instanceBufferContents eng' 68 = [])"
proof -
  have r1: "framesInRange rayTracedEngine 2"
    by (simp add: framesInRange_def frameSlot_def rayTracedEngine_def exampleEngine_def
        exampleFrames_def exampleSwapchain_def NUM_SHADOW_CASCADES_def)
  have d1: "distinct (tlasInstanceAddresses (frames rayTracedEngine))"
    by (simp add: rayTracedEngine_def exampleEngine_def exampleFrames_def)
  have n1: "useRayTracing rayTracedEngine \<longrightarrow> length [exampleInstance] \<le> MAX_TLAS_INSTANCES"
    by (simp add: MAX_TLAS_INSTANCES_def)
  have r0: "framesInRange rayTracedEmpty 2"
    using exampleEngine_inRange[of True] by (simp add: rayTracedEmpty_def)
  have d0: "distinct (tlasInstanceAddresses (frames rayTracedEmpty))"
    by (simp add: rayTracedEmpty_def exampleEngine_def exampleFrames_def)
  have i0: "tlasInstancesOf True (nodeStore rayTracedEmpty) (resourceManager rayTracedEmpty)
      (allNodes (scene rayTracedEmpty)) = Inr []"
    by (simp add: rayTracedEmpty_def exampleEngine_def)
  have n0: "useRayTracing rayTracedEmpty \<longrightarrow>
      length ([] :: AccelerationStructureInstanceKHR list) \<le> MAX_TLAS_INSTANCES" by simp
  have v1: "useRayTracing rayTracedEngine" "frameSlot rayTracedEngine = 1"
    "commandBuffers (frames rayTracedEngine) = [70, 71]" "tlas (frames rayTracedEngine) = [52, 62]"
    "tlasScratchAddresses (frames rayTracedEngine) = [55, 65]"
    "tlasInstanceAddresses (frames rayTracedEngine) = [59, 69]"
    "tlasInstanceBuffersMapped (frames rayTracedEngine) = [58, 68]"
    "commandBufferContents rayTracedEngine = (\<lambda>cb. [])"
    "instanceBufferContents rayTracedEngine = (\<lambda>p. [])"
    by (simp_all add: rayTracedEngine_def exampleEngine_def exampleFrames_def frameSlot_def)
  have v0: "useRayTracing rayTracedEmpty" "frameSlot rayTracedEmpty = 1"
    "commandBuffers (frames rayTracedEmpty) = [70, 71]" "tlas (frames rayTracedEmpty) = [52, 62]"
    "tlasScratchAddresses (frames rayTracedEmpty) = [55, 65]"
    "tlasInstanceAddresses (frames rayTracedEmpty) = [59, 69]"
    "tlasInstanceBuffersMapped (frames rayTracedEmpty) = [58, 68]"
    "commandBufferContents rayTracedEmpty = (\<lambda>cb. [])"
    "instanceBufferContents rayTracedEmpty = (\<lambda>p. [])"
    by (simp_all add: rayTracedEmpty_def exampleEngine_def exampleFrames_def frameSlot_def)
  from recordCommandBuffer_tlas_build[OF r1 d1 rayTracedEngine_instances n1, of exampleOps]
  have one: "\<exists>recorded eng'. recordCommandBuffer True exampleOps rayTracedEngine 2 = Inr eng' \<and>
      commandBufferContents eng' 71 = recorded \<and>
      tlasBuilds recorded = [BuildAccelerationStructuresKHR 62 65 69 1] \<and>
      structuresBuilt eng' recorded = [(62, [exampleInstance])] \<and>
      instanceBufferContents eng' 68 = [exampleInstance]"
    by (auto simp add: v1)
  from recordCommandBuffer_tlas_build[OF r0 d0 i0 n0, of exampleOps]
  have none: "\<exists>recorded eng'. recordCommandBuffer True exampleOps rayTracedEmpty 2 = Inr eng' \<and>
      commandBufferContents eng' 71 = recorded \<and>
      tlasBuilds recorded = [BuildAccelerationStructuresKHR 62 65 69 0] \<and>
      structuresBuilt eng' recorded = [(62, [])] \<and>
      instanceBufferContents eng' 68 = []"
    by (auto simp add: v0)
  from r1 d1 rayTracedEngine_instances one none show ?thesis by simp
qed

text \<open>
  C1 as stated fails on the rasterization path: a frame is recorded, and its command
  buffer holds no acceleration-structure build.
\<close>

theorem recordCommandBuffer_raster_no_build:
  "useRayTracing exampleEngine = False \<and>
   recordedTlasBuilds (recordCommandBuffer True exampleOps exampleEngine 2) 71 = Inr []"
proof -
  have e: "exampleEngine\<lparr>useRayTracing := False\<rparr> = exampleEngine"
    by (simp add: exampleEngine_def)
  have r: "framesInRange exampleEngine 2" using exampleEngine_inRange[of False] e by simp
  have i: "tlasInstancesOf True (nodeStore exampleEngine) (resourceManager exampleEngine)
     (allNodes (scene exampleEngine)) = Inr []" by (simp add: exampleEngine_def)
  have n: "useRayTracing exampleEngine \<longrightarrow> length ([] :: AccelerationStructureInstanceKHR list)
      \<le> MAX_TLAS_INSTANCES" by simp
  have u: "useRayTracing exampleEngine = False" by (simp add: exampleEngine_def)
  have v: "frameSlot exampleEngine = 1" "commandBuffers (frames exampleEngine) = [70, 71]"
    "commandBufferContents exampleEngine = (\<lambda>cb. [])"
    by (simp_all add: exampleEngine_def exampleFrames_def frameSlot_def)
  from recordCommandBuffer_returns[OF r i n, of exampleOps]
  obtain recorded eng' where "recordCommandBuffer True exampleOps exampleEngine 2 = Inr eng'"
    "commandBufferContents eng' =
       (commandBufferContents exampleEngine)
         (commandBuffers (frames exampleEngine) ! frameSlot exampleEngine :=
            commandBufferContents exampleEngine
              (commandBuffers (frames exampleEngine) ! frameSlot exampleEngine) @ recorded)"
    "tlasBuilds recorded =
       (if useRayTracing exampleEngine
        then [BuildAccelerationStructuresKHR (tlas (frames exampleEngine) ! frameSlot exampleEngine)
                (tlasScratchAddresses (frames exampleEngine) ! frameSlot exampleEngine)
                (tlasInstanceAddresses (frames exampleEngine) ! frameSlot exampleEngine)
                (word_of_nat (length ([] :: AccelerationStructureInstanceKHR list)))]
        else [])"
    by blast
  then have "recordedTlasBuilds (recordCommandBuffer True exampleOps exampleEngine 2) 71 = Inr []"
    using u by (simp add: recordedTlasBuilds_def v)
  with u show ?thesis by simp
qed
section \<open>Physics buffer overflow\<close>

lemma length_bytesOfObject: "length (bytesOfObject obj) = sizeof_PhysicsObject"
  by (simp add: bytesOfObject_def bytesOfVec3_def bytesOfWord_def sizeof_PhysicsObject_def
      split: prod.splits)

lemma length_serialized:
  "length (concat (map bytesOfObject objs)) = length objs * sizeof_PhysicsObject"
  by (induction objs) (simp_all add: length_bytesOfObject)

text \<open>
  C7, as amended. Let the buffer be mapped, the mapped range as large as
  \<open>currentSSBOSize\<close> says, and the serialised node list larger. In either build
  \<open>updateSSBO\<close> writes the overflow message, with the capacity and the requested size, and
  nothing else. In a build with \<open>NDEBUG\<close> it then returns with the range holding the first
  \<open>currentSSBOSize\<close> bytes of the serialised objects, nothing beyond the range being
  written. In a build with assertions it ends, after the message, in the failed assertion.
  In neither build does a copy run past the buffer.
\<close>

theorem updateSSBO_overflow:
  assumes mapped: "physicsSSBOMapped ps = Some mem"
    and size: "length mem = currentSSBOSize ps"
    and over: "length nodeList * sizeof_PhysicsObject > currentSSBOSize ps"
  shows "updateSSBO True store nodeList ps =
           ([PhysicsSSBOOverflow (currentSSBOSize ps) (length nodeList * sizeof_PhysicsObject)],
            Inr (ps\<lparr>hostPhysicsObjects := map (\<lambda>node. physicsObjectOf (store node)) nodeList,
                    physicsSSBOMapped :=
                      Some (take (currentSSBOSize ps)
                              (concat (map bytesOfObject
                                 (map (\<lambda>node. physicsObjectOf (store node)) nodeList))))\<rparr>)) \<and>
         updateSSBO False store nodeList ps =
           ([PhysicsSSBOOverflow (currentSSBOSize ps) (length nodeList * sizeof_PhysicsObject)],
            Inl (AssertionFailed ''Physics SSBO overflow: increase SSBO allocation size'')) \<and>
         snd (updateSSBO ndebug store nodeList ps) \<noteq> Inl (OutOfRange what)"
proof -
  have ne: "nodeList \<noteq> []" using over by auto
  have len: "length (concat (map bytesOfObject (map (\<lambda>node. physicsObjectOf (store node)) nodeList)))
      = length nodeList * sizeof_PhysicsObject"
    by (simp only: length_serialized length_map)
  show ?thesis
    using ne over mapped size len
    by (cases ndebug) (simp_all add: updateSSBO_def Let_def memcpy_def bindE_def)
qed

theorem updateSSBO_overflow_witness:
  "physicsSSBOMapped examplePhysics = Some (replicate 64 0) \<and>
   length [0, 1 :: nat] * sizeof_PhysicsObject > currentSSBOSize examplePhysics \<and>
   fst (updateSSBO True (\<lambda>n. exampleNode) [0, 1] examplePhysics) = [PhysicsSSBOOverflow 64 128] \<and>
   (case snd (updateSSBO True (\<lambda>n. exampleNode) [0, 1] examplePhysics) of
      Inl e \<Rightarrow> False
    | Inr ps \<Rightarrow> map_option length (physicsSSBOMapped ps) = Some 64 \<and>
               length (hostPhysicsObjects ps) = 2) \<and>
   updateSSBO False (\<lambda>n. exampleNode) [0, 1] examplePhysics =
     ([PhysicsSSBOOverflow 64 128],
      Inl (AssertionFailed ''Physics SSBO overflow: increase SSBO allocation size''))"
proof -
  have mapped: "physicsSSBOMapped examplePhysics = Some (replicate 64 0)"
    by (simp add: examplePhysics_def)
  have size: "length (replicate 64 (0 :: 8 word)) = currentSSBOSize examplePhysics"
    by (simp add: examplePhysics_def)
  have over: "length [0, 1 :: nat] * sizeof_PhysicsObject > currentSSBOSize examplePhysics"
    by (simp add: examplePhysics_def sizeof_PhysicsObject_def)
  have len: "length (concat (map bytesOfObject
      (map (\<lambda>node. physicsObjectOf ((\<lambda>n. exampleNode) node)) [0, 1 :: nat]))) = 128"
    by (simp only: length_serialized length_map) (simp add: sizeof_PhysicsObject_def)
  from updateSSBO_overflow[OF mapped size over, of "\<lambda>n. exampleNode" True undefined]
  show ?thesis
    using mapped over len
    by (simp add: examplePhysics_def sizeof_PhysicsObject_def)
qed

text \<open>
  C7 as stated fails in a build with assertions: two objects for a buffer of one end the
  process in \<open>assert(false && ...)\<close> after the message; nothing is truncated or copied.
\<close>

theorem updateSSBO_debug_asserts:
  "updateSSBO False (\<lambda>n. exampleNode) [0, 1] examplePhysics =
     ([PhysicsSSBOOverflow 64 128],
      Inl (AssertionFailed ''Physics SSBO overflow: increase SSBO allocation size''))"
  by (simp add: updateSSBO_def Let_def examplePhysics_def sizeof_PhysicsObject_def)
section \<open>Device selection\<close>

lemma example_devices_suitable:
  "supportsVulkan1_4 exampleDiscreteGpu \<and> supportsGraphics exampleDiscreteGpu \<and>
   supportsAllExtensions exampleDiscreteGpu \<and>
   supportsVulkan1_4 exampleIntegratedGpu \<and> supportsGraphics exampleIntegratedGpu \<and>
   supportsAllExtensions exampleIntegratedGpu"
  by (simp add: supportsVulkan1_4_def supportsGraphics_def supportsAllExtensions_def
      exampleDiscreteGpu_def exampleIntegratedGpu_def requiredDeviceExtension_def
      VK_API_VERSION_1_4_def)

lemma example_device_scores:
  "deviceScore exampleDiscreteGpu = 14096" "deviceScore exampleIntegratedGpu = 17384"
  by (simp_all add: deviceScore_def exampleDiscreteGpu_def exampleIntegratedGpu_def)

text \<open>
  C2 at a failing input. Both example devices meet every mandatory requirement; the
  discrete one scores 10000 + 4096 and the integrated one 1000 + 16384, so the integrated
  device is selected, in either order of enumeration.
\<close>

theorem pickPhysicalDevice_integrated_over_discrete:
  "deviceType exampleDiscreteGpu = eDiscreteGpu \<and>
   deviceType exampleIntegratedGpu = eIntegratedGpu \<and>
   scoreDevices [exampleDiscreteGpu, exampleIntegratedGpu] =
     [(14096, exampleDiscreteGpu), (17384, exampleIntegratedGpu)] \<and>
   pickPhysicalDevice [exampleDiscreteGpu, exampleIntegratedGpu] = Inr exampleIntegratedGpu \<and>
   pickPhysicalDevice [exampleIntegratedGpu, exampleDiscreteGpu] = Inr exampleIntegratedGpu"
  using example_devices_suitable example_device_scores
  by (simp add: pickPhysicalDevice_def) (simp add: exampleDiscreteGpu_def exampleIntegratedGpu_def)


section \<open>Culling through the octree\<close>

lemma fle_trans: "fle a b \<Longrightarrow> fle b c \<Longrightarrow> fle a c"
  by (auto simp: fle_def)

lemma contains_both_intersects:
  assumes "AABB_contains b p" and "AABB_contains r p"
  shows "AABB_intersects b r"
proof -
  obtain x y z where p: "p = (x, y, z)" by (cases p)
  obtain bx1 by1 bz1 where b1: "aabb_min b = (bx1, by1, bz1)" by (cases "aabb_min b")
  obtain bx2 by2 bz2 where b2: "aabb_max b = (bx2, by2, bz2)" by (cases "aabb_max b")
  obtain rx1 ry1 rz1 where r1: "aabb_min r = (rx1, ry1, rz1)" by (cases "aabb_min r")
  obtain rx2 ry2 rz2 where r2: "aabb_max r = (rx2, ry2, rz2)" by (cases "aabb_max r")
  from assms show ?thesis
    unfolding AABB_contains_def AABB_intersects_def p b1 b2 r1 r2 fge_def
    by (auto intro: fle_trans)
qed

lemma foldl_append_results:
  assumes "\<And>c acc. c \<in> set cs \<Longrightarrow> f acc c = acc @ g c"
  shows "foldl f acc cs = acc @ concat (map g cs)"
  using assms by (induction cs arbitrary: acc) simp_all

text \<open>
  On a tree that matches the store, the query returns exactly the stored nodes whose world
  position is inside the range, each as often as it is stored, in the order of the tree.
\<close>

lemma Octree_query_current:
  "octreeCurrent store t \<Longrightarrow>
   Octree_query store rng t found =
     found @ filter (\<lambda>node. AABB_contains rng (getWorldPosition store node)) (storedNodes t)"
proof (induction t arbitrary: found)
  case (Octree b cap ns cs)
  let ?P = "\<lambda>node. AABB_contains rng (getWorldPosition store node)"
  from Octree.prems have inside:
    "\<forall>node \<in> set (ns @ concat (map storedNodes cs)). AABB_contains b (getWorldPosition store node)"
    and kids: "\<forall>c \<in> set cs. octreeCurrent store c"
    by (simp_all add: list_all_iff)
  show ?case
  proof (cases "AABB_intersects b rng")
    case False
    have "\<not> ?P node" if "node \<in> set (ns @ concat (map storedNodes cs))" for node
      using inside that False contains_both_intersects by blast
    then have "filter ?P (ns @ concat (map storedNodes cs)) = []"
      by (simp only: filter_empty_conv) blast
    with False show ?thesis by simp
  next
    case True
    have step: "Octree_query store rng c acc = acc @ filter ?P (storedNodes c)"
      if "c \<in> set cs" for c acc
      using Octree.IH[OF that] kids that by simp
    have "foldl (\<lambda>acc child. Octree_query store rng child acc) (found @ filter ?P ns) cs =
        (found @ filter ?P ns) @ concat (map (\<lambda>c. filter ?P (storedNodes c)) cs)"
      by (rule foldl_append_results) (simp add: step)
    moreover have "concat (map (\<lambda>c. filter ?P (storedNodes c)) cs) =
        filter ?P (concat (map storedNodes cs))"
      by (induction cs) simp_all
    ultimately show ?thesis using True by simp
  qed
qed

lemma subdivide_fresh:
  "concat (map storedNodes (subdivide ops b cap)) = [] \<and>
   list_all (octreeCurrent store) (subdivide ops b cap) \<and>
   list_all (\<lambda>c. capacity c = cap) (subdivide ops b cap)"
  by (simp add: subdivide_def Let_def split: prod.splits)

lemma insertIntoChildren_props:
  assumes ins: "\<And>c ok c'. c \<in> set cs \<Longrightarrow> ins c = Some (ok, c') \<Longrightarrow>
        (\<not> ok \<longrightarrow> c' = c) \<and>
        (ok \<longrightarrow> mset (storedNodes c') = add_mset n (mset (storedNodes c))) \<and>
        (octreeCurrent store c \<longrightarrow> octreeCurrent store c')"
    and res: "insertIntoChildren ins cs = Some (ok, cs')"
  shows "(\<not> ok \<longrightarrow> cs' = cs) \<and>
     (ok \<longrightarrow> mset (concat (map storedNodes cs')) =
              add_mset n (mset (concat (map storedNodes cs)))) \<and>
     (list_all (octreeCurrent store) cs \<longrightarrow> list_all (octreeCurrent store) cs')"
  using ins res
proof (induction cs arbitrary: ok cs')
  case Nil
  then show ?case by simp
next
  case (Cons c rest)
  from Cons.prems(2) obtain okc c' where c: "ins c = Some (okc, c')"
    by (auto split: option.splits)
  from Cons.prems(1)[OF _ c] have pc: "\<not> okc \<longrightarrow> c' = c"
    "okc \<longrightarrow> mset (storedNodes c') = add_mset n (mset (storedNodes c))"
    "octreeCurrent store c \<longrightarrow> octreeCurrent store c'" by simp_all
  show ?case
  proof (cases okc)
    case True
    with Cons.prems(2) c have "ok" "cs' = c' # rest" by simp_all
    with pc True show ?thesis by simp
  next
    case False
    with Cons.prems(2) c obtain rest' where
      r: "insertIntoChildren ins rest = Some (ok, rest')" and cs': "cs' = c' # rest'"
      by (auto split: option.splits)
    have "(\<not> ok \<longrightarrow> rest' = rest) \<and>
       (ok \<longrightarrow> mset (concat (map storedNodes rest')) =
                add_mset n (mset (concat (map storedNodes rest)))) \<and>
       (list_all (octreeCurrent store) rest \<longrightarrow> list_all (octreeCurrent store) rest')"
      by (rule Cons.IH[OF _ r]) (rule Cons.prems(1), simp_all)
    with pc False cs' show ?thesis by simp
  qed
qed

text \<open>
  What one \<open>insert\<close> does when it returns: it refuses exactly the nodes whose world
  position is outside the boundary and then changes nothing; otherwise the node is stored
  once more, somewhere below, and a tree that matched the store still matches it.
\<close>

lemma Octree_insert_props:
  "Octree_insert depth ops store n t = Some (ok, t') \<Longrightarrow>
     boundary t' = boundary t \<and>
     (ok \<longleftrightarrow> AABB_contains (boundary t) (getWorldPosition store n)) \<and>
     (\<not> ok \<longrightarrow> t' = t) \<and>
     (ok \<longrightarrow> mset (storedNodes t') = add_mset n (mset (storedNodes t))) \<and>
     (octreeCurrent store t \<longrightarrow> octreeCurrent store t')"
proof (induction depth arbitrary: t ok t')
  case 0
  then show ?case by simp
next
  case (Suc depth)
  obtain b cap ns cs where t: "t = Octree b cap ns cs" by (cases t)
  let ?p = "getWorldPosition store n"
  show ?case
  proof (cases "AABB_contains b ?p")
    case False
    with Suc.prems t have "\<not> ok" and "t' = Octree b cap ns cs" by auto
    with False t show ?thesis by simp
  next
    case inb: True
    show ?thesis
    proof (cases "length ns < capacityAsSize cap \<and> cs = []")
      case True
      with Suc.prems t inb have "ok" "t' = Octree b cap (ns @ [n]) cs" by simp_all
      with t inb True show ?thesis by (simp add: list_all_iff)
    next
      case False
      define cs0 where "cs0 = (if cs = [] then subdivide ops b cap else cs)"
      from Suc.prems t inb False obtain okc cs' where
        r: "insertIntoChildren (\<lambda>child. Octree_insert depth ops store n child) cs0 = Some (okc, cs')"
        and t': "t' = Octree b cap (if okc then ns else ns @ [n]) cs'" and ok: "ok"
        by (auto simp: cs0_def split: option.splits bool.splits if_splits)
      have props: "(\<not> okc \<longrightarrow> cs' = cs0) \<and>
         (okc \<longrightarrow> mset (concat (map storedNodes cs')) =
                  add_mset n (mset (concat (map storedNodes cs0)))) \<and>
         (list_all (octreeCurrent store) cs0 \<longrightarrow> list_all (octreeCurrent store) cs')"
        by (rule insertIntoChildren_props[OF _ r]) (use Suc.IH in blast)
      have st0: "mset (concat (map storedNodes cs0)) = mset (concat (map storedNodes cs))"
        using subdivide_fresh[of ops b cap store] by (simp add: cs0_def)
      have cur0: "list_all (octreeCurrent store) cs \<Longrightarrow> list_all (octreeCurrent store) cs0"
        using subdivide_fresh[of ops b cap store] by (simp add: cs0_def)
      have m: "mset (storedNodes t') = add_mset n (mset (storedNodes t))"
        using props st0 by (cases okc) (simp_all add: t t')
      have c: "octreeCurrent store t'" if cur: "octreeCurrent store t"
      proof -
        from cur t have a: "\<forall>x \<in> set (storedNodes t). AABB_contains b (getWorldPosition store x)"
          and k: "list_all (octreeCurrent store) cs" by (simp_all add: list_all_iff)
        have "set_mset (mset (storedNodes t')) = insert n (set_mset (mset (storedNodes t)))"
          by (simp only: m set_mset_add_mset_insert)
        then have "set (storedNodes t') = insert n (set (storedNodes t))" by simp
        with a inb have "\<forall>x \<in> set (storedNodes t'). AABB_contains b (getWorldPosition store x)"
          by simp
        moreover have "list_all (octreeCurrent store) cs'" using props cur0[OF k] by simp
        ultimately show ?thesis by (simp add: t' list_all_iff)
      qed
      show ?thesis using t t' ok inb m c by simp
    qed
  qed
qed

lemma insertAll_props:
  "insertAll depth ops store ns t = Some t' \<Longrightarrow>
     boundary t' = boundary t \<and>
     mset (storedNodes t') =
       mset (storedNodes t) +
       mset (filter (\<lambda>n. AABB_contains (boundary t) (getWorldPosition store n)) ns) \<and>
     (octreeCurrent store t \<longrightarrow> octreeCurrent store t')"
proof (induction ns arbitrary: t)
  case Nil
  then show ?case by simp
next
  case (Cons n ns)
  from Cons.prems obtain ok t1 where
    i: "Octree_insert depth ops store n t = Some (ok, t1)"
    and r: "insertAll depth ops store ns t1 = Some t'"
    by (auto split: option.splits)
  note p = Octree_insert_props[OF i]
  note q = Cons.IH[OF r]
  show ?case
  proof (cases ok)
    case True
    with p q show ?thesis by simp
  next
    case False
    with p q show ?thesis by simp
  qed
qed

lemma insertIntoChildren_returns:
  "(\<And>c. c \<in> set cs \<Longrightarrow> ins c \<noteq> None) \<Longrightarrow> insertIntoChildren ins cs \<noteq> None"
proof (induction cs)
  case Nil
  then show ?case by simp
next
  case (Cons c rest)
  from Cons.prems[of c] obtain ok c' where "ins c = Some (ok, c')" by auto
  moreover from Cons have "insertIntoChildren ins rest \<noteq> None" by simp
  ultimately show ?case by (cases ok) auto
qed

lemma levels_child: "c \<in> set cs \<Longrightarrow> levels c \<le> foldr max (map levels cs) 0"
  by (induction cs) auto

text \<open>
  With a positive capacity throughout, \<open>insert\<close> returns: a recursion depth of one more
  than the number of levels of the tree is enough (the extra level is the subdivision of a full
  leaf).
\<close>

lemma Octree_insert_returns:
  "capacityPositive t \<Longrightarrow> levels t < depth \<Longrightarrow> Octree_insert depth ops store n t \<noteq> None"
proof (induction depth arbitrary: t)
  case 0
  then show ?case by simp
next
  case (Suc depth)
  obtain b cap ns cs where t: "t = Octree b cap ns cs" by (cases t)
  from Suc.prems t have cap: "0 < capacityAsSize cap" and kids: "list_all capacityPositive cs"
    and h: "foldr max (map levels cs) 0 < depth" by simp_all
  have "insertIntoChildren (\<lambda>child. Octree_insert depth ops store n child)
          (if cs = [] then subdivide ops b cap else cs) \<noteq> None"
  proof (rule insertIntoChildren_returns)
    fix c assume c: "c \<in> set (if cs = [] then subdivide ops b cap else cs)"
    show "Octree_insert depth ops store n c \<noteq> None"
    proof (cases "cs = []")
      case True
      from h obtain k where k: "depth = Suc k" by (cases depth) auto
      from c True obtain cb where "c = Octree cb cap [] []"
        by (auto simp: subdivide_def Let_def split: prod.splits)
      with cap k show ?thesis by auto
    next
      case False
      with c have "c \<in> set cs" by simp
      with kids h levels_child[of c cs] have "capacityPositive c" "levels c < depth"
        by (auto simp: list_all_iff)
      then show ?thesis by (rule Suc.IH)
    qed
  qed
  then show ?case by (auto simp: t split: option.splits bool.splits)
qed

text \<open>
  So on a scene whose octree matches the node store, the culling step of \<open>Scene::draw\<close>
  hands to \<open>drawNode\<close> exactly the stored nodes whose world position is inside the queried
  box (the frozen one while culling is frozen), none of them more often than it is stored.
\<close>

lemma Scene_cull_current:
  assumes "root sc = Some r" and "octree sc = Some t" and "octreeCurrent store t"
  shows "snd (Scene_cull store sc cullBounds) =
           filter (\<lambda>node. AABB_contains (if freezeCulling sc then frozenCullBounds sc else cullBounds)
                              (getWorldPosition store node))
             (storedNodes t)"
  using assms by (simp add: Scene_cull_def Octree_query_current)

lemma Scene_cull_distinct:
  assumes "root sc = Some r" and "octree sc = Some t" and "octreeCurrent store t"
    and "distinct (storedNodes t)"
  shows "distinct (snd (Scene_cull store sc cullBounds))"
  using assms by (simp add: Scene_cull_current)

text \<open>
  C10 at a failing input. The five nodes are inserted, node 4 into the octant from
  (0, 0, 0) to (1000, 1000, 1000); node 4 is then moved to (-20, 10, 10) and the octree is
  not rebuilt. Its world position is inside the cull box around the camera, which reaches
  from -4010 to -10 in x, but the box does not intersect the octant that still stores the
  node, so the query skips it: \<open>Scene::draw\<close> draws nothing. On the rebuilt octree the
  same query returns node 4.
\<close>

theorem Scene_cull_stale_octree:
  "insertAll 3 octreeExampleOps storeAtInsert [0, 1, 2, 3, 4] (Octree worldBounds 4 [] []) =
     Some staleOctree \<and>
   AABB_contains exampleCullBounds (getWorldPosition storeMoved 4) \<and>
   snd (Scene_cull storeMoved staleScene exampleCullBounds) = [] \<and>
   map_option (\<lambda>t. snd (Scene_cull storeMoved (staleScene\<lparr>octree := Some t\<rparr>) exampleCullBounds))
     (insertAll 3 octreeExampleOps storeMoved [0, 1, 2, 3, 4] (Octree worldBounds 4 [] [])) =
     Some [4]"
  by code_simp

end
